theory Spec2Isabelle
  imports Complex_Main "HOL-Library.Log_Nat" "HOL-Library.Code_Target_Numeral"
begin

section \<open>The JavaScript runtime, as far as the handlers use it\<close>

text \<open>
  A string is the list of the bytes of its UTF-8 encoding. The characters the handlers
  test for (letters, digits, underscore, quote) are ASCII; white space also has members
  outside ASCII, which are matched by their encodings.
\<close>

subsection \<open>Numbers\<close>

text \<open>
  A number the handlers compute is a double whose value is an integer, the negative zero,
  \<open>NaN\<close> or an infinity. \<open>Integer i\<close> stands for the double of value \<open>i\<close>; the
  operations below only build it for values a double has.
\<close>

datatype number = Integer int | NegZero | NaN | PosInfinity | NegInfinity

text \<open>The integer nearest to \<open>a / b\<close>, for \<open>b\<close> positive; a tie goes to the even one.\<close>

definition round_half_even :: "int \<Rightarrow> int \<Rightarrow> int" where
  "round_half_even a b =
    (let q = a div b; r = a mod b
     in if 2 * r < b then q else if b < 2 * r then q + 1 else if even q then q else q + 1)"

text \<open>
  For positive integers \<open>a\<close> and \<open>b\<close>, the integer \<open>l\<close> with
  \<open>2^l \<le> a / b < 2^(l + 1)\<close>.
\<close>

definition floor_log2 :: "int \<Rightarrow> int \<Rightarrow> int" where
  "floor_log2 a b =
    (let l = bitlen a - bitlen b
     in if (if 0 \<le> l then b * 2 ^ nat l \<le> a else b \<le> a * 2 ^ nat (- l)) then l else l - 1)"

text \<open>
  The double nearest to \<open>a / b\<close>, for positive integers \<open>a\<close> and \<open>b\<close>, as a pair
  \<open>(m, e)\<close> of value \<open>m * 2^e\<close>: 53 significant bits, the last one no finer than
  \<open>2^-1074\<close>, a tie to the even significand. The exponent is not bounded above here; a
  value of \<open>2^1024\<close> or more is an overflow.
\<close>

definition nearest_double :: "int \<Rightarrow> int \<Rightarrow> int \<times> int" where
  "nearest_double a b =
    (let e = max (floor_log2 a b - 52) (- 1074)
     in (if 0 \<le> e then round_half_even a (b * 2 ^ nat e)
         else round_half_even (a * 2 ^ nat (- e)) b, e))"

text \<open>The floor and the ceiling of \<open>m * 2^e\<close>.\<close>

definition floor_of :: "int \<times> int \<Rightarrow> int" where
  "floor_of d = (case d of (m, e) \<Rightarrow> if 0 \<le> e then m * 2 ^ nat e else m div 2 ^ nat (- e))"

definition ceiling_of :: "int \<times> int \<Rightarrow> int" where
  "ceiling_of d =
    (case d of (m, e) \<Rightarrow> if 0 \<le> e then m * 2 ^ nat e else - ((- m) div 2 ^ nat (- e)))"

text \<open>
  The double an integer is rounded to, as a number. The rounded magnitude \<open>v\<close> overflows
  when \<open>2^1024 \<le> v\<close>, that is when \<open>v\<close> has more than 1024 bits.
\<close>

definition round_to_double :: "int \<Rightarrow> number" where
  "round_to_double n =
    (if n = 0 then Integer 0
     else
       (let v = floor_of (nearest_double \<bar>n\<bar> 1)
        in if 1024 < bitlen v then (if n < 0 then NegInfinity else PosInfinity)
           else Integer (sgn n * v)))"

fun negative :: "number \<Rightarrow> bool" where
  "negative (Integer i) = (i < 0)"
| "negative NegZero = True"
| "negative NegInfinity = True"
| "negative _ = False"

fun infinite :: "number \<Rightarrow> bool" where
  "infinite PosInfinity = True"
| "infinite NegInfinity = True"
| "infinite _ = False"

fun magnitude :: "number \<Rightarrow> int" where
  "magnitude (Integer i) = \<bar>i\<bar>"
| "magnitude _ = 0"

text \<open>\<open>a - 1\<close>, \<open>a * b\<close> and \<open>Math.ceil(a / b)\<close> on these numbers.\<close>

definition minus_one :: "number \<Rightarrow> number" where
  "minus_one a =
    (case a of
       Integer i \<Rightarrow> if i = 1 then Integer 0 else round_to_double (i - 1)
     | NegZero \<Rightarrow> Integer (- 1)
     | other \<Rightarrow> other)"

definition times :: "number \<Rightarrow> number \<Rightarrow> number" where
  "times a b =
    (if a = NaN \<or> b = NaN then NaN
     else if infinite a \<or> infinite b then
       (if (\<not> infinite a \<and> magnitude a = 0) \<or> (\<not> infinite b \<and> magnitude b = 0) then NaN
        else if negative a \<noteq> negative b then NegInfinity else PosInfinity)
     else if magnitude a = 0 \<or> magnitude b = 0 then
       (if negative a \<noteq> negative b then NegZero else Integer 0)
     else
       round_to_double ((if negative a \<noteq> negative b then - 1 else 1) * (magnitude a * magnitude b)))"

definition ceil_of_quotient :: "number \<Rightarrow> number \<Rightarrow> number" where
  "ceil_of_quotient a b =
    (if a = NaN \<or> b = NaN then NaN
     else if infinite a then
       (if infinite b then NaN
        else if negative a \<noteq> negative b then NegInfinity else PosInfinity)
     else if infinite b then
       (if negative a \<noteq> negative b then NegZero else Integer 0)
     else if magnitude b = 0 then
       (if magnitude a = 0 then NaN
        else if negative a \<noteq> negative b then NegInfinity else PosInfinity)
     else if magnitude a = 0 then
       (if negative a \<noteq> negative b then NegZero else Integer 0)
     else
       (let v = nearest_double (magnitude a) (magnitude b)
        in if negative a \<noteq> negative b
           then (if floor_of v = 0 then NegZero else Integer (- floor_of v))
           else Integer (ceiling_of v)))"

subsection \<open>Values\<close>

text \<open>
  A value of a row, a parameter or a payload. A number that only comes out of a
  database row and is not an integer is carried as the text \<open>String\<close> prints for it. An
  object (array, \<open>Date\<close>, \<open>Buffer\<close>, plain object) is carried as the two texts the
  runtime derives from it: what \<open>JSON.stringify\<close> returns and what \<open>String\<close> returns.
\<close>

datatype js_value =
  Null
| Undefined
| Boolean bool
| Number number
| Fraction string
| Str string
| Object string string

datatype js_type = T_undefined | T_object | T_boolean | T_number | T_string

fun typeof :: "js_value \<Rightarrow> js_type" where
  "typeof Null = T_object"
| "typeof Undefined = T_undefined"
| "typeof (Boolean _) = T_boolean"
| "typeof (Number _) = T_number"
| "typeof (Fraction _) = T_number"
| "typeof (Str _) = T_string"
| "typeof (Object _ _) = T_object"

subsection \<open>Numbers as strings\<close>

definition digit_char :: "nat \<Rightarrow> char" where
  "digit_char d = char_of (48 + d)"

fun decimal :: "nat \<Rightarrow> string" where
  "decimal n = (if n < 10 then [digit_char n] else decimal (n div 10) @ [digit_char (n mod 10)])"

declare decimal.simps [simp del]

definition int_to_string :: "int \<Rightarrow> string" where
  "int_to_string i = (if i < 0 then CHR ''-'' # decimal (nat (- i)) else decimal (nat i))"

text \<open>
  From \<open>10^21\<close> on, \<open>String\<close> writes a number \<open>x\<close> with an exponent: digits \<open>s\<close> and
  an exponent \<open>n\<close> such that \<open>s\<close> has \<open>k\<close> digits and \<open>s * 10^(n - k)\<close> is read back as
  \<open>x\<close>, with \<open>k\<close> as small as possible (at most 17), the \<open>s\<close> nearest to \<open>x\<close> when
  there are several, the even one in a tie.
\<close>

definition candidates :: "int \<Rightarrow> nat \<Rightarrow> (int \<times> nat) list" where
  "candidates x k =
    (let n = length (decimal (nat x));
         s = x div 10 ^ (n - k)
     in filter (\<lambda>(s, n). round_to_double (s * 10 ^ (n - k)) = Integer x)
          [(s, n), (if s + 1 = 10 ^ k then (10 ^ (k - 1), n + 1) else (s + 1, n))])"

definition closest :: "int \<Rightarrow> nat \<Rightarrow> (int \<times> nat) list \<Rightarrow> int \<times> nat" where
  "closest x k cs =
    (case cs of
       [c] \<Rightarrow> c
     | [(s, n), (t, m)] \<Rightarrow>
         if x - s * 10 ^ (n - k) < t * 10 ^ (m - k) - x then (s, n)
         else if t * 10 ^ (m - k) - x < x - s * 10 ^ (n - k) then (t, m)
         else if even s then (s, n) else (t, m)
     | _ \<Rightarrow> (x, length (decimal (nat x))))"

definition exponent_form :: "int \<Rightarrow> string" where
  "exponent_form x =
    (case find (\<lambda>k. candidates x k \<noteq> []) [1 ..< 18] of
       None \<Rightarrow> decimal (nat x)
     | Some k \<Rightarrow>
         (case closest x k (candidates x k) of
            (s, n) \<Rightarrow>
              hd (decimal (nat s)) # (if k = 1 then [] else CHR ''.'' # tl (decimal (nat s)))
              @ ''e+'' @ decimal (n - 1)))"

fun number_to_string :: "number \<Rightarrow> string" where
  "number_to_string (Integer i) =
     (if \<bar>i\<bar> < 10 ^ 21 then int_to_string i
      else (if i < 0 then ''-'' else []) @ exponent_form \<bar>i\<bar>)"
| "number_to_string NegZero = ''0''"
| "number_to_string NaN = ''NaN''"
| "number_to_string PosInfinity = ''Infinity''"
| "number_to_string NegInfinity = ''-Infinity''"

text \<open>\<open>String(value)\<close>, which is also what a template literal puts in for a value.\<close>

fun ToString :: "js_value \<Rightarrow> string" where
  "ToString Null = ''null''"
| "ToString Undefined = ''undefined''"
| "ToString (Boolean b) = (if b then ''true'' else ''false'')"
| "ToString (Number n) = number_to_string n"
| "ToString (Fraction s) = s"
| "ToString (Str s) = s"
| "ToString (Object encoded str) = str"

text \<open>
  \<open>JSON.stringify(value)\<close>, which the handlers call on values of type \<open>object\<close>
  only.
\<close>

fun JSON_stringify :: "js_value \<Rightarrow> string" where
  "JSON_stringify (Object encoded str) = encoded"
| "JSON_stringify Null = ''null''"

definition join :: "string \<Rightarrow> string list \<Rightarrow> string" where
  "join sep xs = (case xs of [] \<Rightarrow> [] | x # rest \<Rightarrow> x @ concat (map (\<lambda>y. sep @ y) rest))"

definition code_of :: "char \<Rightarrow> nat" where
  "code_of c = of_char c"

text \<open>
  White space and line terminators, as \<open>trim\<close> and \<open>parseInt\<close> skip them: tab, line
  feed, vertical tab, form feed, carriage return, space, and the encodings of U+00A0,
  U+1680, U+2000 to U+200A, U+2028, U+2029, U+202F, U+205F, U+3000 and U+FEFF.
\<close>

definition white_space :: "string list" where
  "white_space =
    [[CHR 0x09], [CHR 0x0A], [CHR 0x0B], [CHR 0x0C], [CHR 0x0D], [CHR 0x20],
     [CHR 0xC2, CHR 0xA0], [CHR 0xE1, CHR 0x9A, CHR 0x80],
     [CHR 0xE2, CHR 0x80, CHR 0x80], [CHR 0xE2, CHR 0x80, CHR 0x81],
     [CHR 0xE2, CHR 0x80, CHR 0x82], [CHR 0xE2, CHR 0x80, CHR 0x83],
     [CHR 0xE2, CHR 0x80, CHR 0x84], [CHR 0xE2, CHR 0x80, CHR 0x85],
     [CHR 0xE2, CHR 0x80, CHR 0x86], [CHR 0xE2, CHR 0x80, CHR 0x87],
     [CHR 0xE2, CHR 0x80, CHR 0x88], [CHR 0xE2, CHR 0x80, CHR 0x89],
     [CHR 0xE2, CHR 0x80, CHR 0x8A], [CHR 0xE2, CHR 0x80, CHR 0xA8],
     [CHR 0xE2, CHR 0x80, CHR 0xA9], [CHR 0xE2, CHR 0x80, CHR 0xAF],
     [CHR 0xE2, CHR 0x81, CHR 0x9F], [CHR 0xE3, CHR 0x80, CHR 0x80],
     [CHR 0xEF, CHR 0xBB, CHR 0xBF]]"

fun startsWith :: "string \<Rightarrow> string \<Rightarrow> bool" where
  "startsWith s [] = True"
| "startsWith [] (p # ps) = False"
| "startsWith (c # cs) (p # ps) = (c = p \<and> startsWith cs ps)"

text \<open>Dropping from the front of a string as long as one of the sequences starts it.\<close>

function strip :: "string list \<Rightarrow> string \<Rightarrow> string" where
  "strip seqs s =
    (case find (\<lambda>w. w \<noteq> [] \<and> startsWith s w) seqs of
       None \<Rightarrow> s
     | Some w \<Rightarrow> strip seqs (drop (length w) s))"
  by pat_completeness auto
termination
proof (relation "measure (\<lambda>(seqs, s). length s)")
  show "wf (measure (\<lambda>(seqs, s). length s))" by simp
next
  fix seqs :: "string list" and s w :: string
  assume "find (\<lambda>w. w \<noteq> [] \<and> startsWith s w) seqs = Some w"
  then have "w \<noteq> []" and "startsWith s w" by (auto simp add: find_Some_iff)
  then have "s \<noteq> []" by (cases s; cases w) auto
  with \<open>w \<noteq> []\<close> show "((seqs, drop (length w) s), (seqs, s)) \<in> measure (\<lambda>(seqs, s). length s)"
    by simp
qed

declare strip.simps [simp del]

definition trim :: "string \<Rightarrow> string" where
  "trim s = rev (strip (map rev white_space) (rev (strip white_space s)))"

definition toLowerCase :: "string \<Rightarrow> string" where
  "toLowerCase s =
    map (\<lambda>c. if 65 \<le> code_of c \<and> code_of c \<le> 90 then char_of (code_of c + 32) else c) s"

definition toUpperCase :: "string \<Rightarrow> string" where
  "toUpperCase s =
    map (\<lambda>c. if 97 \<le> code_of c \<and> code_of c \<le> 122 then char_of (code_of c - 32) else c) s"

fun str_includes :: "string \<Rightarrow> string \<Rightarrow> bool" where
  "str_includes [] pat = (pat = [])"
| "str_includes (c # cs) pat = (startsWith (c # cs) pat \<or> str_includes cs pat)"

subsection \<open>\<open>parseInt\<close>\<close>

text \<open>
  \<open>parseInt(string)\<close> with no radix: leading white space and one sign are dropped, a
  \<open>0x\<close> prefix selects base 16, and the longest run of digits is read. With no digit the
  result is \<open>NaN\<close>; otherwise it is the integer the digits write, rounded to a double,
  with the sign, so \<open>-0\<close> is the negative zero. (Past 20 significant digits the language
  lets an engine replace further digits by zeros; the digits are all read here.)
\<close>

definition digit_value :: "char \<Rightarrow> nat option" where
  "digit_value c =
    (let n = code_of c in
     if 48 \<le> n \<and> n \<le> 57 then Some (n - 48)
     else if 97 \<le> n \<and> n \<le> 122 then Some (n - 87)
     else if 65 \<le> n \<and> n \<le> 90 then Some (n - 55)
     else None)"

definition is_digit :: "nat \<Rightarrow> char \<Rightarrow> bool" where
  "is_digit radix c = (case digit_value c of None \<Rightarrow> False | Some d \<Rightarrow> d < radix)"

definition digits_value :: "nat \<Rightarrow> string \<Rightarrow> int" where
  "digits_value radix z = foldl (\<lambda>acc c. acc * int radix + int (the (digit_value c))) 0 z"

definition parseInt_string :: "string \<Rightarrow> number" where
  "parseInt_string input =
    (let s = strip white_space input;
         minus = (s \<noteq> [] \<and> hd s = CHR ''-'');
         s1 = (if s \<noteq> [] \<and> (hd s = CHR ''+'' \<or> hd s = CHR ''-'') then tl s else s);
         hex = (take 2 s1 = ''0x'' \<or> take 2 s1 = ''0X'');
         radix = (if hex then 16 else 10);
         s2 = (if hex then drop 2 s1 else s1);
         z = takeWhile (is_digit radix) s2
     in if z = [] then NaN
        else if digits_value radix z = 0 then (if minus then NegZero else Integer 0)
        else round_to_double ((if minus then - 1 else 1) * digits_value radix z))"

text \<open>\<open>parseInt(value)\<close>: the value is first turned into a string.\<close>

definition parseInt :: "js_value \<Rightarrow> number" where
  "parseInt v = parseInt_string (ToString v)"

subsection \<open>Regular expressions\<close>

text \<open>
  The regular expressions of the source use character classes, sequence and \<open>*\<close>, between
  \<open>^\<close> and \<open>$\<close>. A class is a list of ranges: \<open>[a-zA-Z_]\<close> is the ranges \<open>a-z\<close>,
  \<open>A-Z\<close> and \<open>_-_\<close>. \<open>Epsilon\<close> and \<open>Never\<close> only arise while matching.
\<close>

datatype regex =
  Class "(char \<times> char) list"
| Seq regex regex
| Star regex
| Epsilon
| Never

definition in_class :: "(char \<times> char) list \<Rightarrow> char \<Rightarrow> bool" where
  "in_class ranges c = list_ex (\<lambda>(lo, hi). code_of lo \<le> code_of c \<and> code_of c \<le> code_of hi) ranges"

fun nullable :: "regex \<Rightarrow> bool" where
  "nullable (Class ranges) = False"
| "nullable (Seq r s) = (nullable r \<and> nullable s)"
| "nullable (Star r) = True"
| "nullable Epsilon = True"
| "nullable Never = False"

text \<open>
  What is left of the expression after reading one character. The two ways of going on
  after a sequence whose first part may be empty are kept as a list of alternatives.
\<close>

fun derivative :: "char \<Rightarrow> regex \<Rightarrow> regex list" where
  "derivative c (Class ranges) = (if in_class ranges c then [Epsilon] else [])"
| "derivative c (Seq r s) =
     map (\<lambda>r'. Seq r' s) (derivative c r) @ (if nullable r then derivative c s else [])"
| "derivative c (Star r) = map (\<lambda>r'. Seq r' (Star r)) (derivative c r)"
| "derivative c Epsilon = []"
| "derivative c Never = []"

fun matches :: "regex list \<Rightarrow> string \<Rightarrow> bool" where
  "matches rs [] = list_ex nullable rs"
| "matches rs (c # cs) = matches (concat (map (derivative c) rs)) cs"

text \<open>
  \<open>/^r$/.test(s)\<close>: without the \<open>m\<close> flag, \<open>^\<close> and \<open>$\<close> are the two ends of the
  input, so the whole string has to match.
\<close>

definition test :: "regex \<Rightarrow> string \<Rightarrow> bool" where
  "test r s = matches [r] s"

text \<open>\<open>/^[a-zA-Z_][a-zA-Z0-9_]*$/\<close>, the expression every route tests names with.\<close>

definition identifier_pattern :: regex where
  "identifier_pattern =
    Seq (Class [(CHR ''a'', CHR ''z''), (CHR ''A'', CHR ''Z''), (CHR ''_'', CHR ''_'')])
        (Star (Class [(CHR ''a'', CHR ''z''), (CHR ''A'', CHR ''Z''), (CHR ''0'', CHR ''9''),
                      (CHR ''_'', CHR ''_'')]))"

text \<open>
  The language of an expression, for stating what \<open>test\<close> decides: the strings that are
  a match as the expression reads.
\<close>

fun lang :: "regex \<Rightarrow> string set" where
  "lang (Class ranges) = {[c] | c. in_class ranges c}"
| "lang (Seq r s) = {u @ v | u v. u \<in> lang r \<and> v \<in> lang s}"
| "lang (Star r) = {concat ws | ws. set ws \<subseteq> lang r}"
| "lang Epsilon = {[]}"
| "lang Never = {}"

section \<open>Database routes (routes/database.js)\<close>

subsection \<open>The database client, requests and responses\<close>

text \<open>
  What the driver throws: \<open>err.code\<close> (absent on errors that carry none) and
  \<open>err.message\<close>. A \<open>TypeError\<close> of the runtime inside a \<open>try\<close> block is caught
  like a driver error and has no code.
\<close>

record db_error =
  err_code :: "string option"
  err_message :: string

definition type_error :: "string \<Rightarrow> db_error" where
  "type_error what = \<lparr> err_code = None, err_message = ''TypeError: '' @ what \<rparr>"

text \<open>
  A row is an object: its columns in the order \<open>Object.keys\<close> lists them. A result has
  the rows, the names of its fields, the row count (\<open>null\<close> for some commands) and the
  command tag.
\<close>

type_synonym row = "(string \<times> js_value) list"

record query_result =
  rows :: "row list"
  field_names :: "string list"
  rowCount :: "nat option"
  command :: string

text \<open>
  The database is outside the program. \<open>connect\<close> is the error \<open>client.connect()\<close>
  rejects with, if it does; \<open>run\<close> answers \<open>client.query(text, params)\<close>. Every call
  a handler makes on its client is logged, so that what reaches the database can be
  stated.
\<close>

record database =
  connect :: "db_error option"
  run :: "string \<Rightarrow> js_value list \<Rightarrow> db_error + query_result"

datatype event = Connect | Query string "js_value list" | End

text \<open>
  A response: status, the headers set by hand, and the body. A JSON body is a tree over
  values; \<open>Opaque\<close> is a value that is not data (a function or a built-in object).
\<close>

datatype payload =
  Val js_value
| List "payload list"
| Fields "(string \<times> payload) list"
| Opaque

datatype body = JsonBody payload | TextBody string | Rendered string payload

record response =
  status :: nat
  headers :: "(string \<times> string) list"
  body :: body

definition json :: "nat \<Rightarrow> (string \<times> payload) list \<Rightarrow> response" where
  "json code fs = \<lparr> status = code, headers = [], body = JsonBody (Fields fs) \<rparr>"

definition row_payload :: "row \<Rightarrow> payload" where
  "row_payload r = Fields (map (\<lambda>(k, v). (k, Val v)) r)"

definition rows_payload :: "row list \<Rightarrow> payload" where
  "rows_payload rs = List (map row_payload rs)"

text \<open>\<open>row.name\<close>: the column's value, \<open>undefined\<close> when the row has no such column.\<close>

definition get :: "row \<Rightarrow> string \<Rightarrow> js_value" where
  "get r k = (case map_of r k of None \<Rightarrow> Undefined | Some v \<Rightarrow> v)"

text \<open>\<open>rows[0]\<close> where the handler passes it on: \<open>undefined\<close> when there is no row.\<close>

definition first_row :: "row list \<Rightarrow> payload" where
  "first_row rs = (case rs of [] \<Rightarrow> Val Undefined | r # _ \<Rightarrow> row_payload r)"

definition quoted :: "string \<Rightarrow> string" where
  "quoted s = [CHR 0x22] @ s @ [CHR 0x22]"

subsection \<open>Running a handler's \<open>try\<close> block\<close>

text \<open>
  An action runs against the list of calls made so far and either throws or returns.
\<close>

type_synonym 'a action = "event list \<Rightarrow> (db_error + 'a) \<times> event list"

definition query :: "database \<Rightarrow> string \<Rightarrow> js_value list \<Rightarrow> query_result action" where
  "query db text params evs = (run db text params, evs @ [Query text params])"

definition and_then :: "'a action \<Rightarrow> ('a \<Rightarrow> 'b action) \<Rightarrow> 'b action" where
  "and_then m f evs = (case m evs of (Inl e, evs') \<Rightarrow> (Inl e, evs') | (Inr x, evs') \<Rightarrow> f x evs')"

definition return :: "'a \<Rightarrow> 'a action" where
  "return x evs = (Inr x, evs)"

definition throw :: "db_error \<Rightarrow> 'a action" where
  "throw e evs = (Inl e, evs)"

text \<open>
  \<open>Promise.all([client.query(..), client.query(..)])\<close>: both queries are handed to the
  client, which runs them in order; the first rejection is what \<open>await\<close> throws.
\<close>

definition both :: "'a action \<Rightarrow> 'b action \<Rightarrow> ('a \<times> 'b) action" where
  "both m1 m2 evs =
    (let (r1, evs1) = m1 evs; (r2, evs2) = m2 evs1
     in (case r1 of
           Inl e \<Rightarrow> Inl e
         | Inr a \<Rightarrow> (case r2 of Inl e \<Rightarrow> Inl e | Inr b \<Rightarrow> Inr (a, b)),
         evs2))"

text \<open>
  \<open>const client = getNewClient(); try { await client.connect(); ... } catch (err) { ... }
  finally { await client.end(); }\<close>
\<close>

definition with_client ::
  "database \<Rightarrow> response action \<Rightarrow> (db_error \<Rightarrow> response) \<Rightarrow> response \<times> event list" where
  "with_client db handler catch =
    (case connect db of
       Some e \<Rightarrow> (catch e, [Connect, End])
     | None \<Rightarrow>
         (case handler [Connect] of
            (Inl e, evs) \<Rightarrow> (catch e, evs @ [End])
          | (Inr r, evs) \<Rightarrow> (r, evs @ [End])))"

subsection \<open>The shared error handler\<close>

text \<open>
  The object literal \<open>errorMessages\<close>, in source order. \<open>errorMessages[err.code]\<close> is a
  property read: it finds the literal's own keys first and then what every plain object
  inherits from \<open>Object.prototype\<close>, whose values are functions or objects and not
  strings. An absent code is read as the key \<open>undefined\<close>.
\<close>

definition errorMessages :: "(string \<times> string) list" where
  "errorMessages =
    [(''42P01'', ''Table not found''),
     (''42703'', ''Column not found''),
     (''23505'', ''Duplicate key violation''),
     (''23502'', ''Not null violation''),
     (''23503'', ''Foreign key violation''),
     (''42601'', ''Syntax error in SQL''),
     (''42P07'', ''Table already exists''),
     (''ECONNREFUSED'', ''Database connection refused''),
     (''ENOTFOUND'', ''Database host not found''),
     (''28P01'', ''Authentication failed'')]"

definition object_prototype_keys :: "string list" where
  "object_prototype_keys =
    [''constructor'', ''toString'', ''toLocaleString'', ''valueOf'', ''hasOwnProperty'',
     ''isPrototypeOf'', ''propertyIsEnumerable'', ''__proto__'', ''__defineGetter__'',
     ''__defineSetter__'', ''__lookupGetter__'', ''__lookupSetter__'']"

datatype property = Own string | Inherited | Missing

definition property_key :: "string option \<Rightarrow> string" where
  "property_key c = (case c of None \<Rightarrow> ''undefined'' | Some k \<Rightarrow> k)"

definition get_property :: "(string \<times> string) list \<Rightarrow> string \<Rightarrow> property" where
  "get_property obj k =
    (case map_of obj k of
       Some v \<Rightarrow> Own v
     | None \<Rightarrow> if k \<in> set object_prototype_keys then Inherited else Missing)"

definition optional :: "string option \<Rightarrow> js_value" where
  "optional s = (case s of None \<Rightarrow> Undefined | Some t \<Rightarrow> Str t)"

text \<open>
  \<open>handleDatabaseError(err, res, context)\<close>; \<open>node_env\<close> is
  \<open>process.env.NODE_ENV\<close>. The context only goes to the console. An empty message is
  falsy, but none of the literal's is empty.
\<close>

definition handleDatabaseError :: "string option \<Rightarrow> db_error \<Rightarrow> response" where
  "handleDatabaseError node_env err =
    (let userFriendlyMessage =
       (case get_property errorMessages (property_key (err_code err)) of
          Own m \<Rightarrow> Val (Str m)
        | Inherited \<Rightarrow> Opaque
        | Missing \<Rightarrow> Val (Str ''Database operation failed''))
     in json 500
          [(''error'', userFriendlyMessage),
           (''details'', Val (if node_env = Some ''development''
                              then Str (err_message err) else Undefined)),
           (''code'', Val (optional (err_code err)))])"

text \<open>
  \<open>!tableName || !/^[a-zA-Z_][a-zA-Z0-9_]*$/.test(tableName)\<close> is the negation of this.
\<close>

definition table_name_ok :: "string \<Rightarrow> bool" where
  "table_name_ok tableName = (tableName \<noteq> [] \<and> test identifier_pattern tableName)"

definition invalid_table_name :: response where
  "invalid_table_name = json 400 [(''error'', Val (Str ''Invalid table name provided''))]"

subsection \<open>SQL text\<close>

text \<open>
  The statements are the source's template literals with each run of white space
  written as one space and none at the ends; \<open>quoted x\<close> is \<open>"${x}"\<close>.
\<close>

definition schema_columns_sql :: string where
  "schema_columns_sql =
    ''SELECT column_name, data_type, is_nullable, column_default, '' @
    ''character_maximum_length, numeric_precision, numeric_scale, '' @
    ''col_description(pgc.oid, cols.ordinal_position) as column_comment '' @
    ''FROM information_schema.columns cols '' @
    ''LEFT JOIN pg_class pgc ON pgc.relname = cols.table_name '' @
    ''WHERE table_name = $1 AND table_schema = 'public' ORDER BY ordinal_position;''"

definition primary_keys_sql :: string where
  "primary_keys_sql =
    ''SELECT a.attname as column_name FROM pg_index i '' @
    ''JOIN pg_attribute a ON a.attrelid = i.indrelid AND a.attnum = ANY(i.indkey) '' @
    ''WHERE i.indrelid = $1::regclass AND i.indisprimary;''"

definition primary_key_sql :: string where
  "primary_key_sql =
    ''SELECT a.attname as column_name FROM pg_index i '' @
    ''JOIN pg_attribute a ON a.attrelid = i.indrelid AND a.attnum = ANY(i.indkey) '' @
    ''WHERE i.indrelid = $1::regclass AND i.indisprimary LIMIT 1;''"

definition search_columns_sql :: string where
  "search_columns_sql =
    ''SELECT column_name, data_type FROM information_schema.columns '' @
    ''WHERE table_name = $1 AND table_schema = 'public'' @ [CHR 0x27]"

definition view_columns_sql :: string where
  "view_columns_sql =
    ''SELECT column_name, data_type, is_nullable, column_default, '' @
    ''character_maximum_length, numeric_precision, numeric_scale '' @
    ''FROM information_schema.columns '' @
    ''WHERE table_name = $1 AND table_schema = 'public' ORDER BY ordinal_position;''"

definition view_stats_sql :: "string \<Rightarrow> string" where
  "view_stats_sql tableName =
    ''SELECT (SELECT count(*) FROM '' @ quoted tableName @ '') as total_rows, '' @
    ''(SELECT pg_size_pretty(pg_total_relation_size('' @ [CHR 0x27] @ quoted tableName @
    [CHR 0x27] @ ''))) as table_size, '' @
    ''(SELECT count(*) FROM information_schema.columns '' @
    ''WHERE table_name = $1 AND table_schema = 'public') as column_count;''"

subsection \<open>\<open>GET /schema/:tableName\<close>\<close>

definition get_schema :: "string option \<Rightarrow> database \<Rightarrow> string \<Rightarrow> response \<times> event list" where
  "get_schema node_env db tableName =
    (if \<not> table_name_ok tableName then (invalid_table_name, [])
     else with_client db
       (and_then (query db schema_columns_sql [Str tableName]) (\<lambda>result.
        and_then (query db primary_keys_sql [Str tableName]) (\<lambda>pkResult.
        return (json 200
          [(''tableName'', Val (Str tableName)),
           (''columns'', rows_payload (rows result)),
           (''primaryKeys'', List (map (\<lambda>r. Val (get r ''column_name'')) (rows pkResult)))]))))
       (handleDatabaseError node_env))"

subsection \<open>\<open>GET /data/:tableName\<close>\<close>

text \<open>The query string; a parameter that is not given is \<open>undefined\<close>.\<close>

record list_query =
  page :: "string option"
  limit :: "string option"
  search :: "string option"
  sortBy :: "string option"
  sortOrder :: "string option"

text \<open>A destructuring default: it applies when the parameter is \<open>undefined\<close>.\<close>

definition or_default :: "string option \<Rightarrow> js_value \<Rightarrow> js_value" where
  "or_default given dflt = (case given of None \<Rightarrow> dflt | Some s \<Rightarrow> Str s)"

text \<open>
  The columns to search: those whose \<open>data_type\<close> includes \<open>text\<close>, \<open>varchar\<close> or
  \<open>char\<close>, each as \<open>"name"::text\<close>. A \<open>data_type\<close> that is not a string has no
  \<open>includes\<close>, and the call throws.
\<close>

fun text_columns :: "row list \<Rightarrow> db_error + string list" where
  "text_columns [] = Inr []"
| "text_columns (col # rest) =
    (case get col ''data_type'' of
       Str data_type \<Rightarrow>
         (case text_columns rest of
            Inl e \<Rightarrow> Inl e
          | Inr cols \<Rightarrow>
              Inr (if list_ex (str_includes data_type) [''text'', ''varchar'', ''char'']
                   then (quoted (ToString (get col ''column_name'')) @ ''::text'') # cols
                   else cols))
     | _ \<Rightarrow> Inl (type_error ''col.data_type.includes is not a function''))"

text \<open>
  The search step: the \<open>WHERE\<close> clause added to both queries, \<open>queryParams\<close> and
  \<open>paramCount\<close>.
\<close>

definition search_step ::
  "database \<Rightarrow> string \<Rightarrow> string option \<Rightarrow> (string \<times> js_value list \<times> nat) action" where
  "search_step db tableName given =
    (case given of
       None \<Rightarrow> return ([], [], 0)
     | Some term \<Rightarrow>
         if term = [] then return ([], [], 0)
         else
           and_then (query db search_columns_sql [Str tableName]) (\<lambda>columnsResult.
             case text_columns (rows columnsResult) of
               Inl e \<Rightarrow> throw e
             | Inr textColumns \<Rightarrow>
                 if textColumns \<noteq> [] then
                   (let searchCondition =
                      join '' OR ''
                        (map (\<lambda>paramCount. (textColumns ! paramCount) @ '' ILIKE $''
                                              @ decimal (paramCount + 1))
                           [0 ..< length textColumns])
                    in return ('' WHERE ('' @ searchCondition @ '')'',
                               replicate (length textColumns) (Str (''%'' @ term @ ''%'')),
                               length textColumns))
                 else return ([], [], 0)))"

definition order_clause :: "string option \<Rightarrow> string option \<Rightarrow> string" where
  "order_clause by order =
    (case by of
       None \<Rightarrow> []
     | Some col \<Rightarrow>
         if col \<noteq> [] \<and> test identifier_pattern col then
           (let given = (case order of None \<Rightarrow> ''asc'' | Some s \<Rightarrow> s);
                validOrder = (if toLowerCase given \<in> set [''asc'', ''desc''] then given else ''asc'')
            in '' ORDER BY '' @ quoted col @ '' '' @ toUpperCase validOrder)
         else [])"

definition list_data ::
  "string option \<Rightarrow> database \<Rightarrow> string \<Rightarrow> list_query \<Rightarrow> response \<times> event list" where
  "list_data node_env db tableName q =
    (if \<not> table_name_ok tableName then (invalid_table_name, [])
     else with_client db
       (and_then (search_step db tableName (search q)) (\<lambda>(whereClause, queryParams, paramCount).
          let pageValue = or_default (page q) (Number (Integer 1));
              limitValue = or_default (limit q) (Number (Integer 100));
              offset = times (minus_one (parseInt pageValue)) (parseInt limitValue);
              baseQuery = ''SELECT * FROM '' @ quoted tableName @ whereClause
                @ order_clause (sortBy q) (sortOrder q)
                @ '' LIMIT $'' @ decimal (paramCount + 1)
                @ '' OFFSET $'' @ decimal (paramCount + 2);
              countQuery = ''SELECT COUNT(*) FROM '' @ quoted tableName @ whereClause
          in and_then
               (both
                 (query db baseQuery
                    (queryParams @ [Number (parseInt limitValue),
                                    Number offset]))
                 (query db countQuery queryParams))
               (\<lambda>(dataResult, countResult).
                  case rows countResult of
                    [] \<Rightarrow> throw (type_error ''Cannot read properties of undefined'')
                  | first # _ \<Rightarrow>
                      return (json 200
                        [(''tableName'', Val (Str tableName)),
                         (''data'', rows_payload (rows dataResult)),
                         (''pagination'', Fields
                           [(''currentPage'', Val (Number (parseInt pageValue))),
                            (''limit'', Val (Number (parseInt limitValue))),
                            (''totalRows'', Val (Number (parseInt (get first ''count'')))),
                            (''totalPages'',
                               Val (Number (ceil_of_quotient (parseInt (get first ''count''))
                                                             (parseInt limitValue))))])]))))
       (handleDatabaseError node_env))"

subsection \<open>\<open>GET /view/:tableName\<close>\<close>

text \<open>
  The variables the handler fills in as its queries return; the page is rendered from
  whatever they hold when a query throws.
\<close>

record view_vars =
  tableData :: "row list"
  view_error :: js_value
  columnNames :: "string list"
  tableStats :: payload
  columnInfo :: "row list"
  primaryKeys :: "js_value list"

definition failed :: "db_error \<Rightarrow> view_vars \<Rightarrow> view_vars" where
  "failed err vars = vars\<lparr>view_error := Str (err_message err)\<rparr>"

definition view_queries :: "database \<Rightarrow> string \<Rightarrow> view_vars \<times> event list" where
  "view_queries db tableName =
    (let dataQuery = ''SELECT * FROM '' @ quoted tableName @ '' LIMIT 100;'';
         q1 = Query dataQuery [];
         q2 = Query view_columns_sql [Str tableName];
         q3 = Query primary_keys_sql [Str tableName];
         q4 = Query (view_stats_sql tableName) [Str tableName];
         vars0 = \<lparr> tableData = [], view_error = Null, columnNames = [],
                   tableStats = Fields [], columnInfo = [], primaryKeys = [] \<rparr>
     in case connect db of
          Some e \<Rightarrow> (failed e vars0, [Connect])
        | None \<Rightarrow>
     (case run db dataQuery [] of
        Inl e \<Rightarrow> (failed e vars0, [Connect, q1])
      | Inr result \<Rightarrow>
     let vars1 = vars0\<lparr>tableData := rows result, columnNames := field_names result\<rparr> in
     (case run db view_columns_sql [Str tableName] of
        Inl e \<Rightarrow> (failed e vars1, [Connect, q1, q2])
      | Inr columnInfoResult \<Rightarrow>
     let vars2 = vars1\<lparr>columnInfo := rows columnInfoResult\<rparr> in
     (case run db primary_keys_sql [Str tableName] of
        Inl e \<Rightarrow> (failed e vars2, [Connect, q1, q2, q3])
      | Inr pkResult \<Rightarrow>
     let vars3 = vars2\<lparr>primaryKeys := map (\<lambda>r. get r ''column_name'') (rows pkResult)\<rparr> in
     (case run db (view_stats_sql tableName) [Str tableName] of
        Inl e \<Rightarrow> (failed e vars3, [Connect, q1, q2, q3, q4])
      | Inr statsResult \<Rightarrow>
          (case rows statsResult of
             [] \<Rightarrow> vars3
           | first # _ \<Rightarrow> vars3\<lparr>tableStats := row_payload first\<rparr>,
           [Connect, q1, q2, q3, q4]))))))"

definition view_table :: "database \<Rightarrow> string \<Rightarrow> response \<times> event list" where
  "view_table db tableName =
    (if \<not> table_name_ok tableName
     then (\<lparr> status = 400, headers = [], body = TextBody ''Invalid table name.'' \<rparr>, [])
     else
       (let (vars, evs) = view_queries db tableName
        in (\<lparr> status = 200, headers = [],
              body = Rendered ''db/table'' (Fields
                [(''tableName'', Val (Str tableName)),
                 (''data'', rows_payload (tableData vars)),
                 (''columns'', List (map (\<lambda>c. Val (Str c)) (columnNames vars))),
                 (''columnInfo'', rows_payload (columnInfo vars)),
                 (''primaryKeys'', List (map Val (primaryKeys vars))),
                 (''error'', Val (view_error vars)),
                 (''tableStats'', tableStats vars)]) \<rparr>,
            evs @ [End])))"

subsection \<open>\<open>POST /data/:tableName\<close>\<close>

text \<open>The request body is an object: its keys and values in \<open>Object.keys\<close> order.\<close>

definition placeholder :: "nat \<Rightarrow> string" where
  "placeholder index = ''$'' @ decimal (index + 1)"

definition create_record ::
  "string option \<Rightarrow> database \<Rightarrow> string \<Rightarrow> row \<Rightarrow> response \<times> event list" where
  "create_record node_env db tableName recordData =
    (if \<not> table_name_ok tableName then (invalid_table_name, [])
     else with_client db
       (let columns = map fst recordData;
            values = map snd recordData;
            placeholders = map placeholder [0 ..< length values];
            sql = ''INSERT INTO '' @ quoted tableName
              @ '' ('' @ join '', '' (map quoted columns) @ '')''
              @ '' VALUES ('' @ join '', '' placeholders @ '') RETURNING *;''
        in and_then (query db sql values) (\<lambda>result.
             return (json 200
               [(''message'', Val (Str ''Record created successfully'')),
                (''data'', first_row (rows result))])))
       (handleDatabaseError node_env))"

subsection \<open>\<open>PUT /data/:tableName/:id\<close> and \<open>DELETE /data/:tableName/:id\<close>\<close>

definition no_primary_key :: response where
  "no_primary_key = json 400 [(''error'', Val (Str ''Table has no primary key defined''))]"

definition record_not_found :: response where
  "record_not_found = json 404 [(''error'', Val (Str ''Record not found''))]"

definition update_sql :: "string \<Rightarrow> row \<Rightarrow> string \<Rightarrow> string" where
  "update_sql tableName recordData pkColumn =
    (let columns = map fst recordData;
         values = map snd recordData;
         setClause =
           join '', '' (map (\<lambda>(col, index). quoted col @ '' = '' @ placeholder index)
                          (zip columns [0 ..< length columns]))
     in ''UPDATE '' @ quoted tableName @ '' SET '' @ setClause
        @ '' WHERE '' @ quoted pkColumn @ '' = '' @ placeholder (length values)
        @ '' RETURNING *;'')"

definition update_record ::
  "string option \<Rightarrow> database \<Rightarrow> string \<Rightarrow> string \<Rightarrow> row \<Rightarrow> response \<times> event list" where
  "update_record node_env db tableName record_id recordData =
    (if \<not> table_name_ok tableName then (invalid_table_name, [])
     else with_client db
       (and_then (query db primary_key_sql [Str tableName]) (\<lambda>pkResult.
          case rows pkResult of
            [] \<Rightarrow> return no_primary_key
          | first # _ \<Rightarrow>
              (let pkColumn = ToString (get first ''column_name'');
                   values = map snd recordData
               in and_then
                    (query db (update_sql tableName recordData pkColumn) (values @ [Str record_id]))
                    (\<lambda>result.
                       case rows result of
                         [] \<Rightarrow> return record_not_found
                       | updated # _ \<Rightarrow>
                           return (json 200
                             [(''message'', Val (Str ''Record updated successfully'')),
                              (''data'', row_payload updated)])))))
       (handleDatabaseError node_env))"

definition delete_sql :: "string \<Rightarrow> string \<Rightarrow> string" where
  "delete_sql tableName pkColumn =
    ''DELETE FROM '' @ quoted tableName @ '' WHERE '' @ quoted pkColumn @ '' = $1 RETURNING *;''"

definition delete_record ::
  "string option \<Rightarrow> database \<Rightarrow> string \<Rightarrow> string \<Rightarrow> response \<times> event list" where
  "delete_record node_env db tableName record_id =
    (if \<not> table_name_ok tableName then (invalid_table_name, [])
     else with_client db
       (and_then (query db primary_key_sql [Str tableName]) (\<lambda>pkResult.
          case rows pkResult of
            [] \<Rightarrow> return no_primary_key
          | first # _ \<Rightarrow>
              (let pkColumn = ToString (get first ''column_name'')
               in and_then (query db (delete_sql tableName pkColumn) [Str record_id])
                    (\<lambda>result.
                       case rows result of
                         [] \<Rightarrow> return record_not_found
                       | deleted # _ \<Rightarrow>
                           return (json 200
                             [(''message'', Val (Str ''Record deleted successfully'')),
                              (''data'', row_payload deleted)])))))
       (handleDatabaseError node_env))"

subsection \<open>\<open>GET /export/:tableName\<close>\<close>

text \<open>
  One value of a row in the CSV: nothing for \<open>null\<close> and \<open>undefined\<close>; otherwise the
  value's text with every double quote doubled, between double quotes.
\<close>

definition double_quotes :: "string \<Rightarrow> string" where
  "double_quotes s = concat (map (\<lambda>c. if c = CHR 0x22 then [CHR 0x22, CHR 0x22] else [c]) s)"

definition csv_value :: "js_value \<Rightarrow> string" where
  "csv_value v =
    (if v = Null \<or> v = Undefined then []
     else
       (let stringValue = (if typeof v = T_object then JSON_stringify v else ToString v)
        in [CHR 0x22] @ double_quotes stringValue @ [CHR 0x22]))"

definition csv_line :: "row \<Rightarrow> string" where
  "csv_line r = join '','' (map csv_value (map snd r)) @ [CHR 0x0A]"

definition to_csv :: "row list \<Rightarrow> string" where
  "to_csv rs =
    (case rs of
       [] \<Rightarrow> []
     | first # _ \<Rightarrow> join '','' (map fst first) @ [CHR 0x0A] @ concat (map csv_line rs))"

definition count_value :: "nat option \<Rightarrow> js_value" where
  "count_value n = (case n of None \<Rightarrow> Null | Some k \<Rightarrow> Number (Integer (int k)))"

definition export_table ::
  "string option \<Rightarrow> database \<Rightarrow> string \<Rightarrow> string option \<Rightarrow> response \<times> event list" where
  "export_table node_env db tableName given_format =
    (if \<not> table_name_ok tableName then (invalid_table_name, [])
     else with_client db
       (and_then (query db (''SELECT * FROM '' @ quoted tableName @ '';'') []) (\<lambda>result.
          if (case given_format of None \<Rightarrow> ''csv'' | Some f \<Rightarrow> f) = ''csv'' then
            return \<lparr> status = 200,
                     headers = [(''Content-Type'', ''text/csv''),
                                (''Content-Disposition'',
                                 ''attachment; filename='' @ quoted (tableName @ ''.csv''))],
                     body = TextBody (to_csv (rows result)) \<rparr>
          else
            return (json 200
              [(''tableName'', Val (Str tableName)),
               (''data'', rows_payload (rows result)),
               (''rowCount'', Val (count_value (rowCount result)))])))
       (handleDatabaseError node_env))"

subsection \<open>\<open>POST /run-query\<close>\<close>

text \<open>The warning sign the messages start with, as its bytes in UTF-8.\<close>

definition warning_sign :: string where
  "warning_sign = [CHR 0xE2, CHR 0x9A, CHR 0xA0, CHR 0xEF, CHR 0xB8, CHR 0x8F]"

definition destructive_warning :: string where
  "destructive_warning =
    warning_sign @ '' Destructive operation detected - proceed with caution''"

definition delete_warning :: string where
  "delete_warning =
    warning_sign @ '' DELETE without WHERE clause - this will delete all rows''"

definition update_warning :: string where
  "update_warning =
    warning_sign @ '' UPDATE without WHERE clause - this will update all rows''"

definition warnings_for :: "string \<Rightarrow> string list" where
  "warnings_for query_text =
    (let trimmedQuery = toLowerCase (trim query_text)
     in (if str_includes trimmedQuery ''drop table'' \<or> str_includes trimmedQuery ''drop database''
         then [destructive_warning] else [])
      @ (if str_includes trimmedQuery ''delete from'' \<and> \<not> str_includes trimmedQuery ''where''
         then [delete_warning] else [])
      @ (if str_includes trimmedQuery ''update'' \<and> \<not> str_includes trimmedQuery ''where''
         then [update_warning] else []))"

definition strings_payload :: "string list \<Rightarrow> payload" where
  "strings_payload xs = List (map (\<lambda>x. Val (Str x)) xs)"

text \<open>
  \<open>startTime\<close> and the later reading of \<open>Date.now()\<close> are the two times. The body's
  \<open>query\<close> is absent or a string; the empty string is falsy.
\<close>

definition run_query ::
  "database \<Rightarrow> string option \<Rightarrow> int \<Rightarrow> int \<Rightarrow> response \<times> event list" where
  "run_query db given startTime endTime =
    (case given of
       None \<Rightarrow> (json 400 [(''error'', Val (Str ''Missing SQL query in request body''))], [])
     | Some query_text \<Rightarrow>
         if query_text = []
         then (json 400 [(''error'', Val (Str ''Missing SQL query in request body''))], [])
         else
           (let warnings = warnings_for query_text;
                executionTime = endTime - startTime
            in with_client db
                 (and_then (query db query_text []) (\<lambda>result.
                    return (json 200
                      [(''message'', Val (Str ''Query executed successfully'')),
                       (''rowCount'', Val (count_value (rowCount result))),
                       (''rows'', rows_payload (rows result)),
                       (''command'', Val (Str (command result))),
                       (''warnings'', strings_payload warnings),
                       (''executionTime'', Val (Number (Integer executionTime)))])))
                 (\<lambda>err. json 500
                    [(''error'', Val (Str ''Query execution failed'')),
                     (''details'', Val (Str (err_message err))),
                     (''code'', Val (optional (err_code err))),
                     (''executionTime'', Val (Number (Integer executionTime))),
                     (''warnings'', strings_payload warnings)])))"

section \<open>Session registry (middleware/auth.js)\<close>

text \<open>
  \<open>AUTH_CONFIG\<close>. Times are milliseconds, as \<open>Date.now()\<close> gives them. The
  time-out is \<open>parseInt(process.env.DB_SESSION_TIMEOUT) || 30 * 60 * 1000\<close>, so any
  non-zero integer can stand there; it is a field of the configuration.
\<close>

record auth_config =
  cfg_username :: string
  cfg_password :: string
  cfg_secretKey :: string
  sessionTimeout :: int

record session =
  session_id :: string
  userId :: string
  createdAt :: int
  lastActivity :: int
  isValid :: bool

text \<open>The module-level \<open>sessions\<close> map, from session id to session.\<close>

type_synonym sessions = "string \<rightharpoonup> session"

text \<open>
  \<open>validateSession(sessionId)\<close> returns the session or \<open>null\<close> and changes the map;
  the model returns both. A call runs synchronously, and its readings of
  \<open>Date.now()\<close> are one instant \<open>now\<close>.
\<close>

definition validateSession ::
  "auth_config \<Rightarrow> int \<Rightarrow> sessions \<Rightarrow> string \<Rightarrow> session option \<times> sessions" where
  "validateSession cfg now sessions sessionId =
    (case sessions sessionId of
       None \<Rightarrow> (None, sessions)
     | Some session \<Rightarrow>
         if \<not> isValid session then (None, sessions)
         else if now - lastActivity session > sessionTimeout cfg
           then (None, sessions(sessionId := None))
         else
           let session' = session\<lparr>lastActivity := now\<rparr>
           in (Some session', sessions(sessionId \<mapsto> session')))"

definition cleanupExpiredSessions :: "auth_config \<Rightarrow> int \<Rightarrow> sessions \<Rightarrow> sessions" where
  "cleanupExpiredSessions cfg now sessions =
    (\<lambda>sessionId.
       case sessions sessionId of
         None \<Rightarrow> None
       | Some session \<Rightarrow>
           if now - lastActivity session > sessionTimeout cfg then None else Some session)"

text \<open>
  \<open>createSession(userId)\<close>; \<open>sessionId\<close> is the value
  \<open>generateSessionId()\<close> drew from \<open>crypto.randomBytes\<close>.
\<close>

definition createSession ::
  "auth_config \<Rightarrow> int \<Rightarrow> string \<Rightarrow> string \<Rightarrow> sessions \<Rightarrow> string \<times> sessions" where
  "createSession cfg now sessionId user sessions =
    (let session = \<lparr> session_id = sessionId, userId = user, createdAt = now,
                       lastActivity = now, isValid = True \<rparr>
     in (sessionId, cleanupExpiredSessions cfg now (sessions(sessionId \<mapsto> session))))"

definition destroySession :: "string \<Rightarrow> sessions \<Rightarrow> sessions" where
  "destroySession sessionId sessions = sessions(sessionId := None)"

section \<open>Login handler and its throttle (middleware/auth.js)\<close>

text \<open>
  An entry of \<open>global.loginAttempts\<close>, keyed by the client address. The map is created
  empty on the first login request.
\<close>

record attempts =
  count :: nat
  lastAttempt :: int

record auth_state =
  session_map :: sessions
  loginAttempts :: "string \<rightharpoonup> attempts"

text \<open>
  The fields of the form body the handler reads (absent fields are \<open>undefined\<close>) and
  the client address.
\<close>

record login_request =
  username :: "string option"
  password :: "string option"
  redirect :: "string option"
  clientIP :: string

text \<open>
  The three ways the handler answers, each a redirect: back to the login page with the
  throttle's message, to the requested page with the session cookie set, back to the
  login page with the credential message.
\<close>

datatype login_result =
  TooManyAttempts string
| LoggedIn string string
| InvalidCredentials string

definition window :: int where
  "window = 15 * 60 * 1000"

definition redirect_target :: "login_request \<Rightarrow> string" where
  "redirect_target req = (case redirect req of None \<Rightarrow> ''/api/db'' | Some r \<Rightarrow> r)"

text \<open>
  The comparisons the handler makes on the submitted credentials, in the order it makes
  them, each with the operation that makes it. The condition is
  \<open>username === AUTH_CONFIG.username && password === AUTH_CONFIG.password\<close>: both
  operands use \<open>===\<close>, and \<open>&&\<close> evaluates the second only when the first holds.
  \<open>crypto.timingSafeEqual\<close> is the operation of \<open>verifyPassword\<close>, which compares
  two hashes and which nothing calls.
\<close>

datatype comparison =
  StrictEquals "string option" string
| TimingSafeEqual string string

fun holds :: "comparison \<Rightarrow> bool" where
  "holds (StrictEquals submitted stored) = (submitted = Some stored)"
| "holds (TimingSafeEqual a b) = (a = b)"

definition credential_checks :: "auth_config \<Rightarrow> login_request \<Rightarrow> comparison list" where
  "credential_checks cfg req =
    StrictEquals (username req) (cfg_username cfg)
    # (if username req = Some (cfg_username cfg)
       then [StrictEquals (password req) (cfg_password cfg)] else [])"

text \<open>
  \<open>authRouter.post('/login')\<close>. \<open>attempts\<close> is the stored object when the client has
  one, so resetting its count writes through to the map; otherwise it is a fresh object
  that only a failure stores.
\<close>

definition login ::
  "auth_config \<Rightarrow> int \<Rightarrow> string \<Rightarrow> login_request \<Rightarrow> auth_state \<Rightarrow> login_result \<times> auth_state" where
  "login cfg now sessionId req st =
    (let ip = clientIP req;
         stored = loginAttempts st ip;
         attempts0 = (case stored of None \<Rightarrow> \<lparr> count = 0, lastAttempt = 0 \<rparr> | Some a \<Rightarrow> a);
         expired = (now - lastAttempt attempts0 > window);
         attempts1 = (if expired then attempts0\<lparr>count := 0\<rparr> else attempts0);
         st1 = (if expired \<and> stored \<noteq> None
                then st\<lparr>loginAttempts := (loginAttempts st)(ip \<mapsto> attempts1)\<rparr> else st)
     in if count attempts1 \<ge> 5 then (TooManyAttempts (redirect_target req), st1)
        else if list_all holds (credential_checks cfg req)
        then
          (let (sid, sessions') =
                 createSession cfg now sessionId (cfg_username cfg) (session_map st1)
           in (LoggedIn sid (redirect_target req),
               st1\<lparr>session_map := sessions',
                   loginAttempts := (loginAttempts st1)(ip := None)\<rparr>))
        else
          (InvalidCredentials (redirect_target req),
           st1\<lparr>loginAttempts := (loginAttempts st1)
                 (ip \<mapsto> attempts1\<lparr>count := count attempts1 + 1, lastAttempt := now\<rparr>)\<rparr>))"

text \<open>A run of login requests, each with its time and the session id drawn for it.\<close>

fun logins ::
  "auth_config \<Rightarrow> (int \<times> string \<times> login_request) list \<Rightarrow> auth_state
     \<Rightarrow> login_result list \<times> auth_state" where
  "logins cfg [] st = ([], st)"
| "logins cfg ((now, sessionId, req) # rest) st =
    (let (r, st') = login cfg now sessionId req st;
         (rs, st'') = logins cfg rest st'
     in (r # rs, st''))"

section \<open>Notions the properties are stated with\<close>

text \<open>
  The expression as the specification writes it, \<open>^[A-Za-z_][A-Za-z0-9_]*$\<close>.
\<close>

definition spec_identifier_pattern :: regex where
  "spec_identifier_pattern =
    Seq (Class [(CHR ''A'', CHR ''Z''), (CHR ''a'', CHR ''z''), (CHR ''_'', CHR ''_'')])
        (Star (Class [(CHR ''A'', CHR ''Z''), (CHR ''a'', CHR ''z''), (CHR ''0'', CHR ''9''),
                      (CHR ''_'', CHR ''_'')]))"

text \<open>A field of a JSON response, when the body is an object that has it.\<close>

definition field :: "string \<Rightarrow> response \<Rightarrow> payload option" where
  "field name res = (case body res of JsonBody (Fields fs) \<Rightarrow> map_of fs name | _ \<Rightarrow> None)"

text \<open>How a login was answered.\<close>

fun is_blocked :: "login_result \<Rightarrow> bool" where
  "is_blocked (TooManyAttempts _) = True"
| "is_blocked _ = False"

fun is_failure :: "login_result \<Rightarrow> bool" where
  "is_failure (InvalidCredentials _) = True"
| "is_failure _ = False"

fun is_success :: "login_result \<Rightarrow> bool" where
  "is_success (LoggedIn _ _) = True"
| "is_success _ = False"

text \<open>
  The requests of a run that come from one client, the answers they got, and whether
  each of a list of times is within the window of the one before.
\<close>

definition from_client ::
  "string \<Rightarrow> (int \<times> string \<times> login_request) list \<Rightarrow> (int \<times> string \<times> login_request) list" where
  "from_client ip reqs = filter (\<lambda>(now, sessionId, req). clientIP req = ip) reqs"

definition results_of ::
  "string \<Rightarrow> (int \<times> string \<times> login_request) list \<Rightarrow> login_result list \<Rightarrow> login_result list" where
  "results_of ip reqs rs =
    map snd (filter (\<lambda>((now, sessionId, req), r). clientIP req = ip) (zip reqs rs))"

fun close_together :: "int list \<Rightarrow> bool" where
  "close_together (t # u # ts) = (u - t \<le> window \<and> close_together (u # ts))"
| "close_together _ = True"

text \<open>
  The throttle as the specification words it: an entry holds \<open>failCount\<close> and
  \<open>windowStart\<close>; \<open>recordFailure\<close> creates the entry on the first failure, increments
  the count, and when the window has expired resets the count to 1 and restarts the
  window; \<open>isBlocked\<close> holds iff the count is at least 5 and the window has not
  expired. The window has expired once \<open>now - windowStart\<close> exceeds it.
\<close>

record throttle_entry =
  failCount :: nat
  windowStart :: int

definition spec_recordFailure :: "int \<Rightarrow> throttle_entry option \<Rightarrow> throttle_entry option" where
  "spec_recordFailure now entry =
    (case entry of
       None \<Rightarrow> Some \<lparr> failCount = 1, windowStart = now \<rparr>
     | Some e \<Rightarrow>
         if now - windowStart e > window then Some \<lparr> failCount = 1, windowStart = now \<rparr>
         else Some (e\<lparr>failCount := failCount e + 1\<rparr>))"

definition spec_isBlocked :: "int \<Rightarrow> throttle_entry option \<Rightarrow> bool" where
  "spec_isBlocked now entry =
    (case entry of
       None \<Rightarrow> False
     | Some e \<Rightarrow> failCount e \<ge> 5 \<and> \<not> now - windowStart e > window)"

text \<open>The entry after failures at the given times, from no entry.\<close>

definition spec_failures :: "int list \<Rightarrow> throttle_entry option" where
  "spec_failures ts = foldl (\<lambda>entry now. spec_recordFailure now entry) None ts"

section \<open>Example data\<close>

definition cfg0 :: auth_config where
  "cfg0 = \<lparr> cfg_username = ''admin'', cfg_password = ''secret'', cfg_secretKey = ''k'',
            sessionTimeout = 1800000 \<rparr>"

definition s0 :: session where
  "s0 = \<lparr> session_id = ''ab12'', userId = ''admin'', createdAt = 1000, lastActivity = 1000,
          isValid = True \<rparr>"

definition wrong_login :: login_request where
  "wrong_login = \<lparr> username = Some ''admin'', password = Some ''guess'', redirect = None,
                    clientIP = ''10.0.0.7'' \<rparr>"

definition right_login :: login_request where
  "right_login = \<lparr> username = Some ''admin'', password = Some ''secret'', redirect = None,
                    clientIP = ''10.0.0.7'' \<rparr>"

definition five_failures :: "(int \<times> string \<times> login_request) list" where
  "five_failures =
     [(0, ''s1'', wrong_login), (60000, ''s2'', wrong_login), (120000, ''s3'', wrong_login),
      (180000, ''s4'', wrong_login), (240000, ''s5'', wrong_login)]"

text \<open>
  Failures at minutes 0, 10 and 16, and five failures 14 minutes apart, all of the same
  client.
\<close>

definition three_failures :: "(int \<times> string \<times> login_request) list" where
  "three_failures =
     [(0, ''s1'', wrong_login), (600000, ''s2'', wrong_login), (960000, ''s3'', wrong_login)]"

definition spaced_failures :: "(int \<times> string \<times> login_request) list" where
  "spaced_failures =
     [(0, ''s1'', wrong_login), (840000, ''s2'', wrong_login), (1680000, ''s3'', wrong_login),
      (2520000, ''s4'', wrong_login), (3360000, ''s5'', wrong_login)]"

definition no_state :: auth_state where
  "no_state = \<lparr> session_map = Map.empty, loginAttempts = Map.empty \<rparr>"

definition throttled_state :: auth_state where
  "throttled_state =
     \<lparr> session_map = Map.empty,
       loginAttempts = [''10.0.0.7'' \<mapsto> \<lparr> count = 5, lastAttempt = 240000 \<rparr>] \<rparr>"

text \<open>
  A database that answers the statements of a table and fails every other one, and one
  that cannot be reached.
\<close>

definition no_such_table :: db_error where
  "no_such_table = \<lparr> err_code = Some ''42P01'', err_message = ''relation does not exist'' \<rparr>"

definition answering :: "(string \<times> query_result) list \<Rightarrow> database" where
  "answering answers =
    \<lparr> connect = None,
      run = (\<lambda>text params. case map_of answers text of
                                None \<Rightarrow> Inl no_such_table
                              | Some result \<Rightarrow> Inr result) \<rparr>"

definition unreachable :: database where
  "unreachable =
    \<lparr> connect = Some \<lparr> err_code = Some ''ECONNREFUSED'', err_message = ''connect ECONNREFUSED'' \<rparr>,
      run = (\<lambda>text params. Inl no_such_table) \<rparr>"

definition selected :: "row list \<Rightarrow> query_result" where
  "selected rs = \<lparr> rows = rs, field_names = (case rs of [] \<Rightarrow> [] | r # _ \<Rightarrow> map fst r),
                   rowCount = Some (length rs), command = ''SELECT'' \<rparr>"

definition plain_query :: list_query where
  "plain_query = \<lparr> page = None, limit = None, search = None, sortBy = None, sortOrder = None \<rparr>"

text \<open>The table of the specification's CSV example, and an empty one.\<close>

definition users_table :: "row list" where
  "users_table = [[(''id'', Number (Integer 1)), (''name'', Str ''O'Brien, A'')]]"

definition select_all :: "string \<Rightarrow> string" where
  "select_all tableName = ''SELECT * FROM '' @ quoted tableName @ '';''"

definition users_db :: database where
  "users_db = answering [(select_all ''users'', selected users_table)]"

definition empty_db :: database where
  "empty_db = answering [(select_all ''users'', selected [])]"

text \<open>A table with no primary key, and one whose key \<open>id\<close> matches no row.\<close>

definition keyless_db :: database where
  "keyless_db = answering [(primary_key_sql, selected [])]"

definition new_name :: row where
  "new_name = [(''name'', Str ''Ann'')]"

definition no_match_db :: database where
  "no_match_db =
    answering [(primary_key_sql, selected [[(''column_name'', Str ''id'')]]),
               (update_sql ''users'' new_name ''id'', selected []),
               (delete_sql ''users'' ''id'', selected [])]"

text \<open>Two statements for the query console, and a database that runs the second.\<close>

definition drop_users :: string where
  "drop_users = ''DROP TABLE users''"

definition delete_all :: string where
  "delete_all = ''  Delete From users''"

definition deleting_db :: database where
  "deleting_db =
    answering [(delete_all, \<lparr> rows = [], field_names = [], rowCount = Some 3, command = ''DELETE'' \<rparr>)]"

text \<open>The third page of ten rows of a table with 25 rows.\<close>

definition third_page :: list_query where
  "third_page = \<lparr> page = Some ''3'', limit = Some ''10'', search = None, sortBy = None,
                   sortOrder = None \<rparr>"

definition third_page_sql :: string where
  "third_page_sql = ''SELECT * FROM '' @ quoted ''users'' @ '' LIMIT $1 OFFSET $2''"

definition count_sql :: string where
  "count_sql = ''SELECT COUNT(*) FROM '' @ quoted ''users''"

definition paged_db :: database where
  "paged_db =
    answering [(third_page_sql, selected [[(''id'', Number (Integer 21))]]),
               (count_sql, selected [[(''count'', Str ''25'')]])]"

text \<open>A page number past \<open>2^53\<close>.\<close>

definition far_page :: list_query where
  "far_page = \<lparr> page = Some ''9007199254740993'', limit = Some ''10'', search = None,
                 sortBy = None, sortOrder = None \<rparr>"

section \<open>What \<open>test\<close> decides\<close>

text \<open>
  The matcher reads a string one character at a time; it accepts exactly the language of
  the expression.
\<close>


lemma nullable_lang: "nullable r \<longleftrightarrow> [] \<in> lang r"
proof (induction r)
  case (Star r)
  have "concat [] \<in> lang (Star r)" by (simp del: concat.simps) (rule exI [of _ "[]"], simp)
  then show ?case by simp
qed auto

lemma star_cons:
  "c # w \<in> {concat ws | ws. set ws \<subseteq> A} \<longleftrightarrow>
     (\<exists>u v. w = u @ v \<and> c # u \<in> A \<and> v \<in> {concat ws | ws. set ws \<subseteq> A})"
proof
  assume "c # w \<in> {concat ws | ws. set ws \<subseteq> A}"
  then obtain ws where ws: "c # w = concat ws" "set ws \<subseteq> A" by auto
  then show "\<exists>u v. w = u @ v \<and> c # u \<in> A \<and> v \<in> {concat ws | ws. set ws \<subseteq> A}"
  proof (induction ws)
    case Nil
    then show ?case by simp
  next
    case (Cons x xs)
    show ?case
    proof (cases x)
      case Nil
      with Cons show ?thesis by simp
    next
      case (Cons d u)
      with Cons.prems have "d = c" "w = u @ concat xs" "c # u \<in> A" "set xs \<subseteq> A" by auto
      then show ?thesis by blast
    qed
  qed
next
  assume "\<exists>u v. w = u @ v \<and> c # u \<in> A \<and> v \<in> {concat ws | ws. set ws \<subseteq> A}"
  then obtain u ws where "w = u @ concat ws" "c # u \<in> A" "set ws \<subseteq> A" by auto
  then have "c # w = concat ((c # u) # ws)" "set ((c # u) # ws) \<subseteq> A" by auto
  then show "c # w \<in> {concat ws | ws. set ws \<subseteq> A}" by blast
qed

lemma ex_map_seq:
  "(\<exists>x \<in> set (map (\<lambda>r'. Seq r' s) xs). w \<in> lang x) \<longleftrightarrow>
   (\<exists>u v. w = u @ v \<and> (\<exists>r' \<in> set xs. u \<in> lang r') \<and> v \<in> lang s)"
  by (induction xs) (simp, simp, blast)

lemma derivative_mem: "(\<exists>r' \<in> set (derivative c r). w \<in> lang r') \<longleftrightarrow> c # w \<in> lang r"
proof (induction r arbitrary: w)
  case (Class ranges)
  then show ?case by auto
next
  case (Seq r s)
  have "(\<exists>r' \<in> set (derivative c (Seq r s)). w \<in> lang r') \<longleftrightarrow>
        (\<exists>u v. w = u @ v \<and> (\<exists>r' \<in> set (derivative c r). u \<in> lang r') \<and> v \<in> lang s)
        \<or> (nullable r \<and> (\<exists>s' \<in> set (derivative c s). w \<in> lang s'))"
    using ex_map_seq [of s "derivative c r" w] by (simp add: bex_Un del: set_map) blast
  also have "\<dots> \<longleftrightarrow> (\<exists>u v. w = u @ v \<and> c # u \<in> lang r \<and> v \<in> lang s)
        \<or> ([] \<in> lang r \<and> c # w \<in> lang s)"
    by (simp add: Seq.IH nullable_lang)
  also have "\<dots> \<longleftrightarrow> (\<exists>u v. c # w = u @ v \<and> u \<in> lang r \<and> v \<in> lang s)"
    by (auto simp add: Cons_eq_append_conv)
  finally show ?case by simp
next
  case (Star r)
  have "(\<exists>r' \<in> set (derivative c (Star r)). w \<in> lang r') \<longleftrightarrow>
        (\<exists>u v. w = u @ v \<and> (\<exists>r' \<in> set (derivative c r). u \<in> lang r') \<and> v \<in> lang (Star r))"
    using ex_map_seq [of "Star r" "derivative c r" w] by (simp del: set_map lang.simps)
  also have "\<dots> \<longleftrightarrow> (\<exists>u v. w = u @ v \<and> c # u \<in> lang r \<and> v \<in> lang (Star r))"
    by (simp add: Star.IH)
  also have "\<dots> \<longleftrightarrow> c # w \<in> lang (Star r)"
    using star_cons [of c w "lang r"] by simp
  finally show ?case .
qed auto

lemma matches_lang: "matches rs s \<longleftrightarrow> (\<exists>r \<in> set rs. s \<in> lang r)"
proof (induction s arbitrary: rs)
  case Nil
  then show ?case by (auto simp add: list_ex_iff nullable_lang)
next
  case (Cons c s)
  then show ?case by (simp add: derivative_mem)
qed

lemma test_lang: "test r s \<longleftrightarrow> s \<in> lang r"
  by (simp add: test_def matches_lang)

section \<open>Table names\<close>

lemma same_language: "lang identifier_pattern = lang spec_identifier_pattern"
proof -
  have first:
    "lang (Class [(CHR ''a'', CHR ''z''), (CHR ''A'', CHR ''Z''), (CHR ''_'', CHR ''_'')])
     = lang (Class [(CHR ''A'', CHR ''Z''), (CHR ''a'', CHR ''z''), (CHR ''_'', CHR ''_'')])"
    by (auto simp add: in_class_def)
  have rest:
    "lang (Class [(CHR ''a'', CHR ''z''), (CHR ''A'', CHR ''Z''), (CHR ''0'', CHR ''9''),
                  (CHR ''_'', CHR ''_'')])
     = lang (Class [(CHR ''A'', CHR ''Z''), (CHR ''a'', CHR ''z''), (CHR ''0'', CHR ''9''),
                    (CHR ''_'', CHR ''_'')])"
    by (auto simp add: in_class_def)
  show ?thesis
    unfolding identifier_pattern_def spec_identifier_pattern_def
    by (simp only: lang.simps(2,3) first rest)
qed

lemma table_name_ok_lang: "table_name_ok tableName \<longleftrightarrow> tableName \<in> lang spec_identifier_pattern"
proof -
  have "[] \<notin> lang identifier_pattern"
    by (simp add: identifier_pattern_def)
  then show ?thesis
    unfolding table_name_ok_def test_lang same_language [symmetric] by auto
qed

lemma with_client_calls: "snd (with_client db handler catch) \<noteq> []"
  by (simp add: with_client_def split: option.splits sum.splits prod.splits)

text \<open>
  C2. A table name passes the validation of a data route iff it matches
  \<open>^[A-Za-z_][A-Za-z0-9_]*$\<close>. On a name that does not match, each of the seven routes
  (list, view, insert, update, delete, export, schema) answers with status 400 and makes
  no call on the database, not even to connect; on a name that matches, each goes on to
  the database.
\<close>

theorem table_name_validation:
  "(table_name_ok tableName \<longleftrightarrow> tableName \<in> lang spec_identifier_pattern)
   \<and> (tableName \<notin> lang spec_identifier_pattern \<longrightarrow>
        list_data node_env db tableName q = (invalid_table_name, [])
      \<and> view_table db tableName
          = (\<lparr> status = 400, headers = [], body = TextBody ''Invalid table name.'' \<rparr>, [])
      \<and> create_record node_env db tableName recordData = (invalid_table_name, [])
      \<and> update_record node_env db tableName record_id recordData = (invalid_table_name, [])
      \<and> delete_record node_env db tableName record_id = (invalid_table_name, [])
      \<and> export_table node_env db tableName given_format = (invalid_table_name, [])
      \<and> get_schema node_env db tableName = (invalid_table_name, []))
   \<and> (tableName \<in> lang spec_identifier_pattern \<longrightarrow>
        snd (list_data node_env db tableName q) \<noteq> []
      \<and> snd (view_table db tableName) \<noteq> []
      \<and> snd (create_record node_env db tableName recordData) \<noteq> []
      \<and> snd (update_record node_env db tableName record_id recordData) \<noteq> []
      \<and> snd (delete_record node_env db tableName record_id) \<noteq> []
      \<and> snd (export_table node_env db tableName given_format) \<noteq> []
      \<and> snd (get_schema node_env db tableName) \<noteq> [])
   \<and> status invalid_table_name = 400"
  unfolding table_name_ok_lang [symmetric]
  by (simp add: list_data_def view_table_def create_record_def update_record_def
      delete_record_def export_table_def get_schema_def with_client_calls invalid_table_name_def
      json_def split_beta Let_def)

theorem table_name_validation_witness:
  "''users'' \<in> lang spec_identifier_pattern
   \<and> ''users; drop table x'' \<notin> lang spec_identifier_pattern
   \<and> list_data None unreachable ''users; drop table x'' plain_query = (invalid_table_name, [])
   \<and> view_table unreachable ''users; drop table x''
       = (\<lparr> status = 400, headers = [], body = TextBody ''Invalid table name.'' \<rparr>, [])
   \<and> create_record None unreachable ''users; drop table x'' [] = (invalid_table_name, [])
   \<and> update_record None unreachable ''users; drop table x'' ''1'' [] = (invalid_table_name, [])
   \<and> delete_record None unreachable ''users; drop table x'' ''1'' = (invalid_table_name, [])
   \<and> export_table None unreachable ''users; drop table x'' None = (invalid_table_name, [])
   \<and> get_schema None unreachable ''users; drop table x'' = (invalid_table_name, [])
   \<and> snd (delete_record None unreachable ''users'' ''1'') \<noteq> []"
proof -
  note good = table_name_validation
    [of "''users''" None unreachable plain_query "[]" "''1''" None]
  note bad = table_name_validation
    [of "''users; drop table x''" None unreachable plain_query "[]" "''1''" None]
  have g: "table_name_ok ''users''" by code_simp
  have b: "\<not> table_name_ok ''users; drop table x''" by code_simp
  from good g have g': "''users'' \<in> lang spec_identifier_pattern" by blast
  from bad b have b': "''users; drop table x'' \<notin> lang spec_identifier_pattern" by blast
  from good g' bad b' show ?thesis by blast
qed

section \<open>The shared error handler\<close>

text \<open>
  C10. Whatever the mode, the response of \<open>handleDatabaseError\<close> has status 500 and
  carries the error's code as the driver gave it (the key is \<open>undefined\<close> when the error
  has none); \<open>details\<close> is the driver's message in development mode and \<open>undefined\<close>
  otherwise; a code that is no key of \<open>errorMessages\<close> gets the message
  \<open>Database operation failed\<close>, and a key gets its message. The codes of a driver are
  SQLSTATE codes and system error names; the names a plain object inherits from
  \<open>Object.prototype\<close> are none of them and are left out.
\<close>

theorem handleDatabaseError_response:
  "status (handleDatabaseError node_env err) = 500
   \<and> field ''code'' (handleDatabaseError node_env err)
       = Some (Val (case err_code err of None \<Rightarrow> Undefined | Some c \<Rightarrow> Str c))
   \<and> field ''details'' (handleDatabaseError node_env err)
       = Some (Val (if node_env = Some ''development'' then Str (err_message err) else Undefined))
   \<and> (property_key (err_code err) \<notin> fst ` set errorMessages
        \<and> property_key (err_code err) \<notin> set object_prototype_keys
       \<longrightarrow> field ''error'' (handleDatabaseError node_env err)
             = Some (Val (Str ''Database operation failed'')))
   \<and> (\<forall>m. (property_key (err_code err), m) \<in> set errorMessages
       \<longrightarrow> field ''error'' (handleDatabaseError node_env err) = Some (Val (Str m)))"
proof -
  have d: "distinct (map fst errorMessages)"
    by (simp add: errorMessages_def)
  show ?thesis
    using d
    by (auto simp add: handleDatabaseError_def get_property_def Let_def json_def field_def
        optional_def map_of_eq_None_iff [symmetric] split: option.splits)
qed

theorem handleDatabaseError_response_witness:
  "handleDatabaseError (Some ''production'')
      \<lparr> err_code = Some ''22P02'', err_message = ''invalid input syntax'' \<rparr>
     = json 500 [(''error'', Val (Str ''Database operation failed'')),
                 (''details'', Val Undefined), (''code'', Val (Str ''22P02''))]
   \<and> field ''error'' (handleDatabaseError (Some ''development'')
        \<lparr> err_code = Some ''42P01'', err_message = ''relation does not exist'' \<rparr>)
     = Some (Val (Str ''Table not found''))
   \<and> field ''details'' (handleDatabaseError (Some ''development'')
        \<lparr> err_code = Some ''42P01'', err_message = ''relation does not exist'' \<rparr>)
     = Some (Val (Str ''relation does not exist''))"
proof -
  let ?e = "\<lparr> err_code = Some ''22P02'', err_message = ''invalid input syntax'' \<rparr>"
  let ?f = "\<lparr> err_code = Some ''42P01'', err_message = ''relation does not exist'' \<rparr>"
  note a = handleDatabaseError_response [of "Some ''production''" ?e]
  note b = handleDatabaseError_response [of "Some ''development''" ?f]
  have u: "property_key (err_code ?e) \<notin> fst ` set errorMessages
        \<and> property_key (err_code ?e) \<notin> set object_prototype_keys"
    by (simp add: property_key_def errorMessages_def object_prototype_keys_def)
  have k: "(property_key (err_code ?f), ''Table not found'') \<in> set errorMessages"
    by (simp add: property_key_def errorMessages_def)
  have c1: "field ''error'' (handleDatabaseError (Some ''production'') ?e)
      = Some (Val (Str ''Database operation failed''))"
    using a u by blast
  have c2: "field ''error'' (handleDatabaseError (Some ''development'') ?f)
      = Some (Val (Str ''Table not found''))"
    using b k by blast
  have c3: "field ''details'' (handleDatabaseError (Some ''development'') ?f)
      = Some (Val (Str ''relation does not exist''))"
    using b by simp
  have c0: "handleDatabaseError (Some ''production'') ?e
     = json 500 [(''error'', Val (Str ''Database operation failed'')),
                 (''details'', Val Undefined), (''code'', Val (Str ''22P02''))]"
    using c1 by (simp add: handleDatabaseError_def Let_def field_def json_def optional_def
        split: property.splits)
  from c0 c2 c3 show ?thesis by simp
qed

section \<open>CSV export\<close>

lemma export_csv_body:
  "table_name_ok tableName \<Longrightarrow> connect db = None \<Longrightarrow>
   run db (''SELECT * FROM '' @ quoted tableName @ '';'') [] = Inr result \<Longrightarrow>
   given_format = None \<or> given_format = Some ''csv'' \<Longrightarrow>
   export_table node_env db tableName given_format =
     (\<lparr> status = 200,
        headers = [(''Content-Type'', ''text/csv''),
                   (''Content-Disposition'',
                    ''attachment; filename='' @ quoted (tableName @ ''.csv''))],
        body = TextBody (to_csv (rows result)) \<rparr>,
      [Connect, Query (''SELECT * FROM '' @ quoted tableName @ '';'') [], End])"
  by (auto simp add: export_table_def with_client_def and_then_def query_def return_def)

lemma users_db_answer:
  "table_name_ok ''users'' \<and> connect users_db = None
   \<and> run users_db (''SELECT * FROM '' @ quoted ''users'' @ '';'') [] = Inr (selected users_table)
   \<and> ((None :: string option) = None \<or> None = Some ''csv'')"
proof -
  have "table_name_ok ''users''" by code_simp
  then show ?thesis by (simp add: users_db_def answering_def select_all_def)
qed

lemma empty_db_answer:
  "table_name_ok ''users'' \<and> connect empty_db = None
   \<and> run empty_db (''SELECT * FROM '' @ quoted ''users'' @ '';'') [] = Inr (selected [])
   \<and> rows (selected []) = []
   \<and> (Some ''csv'' = None \<or> Some ''csv'' = Some ''csv'')"
proof -
  have "table_name_ok ''users''" by code_simp
  then show ?thesis by (simp add: empty_db_def answering_def select_all_def selected_def)
qed

text \<open>
  C5, as amended. A value that is \<open>null\<close> or \<open>undefined\<close> becomes an empty field with
  no quotes. Every other value is turned into text (an object by \<open>JSON.stringify\<close>,
  anything else by \<open>String\<close>), every double quote in the text is doubled, and the
  result is put between double quotes. A line is the fields of a row joined by commas;
  the first line is the column names of the first row joined by commas, not quoted. This
  text is the body of the export when the format is \<open>csv\<close> or not given.
\<close>

theorem csv_serialization:
  "csv_value Null = [] \<and> csv_value Undefined = []
   \<and> (v \<noteq> Null \<and> v \<noteq> Undefined \<longrightarrow>
        csv_value v = quoted (double_quotes (if typeof v = T_object then JSON_stringify v
                                             else ToString v)))
   \<and> csv_value (Object encoded str) = quoted (double_quotes encoded)
   \<and> double_quotes [] = []
   \<and> double_quotes (c # s) = (if c = CHR 0x22 then [CHR 0x22, CHR 0x22] else [c]) @ double_quotes s
   \<and> csv_line r = join '','' (map (csv_value \<circ> snd) r) @ [CHR 0x0A]
   \<and> to_csv (r # rs) = join '','' (map fst r) @ [CHR 0x0A] @ concat (map csv_line (r # rs))
   \<and> (table_name_ok tableName \<and> connect db = None
        \<and> run db (''SELECT * FROM '' @ quoted tableName @ '';'') [] = Inr result
        \<and> (given_format = None \<or> given_format = Some ''csv'')
       \<longrightarrow> body (fst (export_table node_env db tableName given_format))
             = TextBody (to_csv (rows result)))"
proof (intro conjI impI)
  show "csv_line r = join '','' (map (csv_value \<circ> snd) r) @ [CHR 0x0A]"
    by (simp add: csv_line_def)
  show "to_csv (r # rs) = join '','' (map fst r) @ [CHR 0x0A] @ concat (map csv_line (r # rs))"
    by (simp add: to_csv_def)
  show "body (fst (export_table node_env db tableName given_format)) = TextBody (to_csv (rows result))"
    if "table_name_ok tableName \<and> connect db = None
        \<and> run db (''SELECT * FROM '' @ quoted tableName @ '';'') [] = Inr result
        \<and> (given_format = None \<or> given_format = Some ''csv'')"
    using that export_csv_body [of tableName db result given_format node_env] by auto
qed (simp_all add: csv_value_def quoted_def double_quotes_def Let_def)

theorem csv_serialization_witness:
  "csv_value (Str (''say '' @ quoted ''hi'')) = quoted (''say '' @ quoted (quoted ''hi''))
   \<and> csv_value (Object (''['' @ quoted ''a'' @ '']'') ''a'') = quoted (''['' @ quoted (quoted ''a'') @ '']'')
   \<and> body (fst (export_table None users_db ''users'' None))
       = TextBody (''id,name'' @ [CHR 0x0A] @ quoted ''1'' @ '','' @ quoted ''O'Brien, A'' @ [CHR 0x0A])"
proof -
  note plain = csv_serialization [of "Str (''say '' @ quoted ''hi'')", THEN conjunct2,
      THEN conjunct2, THEN conjunct1, rule_format]
  note object = csv_serialization [of Null "[CHR ''['', CHR 0x22, CHR ''a'', CHR 0x22, CHR '']'']"
      "''a''", THEN conjunct2, THEN conjunct2, THEN conjunct2, THEN conjunct1]
  note exported = csv_serialization [of Null "[]" "[]" "CHR ''a''" "[]" "[]" "[]" "''users''"
      users_db "selected users_table" None None,
      THEN conjunct2, THEN conjunct2, THEN conjunct2, THEN conjunct2, THEN conjunct2,
      THEN conjunct2, THEN conjunct2, THEN conjunct2, rule_format, OF users_db_answer]
  have c1: "csv_value (Str (''say '' @ quoted ''hi'')) = quoted (''say '' @ quoted (quoted ''hi''))"
    using plain by (simp add: quoted_def double_quotes_def)
  have c2: "csv_value (Object (''['' @ quoted ''a'' @ '']'') ''a'')
       = quoted (''['' @ quoted (quoted ''a'') @ '']'')"
    using object by (simp add: quoted_def double_quotes_def)
  have t: "to_csv (rows (selected users_table))
       = ''id,name'' @ [CHR 0x0A] @ quoted ''1'' @ '','' @ quoted ''O'Brien, A'' @ [CHR 0x0A]"
    by code_simp
  from c1 c2 exported t show ?thesis by simp
qed

text \<open>
  C5 as stated has every field between double quotes, unconditionally. The field of a
  \<open>null\<close> is empty and has no quotes: the row \<open>{id: 7, note: null}\<close> gives the line
  \<open>"7",\<close>.
\<close>

theorem csv_unquoted_null:
  "csv_value Null = [] \<and> csv_value Null \<noteq> quoted [] \<and> hd (csv_value Null @ '','') \<noteq> CHR 0x22
   \<and> csv_line [(''id'', Number (Integer 7)), (''note'', Null)] = quoted ''7'' @ '','' @ [CHR 0x0A]"
  by code_simp

text \<open>
  C9. When the \<open>SELECT\<close> of the export returns no row, the CSV body is empty: there is
  no header line. With at least one row the body starts with the header, made of the
  first row's keys.
\<close>

theorem empty_export:
  "to_csv [] = []
   \<and> (table_name_ok tableName \<and> connect db = None
        \<and> run db (''SELECT * FROM '' @ quoted tableName @ '';'') [] = Inr result
        \<and> rows result = []
        \<and> (given_format = None \<or> given_format = Some ''csv'')
       \<longrightarrow> status (fst (export_table node_env db tableName given_format)) = 200
           \<and> body (fst (export_table node_env db tableName given_format)) = TextBody [])
   \<and> (\<forall>r rs. \<exists>lines. to_csv (r # rs) = join '','' (map fst r) @ [CHR 0x0A] @ lines)"
  by (auto simp add: export_csv_body to_csv_def)

theorem empty_export_witness:
  "status (fst (export_table None empty_db ''users'' (Some ''csv''))) = 200
   \<and> body (fst (export_table None empty_db ''users'' (Some ''csv''))) = TextBody []"
  using empty_export [of "''users''" empty_db "selected []" "Some ''csv''" None,
      THEN conjunct2, THEN conjunct1, rule_format, OF empty_db_answer] .

section \<open>Sessions\<close>

text \<open>
  C3. \<open>validateSession\<close> returns nothing for a token that is unknown, marked invalid, or
  idle for longer than the time-out (and then removes it from the map if it was valid);
  otherwise it sets \<open>lastActivity\<close> to the current time and returns the session. So a
  session validated at time \<open>now\<close> is still valid at \<open>now + timeout - e\<close>, and at
  \<open>now + timeout + e\<close> with nothing in between it is gone and removed by that lookup.
\<close>

theorem validateSession_lifecycle:
  "(sessions sid = None \<longrightarrow> validateSession cfg now sessions sid = (None, sessions))
   \<and> (\<forall>s. sessions sid = Some s \<and> \<not> isValid s
          \<longrightarrow> validateSession cfg now sessions sid = (None, sessions))
   \<and> (\<forall>s. sessions sid = Some s \<and> isValid s \<and> now - lastActivity s > sessionTimeout cfg
          \<longrightarrow> validateSession cfg now sessions sid = (None, sessions(sid := None)))
   \<and> (\<forall>s. sessions sid = Some s \<and> isValid s \<and> now - lastActivity s \<le> sessionTimeout cfg
          \<longrightarrow> validateSession cfg now sessions sid
               = (Some (s\<lparr>lastActivity := now\<rparr>), sessions(sid \<mapsto> s\<lparr>lastActivity := now\<rparr>)))
   \<and> (\<forall>s1 sessions1 e. validateSession cfg now sessions sid = (Some s1, sessions1)
          \<longrightarrow> (0 \<le> e \<longrightarrow>
                 validateSession cfg (now + sessionTimeout cfg - e) sessions1 sid
                   = (Some (s1\<lparr>lastActivity := now + sessionTimeout cfg - e\<rparr>),
                      sessions1(sid \<mapsto> s1\<lparr>lastActivity := now + sessionTimeout cfg - e\<rparr>)))
              \<and> (0 < e \<longrightarrow>
                 validateSession cfg (now + sessionTimeout cfg + e) sessions1 sid
                   = (None, sessions1(sid := None))))"
  by (auto simp add: validateSession_def Let_def split: option.splits if_splits)

theorem validateSession_lifecycle_witness:
  "validateSession cfg0 5000 Map.empty ''ab12'' = (None, Map.empty)
   \<and> validateSession cfg0 5000 [''ab12'' \<mapsto> s0\<lparr>isValid := False\<rparr>] ''ab12''
       = (None, [''ab12'' \<mapsto> s0\<lparr>isValid := False\<rparr>])
   \<and> validateSession cfg0 1801001 [''ab12'' \<mapsto> s0] ''ab12''
       = (None, [''ab12'' \<mapsto> s0](''ab12'' := None))
   \<and> validateSession cfg0 5000 [''ab12'' \<mapsto> s0] ''ab12''
       = (Some (s0\<lparr>lastActivity := 5000\<rparr>),
          [''ab12'' \<mapsto> s0, ''ab12'' \<mapsto> s0\<lparr>lastActivity := 5000\<rparr>])
   \<and> validateSession cfg0 (5000 + 1800000 - 1) [''ab12'' \<mapsto> s0\<lparr>lastActivity := 5000\<rparr>] ''ab12''
       = (Some (s0\<lparr>lastActivity := 5000 + 1800000 - 1\<rparr>),
          [''ab12'' \<mapsto> s0\<lparr>lastActivity := 5000\<rparr>,
           ''ab12'' \<mapsto> s0\<lparr>lastActivity := 5000 + 1800000 - 1\<rparr>])
   \<and> validateSession cfg0 (5000 + 1800000 + 1) [''ab12'' \<mapsto> s0\<lparr>lastActivity := 5000\<rparr>] ''ab12''
       = (None, [''ab12'' \<mapsto> s0\<lparr>lastActivity := 5000\<rparr>](''ab12'' := None))"
proof -
  let ?m = "[''ab12'' \<mapsto> s0]"
  let ?m' = "[''ab12'' \<mapsto> s0\<lparr>lastActivity := 5000\<rparr>]"
  note unknown = validateSession_lifecycle [of Map.empty "''ab12''" cfg0 5000, THEN conjunct1]
  note invalid = validateSession_lifecycle
    [of "[''ab12'' \<mapsto> s0\<lparr>isValid := False\<rparr>]" "''ab12''" cfg0 5000,
      THEN conjunct2, THEN conjunct1, rule_format, of "s0\<lparr>isValid := False\<rparr>"]
  note expired = validateSession_lifecycle [of ?m "''ab12''" cfg0 1801001,
      THEN conjunct2, THEN conjunct2, THEN conjunct1, rule_format, of s0]
  note fresh = validateSession_lifecycle [of ?m "''ab12''" cfg0 5000,
      THEN conjunct2, THEN conjunct2, THEN conjunct2, THEN conjunct1, rule_format, of s0]
  note again = validateSession_lifecycle [of ?m "''ab12''" cfg0 5000,
      THEN conjunct2, THEN conjunct2, THEN conjunct2, THEN conjunct2, rule_format,
      of "s0\<lparr>lastActivity := 5000\<rparr>" ?m']
  have c1: "validateSession cfg0 5000 Map.empty ''ab12'' = (None, Map.empty)"
    using unknown by simp
  have c2: "validateSession cfg0 5000 [''ab12'' \<mapsto> s0\<lparr>isValid := False\<rparr>] ''ab12''
       = (None, [''ab12'' \<mapsto> s0\<lparr>isValid := False\<rparr>])"
    using invalid by (simp add: s0_def)
  have c3: "validateSession cfg0 1801001 ?m ''ab12'' = (None, ?m(''ab12'' := None))"
    using expired by (simp add: s0_def cfg0_def)
  have c4: "validateSession cfg0 5000 ?m ''ab12''
       = (Some (s0\<lparr>lastActivity := 5000\<rparr>), ?m(''ab12'' \<mapsto> s0\<lparr>lastActivity := 5000\<rparr>))"
    using fresh by (simp add: s0_def cfg0_def)
  then have v: "validateSession cfg0 5000 ?m ''ab12'' = (Some (s0\<lparr>lastActivity := 5000\<rparr>), ?m')"
    by simp
  have c5: "validateSession cfg0 (5000 + 1800000 - 1) ?m' ''ab12''
       = (Some (s0\<lparr>lastActivity := 5000 + 1800000 - 1\<rparr>),
          ?m'(''ab12'' \<mapsto> s0\<lparr>lastActivity := 5000 + 1800000 - 1\<rparr>))"
    using again [OF v, THEN conjunct1, rule_format, of 1] by (simp add: cfg0_def)
  have c6: "validateSession cfg0 (5000 + 1800000 + 1) ?m' ''ab12'' = (None, ?m'(''ab12'' := None))"
    using again [OF v, THEN conjunct2, rule_format, of 1] by (simp add: cfg0_def)
  from c1 c2 c3 c4 c5 c6 show ?thesis by simp
qed

section \<open>The login throttle\<close>

lemma blocked_iff:
  "is_blocked (fst (login cfg now sid req st))
     \<longleftrightarrow> (\<exists>a. loginAttempts st (clientIP req) = Some a \<and> count a \<ge> 5
              \<and> now - lastAttempt a \<le> window)"
  by (auto simp add: login_def Let_def createSession_def split: option.splits prod.splits)

lemma success_clears:
  "is_success (fst (login cfg now sid req st))
     \<Longrightarrow> loginAttempts (snd (login cfg now sid req st)) (clientIP req) = None"
  by (auto simp add: login_def Let_def createSession_def split: option.splits prod.splits if_splits)

lemma failure_entry:
  "is_failure (fst (login cfg now sid req st)) \<Longrightarrow>
   loginAttempts (snd (login cfg now sid req st)) (clientIP req) =
     Some \<lparr> count = (case loginAttempts st (clientIP req) of
                       None \<Rightarrow> 0
                     | Some a \<Rightarrow> if now - lastAttempt a > window then 0 else count a) + 1,
            lastAttempt = now \<rparr>"
  by (auto simp add: login_def Let_def createSession_def split: option.splits prod.splits if_splits)

lemma other_client:
  "clientIP req \<noteq> ip \<Longrightarrow> loginAttempts (snd (login cfg now sid req st)) ip = loginAttempts st ip"
  by (auto simp add: login_def Let_def createSession_def split: option.splits prod.splits if_splits)

lemma logins_Cons:
  "logins cfg ((now, sid, req) # rest) st =
     (fst (login cfg now sid req st) # fst (logins cfg rest (snd (login cfg now sid req st))),
      snd (logins cfg rest (snd (login cfg now sid req st))))"
  by (simp add: split_beta Let_def)

text \<open>
  Failures of one client, each within the window of the one before, add up, whatever
  other clients do in between.
\<close>

lemma run_counts:
  "loginAttempts st ip = Some a \<Longrightarrow>
   \<forall>r \<in> set (results_of ip reqs (fst (logins cfg reqs st))). is_failure r \<Longrightarrow>
   close_together (lastAttempt a # map fst (from_client ip reqs)) \<Longrightarrow>
   \<exists>a'. loginAttempts (snd (logins cfg reqs st)) ip = Some a'
      \<and> count a' = count a + length (from_client ip reqs)
      \<and> lastAttempt a' = last (lastAttempt a # map fst (from_client ip reqs))"
proof (induction reqs arbitrary: st a)
  case Nil
  then show ?case by (simp add: from_client_def)
next
  case (Cons x reqs)
  obtain now sid req where x: "x = (now, sid, req)" by (cases x)
  let ?st = "snd (login cfg now sid req st)"
  show ?case
  proof (cases "clientIP req = ip")
    case False
    have e: "loginAttempts ?st ip = Some a"
      using False Cons.prems(1) by (simp add: other_client)
    have r: "\<forall>r \<in> set (results_of ip reqs (fst (logins cfg reqs ?st))). is_failure r"
      using Cons.prems(2) False unfolding x logins_Cons by (simp add: results_of_def)
    have c: "close_together (lastAttempt a # map fst (from_client ip reqs))"
      using Cons.prems(3) False by (simp add: x from_client_def)
    from Cons.IH [OF e r c] show ?thesis
      using False unfolding x logins_Cons by (simp add: from_client_def)
  next
    case True
    have f: "is_failure (fst (login cfg now sid req st))"
      using Cons.prems(2) True unfolding x logins_Cons by (simp add: results_of_def)
    have near: "now - lastAttempt a \<le> window"
      using Cons.prems(3) True by (simp add: x from_client_def)
    let ?a = "\<lparr> count = count a + 1, lastAttempt = now \<rparr>"
    have e: "loginAttempts ?st ip = Some ?a"
      using failure_entry [OF f] True Cons.prems(1) near by simp
    have r: "\<forall>r \<in> set (results_of ip reqs (fst (logins cfg reqs ?st))). is_failure r"
      using Cons.prems(2) True unfolding x logins_Cons by (simp add: results_of_def)
    have c: "close_together (lastAttempt ?a # map fst (from_client ip reqs))"
      using Cons.prems(3) True by (simp add: x from_client_def)
    from Cons.IH [OF e r c] show ?thesis
      using True unfolding x logins_Cons by (simp add: from_client_def)
  qed
qed

lemma run_counts_any:
  "\<forall>r \<in> set (results_of ip reqs (fst (logins cfg reqs st))). is_failure r \<Longrightarrow>
   close_together (map fst (from_client ip reqs)) \<Longrightarrow>
   from_client ip reqs \<noteq> [] \<Longrightarrow>
   \<exists>a'. loginAttempts (snd (logins cfg reqs st)) ip = Some a'
      \<and> count a' \<ge> length (from_client ip reqs)
      \<and> lastAttempt a' = last (map fst (from_client ip reqs))"
proof (induction reqs arbitrary: st)
  case Nil
  then show ?case by (simp add: from_client_def)
next
  case (Cons x reqs)
  obtain now sid req where x: "x = (now, sid, req)" by (cases x)
  let ?st = "snd (login cfg now sid req st)"
  have r: "\<forall>r \<in> set (results_of ip reqs (fst (logins cfg reqs ?st))). is_failure r"
    using Cons.prems(1) unfolding x logins_Cons by (simp add: results_of_def split: if_splits)
  show ?case
  proof (cases "clientIP req = ip")
    case False
    have c: "close_together (map fst (from_client ip reqs))"
      using Cons.prems(2) False by (simp add: x from_client_def)
    have n: "from_client ip reqs \<noteq> []"
      using Cons.prems(3) False by (simp add: x from_client_def)
    from Cons.IH [OF r c n] show ?thesis
      using False unfolding x logins_Cons by (simp add: from_client_def)
  next
    case True
    have f: "is_failure (fst (login cfg now sid req st))"
      using Cons.prems(1) True unfolding x logins_Cons by (simp add: results_of_def)
    obtain a where e: "loginAttempts ?st ip = Some a" and a: "count a \<ge> 1" "lastAttempt a = now"
      using failure_entry [OF f] True by simp
    have c: "close_together (lastAttempt a # map fst (from_client ip reqs))"
      using Cons.prems(2) True a by (simp add: x from_client_def)
    from run_counts [OF e r c] a show ?thesis
      using True unfolding x logins_Cons by (auto simp add: from_client_def)
  qed
qed

lemma sixth_blocked:
  assumes "length (from_client ip reqs) = 5"
    and "\<forall>r \<in> set (results_of ip reqs (fst (logins cfg reqs st))). is_failure r"
    and "close_together (map fst (from_client ip reqs) @ [now])"
    and "clientIP req = ip"
  shows "is_blocked (fst (login cfg now sid req (snd (logins cfg reqs st))))"
proof -
  have ne: "from_client ip reqs \<noteq> []" using assms(1) by auto
  have ct: "close_together (xs @ [t]) \<Longrightarrow> close_together xs \<and> (xs \<noteq> [] \<longrightarrow> t - last xs \<le> window)"
    for xs t
    by (induction xs rule: close_together.induct) auto
  from ct [OF assms(3)] ne
  have c: "close_together (map fst (from_client ip reqs))"
    and l: "now - last (map fst (from_client ip reqs)) \<le> window" by auto
  from run_counts_any [OF assms(2) c ne] obtain a' where
    "loginAttempts (snd (logins cfg reqs st)) ip = Some a'" "count a' \<ge> 5"
    "lastAttempt a' = last (map fst (from_client ip reqs))"
    using assms(1) by auto
  then show ?thesis using l assms(4) by (simp add: blocked_iff)
qed

lemma blocked_unchanged:
  "is_blocked (fst (login cfg now sid req st)) \<Longrightarrow> snd (login cfg now sid req st) = st"
  by (auto simp add: login_def Let_def createSession_def split: option.splits prod.splits if_splits)

lemma success_iff:
  "is_success (fst (login cfg now sid req st))
     \<longleftrightarrow> \<not> is_blocked (fst (login cfg now sid req st))
        \<and> username req = Some (cfg_username cfg) \<and> password req = Some (cfg_password cfg)"
  by (auto simp add: login_def Let_def createSession_def credential_checks_def
      split: option.splits prod.splits)

lemma failure_iff:
  "is_failure (fst (login cfg now sid req st))
     \<longleftrightarrow> \<not> is_blocked (fst (login cfg now sid req st))
        \<and> \<not> (username req = Some (cfg_username cfg) \<and> password req = Some (cfg_password cfg))"
  by (auto simp add: login_def Let_def createSession_def credential_checks_def
      split: option.splits prod.splits)

text \<open>
  From no entry, the failures of one client, each within the window of the one before,
  are counted one by one.
\<close>

lemma run_counts_fresh:
  assumes "loginAttempts st ip = None"
    and "\<forall>r \<in> set (results_of ip reqs (fst (logins cfg reqs st))). is_failure r"
    and "close_together (map fst (from_client ip reqs))"
    and "from_client ip reqs \<noteq> []"
  shows "loginAttempts (snd (logins cfg reqs st)) ip =
     Some \<lparr> count = length (from_client ip reqs),
            lastAttempt = last (map fst (from_client ip reqs)) \<rparr>"
  using assms
proof (induction reqs arbitrary: st)
  case Nil
  then show ?case by (simp add: from_client_def)
next
  case (Cons x reqs)
  obtain now sid req where x: "x = (now, sid, req)" by (cases x)
  let ?st = "snd (login cfg now sid req st)"
  have r: "\<forall>r \<in> set (results_of ip reqs (fst (logins cfg reqs ?st))). is_failure r"
    using Cons.prems(2) unfolding x logins_Cons by (simp add: results_of_def split: if_splits)
  show ?case
  proof (cases "clientIP req = ip")
    case False
    have e: "loginAttempts ?st ip = None"
      using False Cons.prems(1) by (simp add: other_client)
    have c: "close_together (map fst (from_client ip reqs))"
      using Cons.prems(3) False by (simp add: x from_client_def)
    have n: "from_client ip reqs \<noteq> []"
      using Cons.prems(4) False by (simp add: x from_client_def)
    from Cons.IH [OF e r c n] show ?thesis
      using False unfolding x logins_Cons by (simp add: from_client_def)
  next
    case True
    have f: "is_failure (fst (login cfg now sid req st))"
      using Cons.prems(2) True unfolding x logins_Cons by (simp add: results_of_def)
    let ?a = "\<lparr> count = 1, lastAttempt = now \<rparr>"
    have e: "loginAttempts ?st ip = Some ?a"
      using failure_entry [OF f] True Cons.prems(1) by simp
    have c: "close_together (lastAttempt ?a # map fst (from_client ip reqs))"
      using Cons.prems(3) True by (simp add: x from_client_def)
    from run_counts [OF e r c] obtain a' where
      a': "loginAttempts (snd (logins cfg reqs ?st)) ip = Some a'"
      "count a' = 1 + length (from_client ip reqs)"
      "lastAttempt a' = last (now # map fst (from_client ip reqs))"
      by auto
    have "a' = \<lparr> count = 1 + length (from_client ip reqs),
                  lastAttempt = last (now # map fst (from_client ip reqs)) \<rparr>"
      using a'(2,3) by (cases a') simp
    with a'(1) show ?thesis
      using True unfolding x logins_Cons by (simp add: from_client_def)
  qed
qed

text \<open>
  C4. The entry of a client holds its count of failures and \<open>lastAttempt\<close>, the time of
  the last counted failure, from which the 15-minute window is measured. (1) Once
  \<open>now - lastAttempt\<close> exceeds the window the count starts again from 0: the request is
  not blocked, and it leaves a count of 1 if it fails and no entry if it succeeds.
  (2) A request is blocked iff the client's count is at least 5 and the window has not
  expired. (3) After five failures of one client, each within the window of the one
  before, the client's next request within the window is blocked whatever its
  credentials, and whatever other clients did in between. (4) A successful login
  removes the client's entry. (5) A blocked request changes nothing. (6) A request that
  is not blocked succeeds iff both credentials are the configured ones, and fails
  otherwise. (7) A failure stores the count it found, or 0 when there was no entry or
  the window had expired, plus one, with the time of the request. (8) The entries of
  other clients are left as they were. (9) From no entry, the failures of a client,
  each within the window of the one before, leave their number as the count and the
  time of the last one.
\<close>

theorem login_throttle:
  "(\<forall>a. loginAttempts st (clientIP req) = Some a \<and> now - lastAttempt a > window \<longrightarrow>
        \<not> is_blocked (fst (login cfg now sid req st))
        \<and> loginAttempts (snd (login cfg now sid req st)) (clientIP req)
            = (if is_failure (fst (login cfg now sid req st))
               then Some \<lparr> count = 1, lastAttempt = now \<rparr> else None))
   \<and> (is_blocked (fst (login cfg now sid req st))
        \<longleftrightarrow> (\<exists>a. loginAttempts st (clientIP req) = Some a \<and> count a \<ge> 5
                 \<and> now - lastAttempt a \<le> window))
   \<and> (\<forall>reqs st0. length (from_client (clientIP req) reqs) = 5
          \<and> (\<forall>r \<in> set (results_of (clientIP req) reqs (fst (logins cfg reqs st0))). is_failure r)
          \<and> close_together (map fst (from_client (clientIP req) reqs) @ [now])
        \<longrightarrow> is_blocked (fst (login cfg now sid req (snd (logins cfg reqs st0)))))
   \<and> (is_success (fst (login cfg now sid req st))
        \<longrightarrow> loginAttempts (snd (login cfg now sid req st)) (clientIP req) = None)
   \<and> (is_blocked (fst (login cfg now sid req st)) \<longrightarrow> snd (login cfg now sid req st) = st)
   \<and> (\<not> is_blocked (fst (login cfg now sid req st)) \<longrightarrow>
        (if username req = Some (cfg_username cfg) \<and> password req = Some (cfg_password cfg)
         then is_success (fst (login cfg now sid req st))
         else is_failure (fst (login cfg now sid req st))))
   \<and> (is_failure (fst (login cfg now sid req st)) \<longrightarrow>
        loginAttempts (snd (login cfg now sid req st)) (clientIP req) =
          Some \<lparr> count = (case loginAttempts st (clientIP req) of
                            None \<Rightarrow> 0
                          | Some a \<Rightarrow> if now - lastAttempt a > window then 0 else count a) + 1,
                 lastAttempt = now \<rparr>)
   \<and> (\<forall>ip. ip \<noteq> clientIP req \<longrightarrow>
          loginAttempts (snd (login cfg now sid req st)) ip = loginAttempts st ip)
   \<and> (\<forall>reqs st0. loginAttempts st0 (clientIP req) = None
          \<and> from_client (clientIP req) reqs \<noteq> []
          \<and> (\<forall>r \<in> set (results_of (clientIP req) reqs (fst (logins cfg reqs st0))). is_failure r)
          \<and> close_together (map fst (from_client (clientIP req) reqs))
        \<longrightarrow> loginAttempts (snd (logins cfg reqs st0)) (clientIP req) =
              Some \<lparr> count = length (from_client (clientIP req) reqs),
                     lastAttempt = last (map fst (from_client (clientIP req) reqs)) \<rparr>)"
proof (intro conjI allI impI)
  fix a
  assume a: "loginAttempts st (clientIP req) = Some a \<and> now - lastAttempt a > window"
  then show nb: "\<not> is_blocked (fst (login cfg now sid req st))"
    by (simp add: blocked_iff)
  show "loginAttempts (snd (login cfg now sid req st)) (clientIP req)
            = (if is_failure (fst (login cfg now sid req st))
               then Some \<lparr> count = 1, lastAttempt = now \<rparr> else None)"
  proof (cases "fst (login cfg now sid req st)")
    case (TooManyAttempts x)
    with nb show ?thesis by simp
  next
    case (LoggedIn x y)
    then show ?thesis using success_clears [of cfg now sid req st] by simp
  next
    case (InvalidCredentials x)
    then show ?thesis using failure_entry [of cfg now sid req st] a by simp
  qed
next
  show "is_blocked (fst (login cfg now sid req st))
        \<longleftrightarrow> (\<exists>a. loginAttempts st (clientIP req) = Some a \<and> count a \<ge> 5
                 \<and> now - lastAttempt a \<le> window)"
    by (rule blocked_iff)
next
  fix reqs st0
  assume "length (from_client (clientIP req) reqs) = 5
          \<and> (\<forall>r \<in> set (results_of (clientIP req) reqs (fst (logins cfg reqs st0))). is_failure r)
          \<and> close_together (map fst (from_client (clientIP req) reqs) @ [now])"
  then show "is_blocked (fst (login cfg now sid req (snd (logins cfg reqs st0))))"
    using sixth_blocked [of "clientIP req" reqs cfg st0 now req sid] by blast
next
  assume "is_success (fst (login cfg now sid req st))"
  then show "loginAttempts (snd (login cfg now sid req st)) (clientIP req) = None"
    by (rule success_clears)
next
  assume "is_blocked (fst (login cfg now sid req st))"
  then show "snd (login cfg now sid req st) = st" by (rule blocked_unchanged)
next
  assume "\<not> is_blocked (fst (login cfg now sid req st))"
  then show "if username req = Some (cfg_username cfg) \<and> password req = Some (cfg_password cfg)
         then is_success (fst (login cfg now sid req st))
         else is_failure (fst (login cfg now sid req st))"
    by (simp add: success_iff failure_iff)
next
  assume "is_failure (fst (login cfg now sid req st))"
  then show "loginAttempts (snd (login cfg now sid req st)) (clientIP req) =
          Some \<lparr> count = (case loginAttempts st (clientIP req) of
                            None \<Rightarrow> 0
                          | Some a \<Rightarrow> if now - lastAttempt a > window then 0 else count a) + 1,
                 lastAttempt = now \<rparr>"
    by (rule failure_entry)
next
  fix ip
  assume "ip \<noteq> clientIP req"
  then show "loginAttempts (snd (login cfg now sid req st)) ip = loginAttempts st ip"
    by (simp add: other_client)
next
  fix reqs st0
  assume "loginAttempts st0 (clientIP req) = None
          \<and> from_client (clientIP req) reqs \<noteq> []
          \<and> (\<forall>r \<in> set (results_of (clientIP req) reqs (fst (logins cfg reqs st0))). is_failure r)
          \<and> close_together (map fst (from_client (clientIP req) reqs))"
  then show "loginAttempts (snd (logins cfg reqs st0)) (clientIP req) =
              Some \<lparr> count = length (from_client (clientIP req) reqs),
                     lastAttempt = last (map fst (from_client (clientIP req) reqs)) \<rparr>"
    using run_counts_fresh [of st0 "clientIP req" reqs cfg] by blast
qed

lemma five_failures_run:
  "logins cfg0 five_failures no_state =
     (replicate 5 (InvalidCredentials ''/api/db''), throttled_state)"
  by (simp add: five_failures_def no_state_def throttled_state_def wrong_login_def cfg0_def
      login_def Let_def window_def redirect_target_def credential_checks_def numeral_eq_Suc)

theorem login_throttle_witness:
  "is_blocked (fst (login cfg0 300000 ''s6'' right_login (snd (logins cfg0 five_failures no_state))))
   \<and> is_blocked (fst (login cfg0 300000 ''s6'' right_login throttled_state))
   \<and> \<not> is_blocked (fst (login cfg0 1140001 ''s6'' right_login throttled_state))
   \<and> is_success (fst (login cfg0 1140001 ''s6'' right_login throttled_state))
   \<and> loginAttempts (snd (login cfg0 1140001 ''s6'' right_login throttled_state)) ''10.0.0.7'' = None
   \<and> loginAttempts (snd (login cfg0 1140001 ''s6'' wrong_login throttled_state)) ''10.0.0.7''
       = Some \<lparr> count = 1, lastAttempt = 1140001 \<rparr>
   \<and> snd (login cfg0 300000 ''s6'' right_login throttled_state) = throttled_state
   \<and> is_failure (fst (login cfg0 1140001 ''s6'' wrong_login throttled_state))
   \<and> is_failure (fst (login cfg0 0 ''s1'' wrong_login no_state))
   \<and> loginAttempts (snd (login cfg0 0 ''s1'' wrong_login no_state)) ''10.0.0.7''
       = Some \<lparr> count = 1, lastAttempt = 0 \<rparr>
   \<and> loginAttempts (snd (login cfg0 1140001 ''s6'' right_login throttled_state)) ''10.0.0.8''
       = None
   \<and> loginAttempts (snd (logins cfg0 five_failures no_state)) ''10.0.0.7''
       = Some \<lparr> count = 5, lastAttempt = 240000 \<rparr>"
proof -
  note sixth = login_throttle [of throttled_state right_login 300000 cfg0 "''s6''",
      THEN conjunct2, THEN conjunct2, THEN conjunct1, rule_format, of five_failures no_state]
  note blocked = login_throttle [of throttled_state right_login 300000 cfg0 "''s6''",
      THEN conjunct2, THEN conjunct1]
  note reset = login_throttle [of throttled_state right_login 1140001 cfg0 "''s6''",
      THEN conjunct1, rule_format, of "\<lparr> count = 5, lastAttempt = 240000 \<rparr>"]
  note reset' = login_throttle [of throttled_state wrong_login 1140001 cfg0 "''s6''",
      THEN conjunct1, rule_format, of "\<lparr> count = 5, lastAttempt = 240000 \<rparr>"]
  note cleared = login_throttle [of throttled_state right_login 1140001 cfg0 "''s6''",
      THEN conjunct2, THEN conjunct2, THEN conjunct2, THEN conjunct1, rule_format]
  note unchanged = login_throttle [of throttled_state right_login 300000 cfg0 "''s6''",
      THEN conjunct2, THEN conjunct2, THEN conjunct2, THEN conjunct2, THEN conjunct1,
      rule_format]
  note decided = login_throttle [of throttled_state right_login 1140001 cfg0 "''s6''",
      THEN conjunct2, THEN conjunct2, THEN conjunct2, THEN conjunct2, THEN conjunct2,
      THEN conjunct1, rule_format]
  note decided' = login_throttle [of throttled_state wrong_login 1140001 cfg0 "''s6''",
      THEN conjunct2, THEN conjunct2, THEN conjunct2, THEN conjunct2, THEN conjunct2,
      THEN conjunct1, rule_format]
  note first_blocked = login_throttle [of no_state wrong_login 0 cfg0 "''s1''",
      THEN conjunct2, THEN conjunct1]
  note first_decided = login_throttle [of no_state wrong_login 0 cfg0 "''s1''",
      THEN conjunct2, THEN conjunct2, THEN conjunct2, THEN conjunct2, THEN conjunct2,
      THEN conjunct1, rule_format]
  note first_entry = login_throttle [of no_state wrong_login 0 cfg0 "''s1''",
      THEN conjunct2, THEN conjunct2, THEN conjunct2, THEN conjunct2, THEN conjunct2,
      THEN conjunct2, THEN conjunct1, rule_format]
  note others = login_throttle [of throttled_state right_login 1140001 cfg0 "''s6''",
      THEN conjunct2, THEN conjunct2, THEN conjunct2, THEN conjunct2, THEN conjunct2,
      THEN conjunct2, THEN conjunct2, THEN conjunct1, rule_format, of "''10.0.0.8''"]
  note counted = login_throttle [of no_state right_login 0 cfg0 "''s1''",
      THEN conjunct2, THEN conjunct2, THEN conjunct2, THEN conjunct2, THEN conjunct2,
      THEN conjunct2, THEN conjunct2, THEN conjunct2, rule_format, of no_state five_failures]
  have l: "from_client (clientIP right_login) five_failures = five_failures"
    by (simp add: from_client_def five_failures_def wrong_login_def right_login_def)
  have h2: "\<forall>r \<in> set (results_of (clientIP right_login) five_failures
               (fst (logins cfg0 five_failures no_state))). is_failure r"
    by (auto simp add: five_failures_run results_of_def dest!: set_zip_rightD)
  have c1: "is_blocked (fst (login cfg0 300000 ''s6'' right_login (snd (logins cfg0 five_failures no_state))))"
  proof -
    have h1: "length (from_client (clientIP right_login) five_failures) = 5"
      unfolding l by (simp add: five_failures_def)
    have h3: "close_together (map fst (from_client (clientIP right_login) five_failures) @ [300000])"
      unfolding l by (simp add: five_failures_def window_def)
    from sixth [OF conjI [OF h1 conjI [OF h2 h3]]] show ?thesis .
  qed
  have c2: "is_blocked (fst (login cfg0 300000 ''s6'' right_login throttled_state))"
    using blocked by (simp add: throttled_state_def right_login_def window_def)
  have c3: "\<not> is_blocked (fst (login cfg0 1140001 ''s6'' right_login throttled_state))"
    using reset by (simp add: throttled_state_def right_login_def window_def)
  have c3': "\<not> is_blocked (fst (login cfg0 1140001 ''s6'' wrong_login throttled_state))"
    using reset' by (simp add: throttled_state_def wrong_login_def window_def)
  have ok: "is_success (fst (login cfg0 1140001 ''s6'' right_login throttled_state))"
    using decided [OF c3] by (simp add: right_login_def cfg0_def)
  have bad: "is_failure (fst (login cfg0 1140001 ''s6'' wrong_login throttled_state))"
    using decided' [OF c3'] by (simp add: wrong_login_def cfg0_def)
  have c5: "loginAttempts (snd (login cfg0 1140001 ''s6'' right_login throttled_state)) ''10.0.0.7'' = None"
    using cleared [OF ok] by (simp add: right_login_def)
  have c6: "loginAttempts (snd (login cfg0 1140001 ''s6'' wrong_login throttled_state)) ''10.0.0.7''
       = Some \<lparr> count = 1, lastAttempt = 1140001 \<rparr>"
    using reset' bad by (simp add: throttled_state_def wrong_login_def window_def)
  have c7: "snd (login cfg0 300000 ''s6'' right_login throttled_state) = throttled_state"
    using unchanged [OF c2] .
  have nb: "\<not> is_blocked (fst (login cfg0 0 ''s1'' wrong_login no_state))"
    using first_blocked by (simp add: no_state_def)
  have c8: "is_failure (fst (login cfg0 0 ''s1'' wrong_login no_state))"
    using first_decided [OF nb] by (simp add: wrong_login_def cfg0_def)
  have c9: "loginAttempts (snd (login cfg0 0 ''s1'' wrong_login no_state)) ''10.0.0.7''
       = Some \<lparr> count = 1, lastAttempt = 0 \<rparr>"
    using first_entry [OF c8] by (simp add: wrong_login_def no_state_def)
  have c10: "loginAttempts (snd (login cfg0 1140001 ''s6'' right_login throttled_state)) ''10.0.0.8''
       = None"
    using others by (simp add: right_login_def throttled_state_def)
  have c11: "loginAttempts (snd (logins cfg0 five_failures no_state)) ''10.0.0.7''
       = Some \<lparr> count = 5, lastAttempt = 240000 \<rparr>"
  proof -
    have h0: "loginAttempts no_state (clientIP right_login) = None" by (simp add: no_state_def)
    have h1: "from_client (clientIP right_login) five_failures \<noteq> []"
      unfolding l by (simp add: five_failures_def)
    have h3: "close_together (map fst (from_client (clientIP right_login) five_failures))"
      unfolding l by (simp add: five_failures_def window_def)
    from counted [OF conjI [OF h0 conjI [OF h1 conjI [OF h2 h3]]]] show ?thesis
      unfolding l by (simp add: five_failures_def right_login_def)
  qed
  from c1 c2 c3 ok c5 c6 c7 bad c8 c9 c10 c11 show ?thesis by simp
qed

text \<open>
  The window is not measured from its start. With failures at minutes 0, 10 and 16 the
  third comes more than 15 minutes after the first, and the count is 3, where the
  specification's entry restarts at 1. Five failures 14 minutes apart are never five
  within one window of 15 minutes, and a correct login at minute 60 is turned away,
  where the specification's throttle does not block.
\<close>

theorem login_window_follows_last_failure:
  "logins cfg0 three_failures no_state =
     (replicate 3 (InvalidCredentials ''/api/db''),
      \<lparr> session_map = Map.empty,
        loginAttempts = [''10.0.0.7'' \<mapsto> \<lparr> count = 3, lastAttempt = 960000 \<rparr>] \<rparr>)
   \<and> 960000 - 0 > window
   \<and> spec_failures [0, 600000, 960000] = Some \<lparr> failCount = 1, windowStart = 960000 \<rparr>
   \<and> fst (logins cfg0 spaced_failures no_state) = replicate 5 (InvalidCredentials ''/api/db'')
   \<and> fst (login cfg0 3600000 ''s6'' right_login (snd (logins cfg0 spaced_failures no_state)))
       = TooManyAttempts ''/api/db''
   \<and> \<not> spec_isBlocked 3600000 (spec_failures [0, 840000, 1680000, 2520000, 3360000])"
proof -
  have a: "logins cfg0 three_failures no_state =
     (replicate 3 (InvalidCredentials ''/api/db''),
      \<lparr> session_map = Map.empty,
        loginAttempts = [''10.0.0.7'' \<mapsto> \<lparr> count = 3, lastAttempt = 960000 \<rparr>] \<rparr>)"
    by (simp add: three_failures_def no_state_def wrong_login_def cfg0_def
        login_def Let_def window_def redirect_target_def credential_checks_def numeral_eq_Suc)
  have b: "960000 - 0 > window" by (simp add: window_def)
  have c: "spec_failures [0, 600000, 960000] = Some \<lparr> failCount = 1, windowStart = 960000 \<rparr>"
    by (simp add: spec_failures_def spec_recordFailure_def window_def)
  have d: "logins cfg0 spaced_failures no_state =
     (replicate 5 (InvalidCredentials ''/api/db''),
      \<lparr> session_map = Map.empty,
        loginAttempts = [''10.0.0.7'' \<mapsto> \<lparr> count = 5, lastAttempt = 3360000 \<rparr>] \<rparr>)"
    by (simp add: spaced_failures_def no_state_def wrong_login_def cfg0_def
        login_def Let_def window_def redirect_target_def credential_checks_def numeral_eq_Suc)
  have e: "fst (login cfg0 3600000 ''s6'' right_login (snd (logins cfg0 spaced_failures no_state)))
       = TooManyAttempts ''/api/db''"
    unfolding d
    by (simp add: right_login_def cfg0_def login_def Let_def window_def redirect_target_def)
  have f: "\<not> spec_isBlocked 3600000 (spec_failures [0, 840000, 1680000, 2520000, 3360000])"
    by (simp add: spec_failures_def spec_recordFailure_def spec_isBlocked_def window_def)
  from a b c d e f show ?thesis by simp
qed

section \<open>The credential check\<close>

text \<open>
  C1 says that a login compares the submitted password with the stored one by a
  constant-time byte comparison. The handler does not: every comparison it makes on the
  credentials is made by \<open>===\<close>, none by \<open>crypto.timingSafeEqual\<close>, and the password is
  only compared at all when the user name matched. The request below, with the wrong
  password \<open>guess\<close>, is answered after the two strict comparisons shown.
\<close>

theorem login_compares_with_strict_equality:
  "TimingSafeEqual a b \<notin> set (credential_checks cfg req)
   \<and> credential_checks cfg0 wrong_login
       = [StrictEquals (Some ''admin'') ''admin'', StrictEquals (Some ''guess'') ''secret'']
   \<and> fst (login cfg0 1000 ''s1'' wrong_login no_state) = InvalidCredentials ''/api/db''"
  by (simp add: credential_checks_def cfg0_def wrong_login_def login_def Let_def window_def
      no_state_def redirect_target_def)

section \<open>Update and delete\<close>

text \<open>
  C7. Both handlers first look the table's primary key up. When the table has none they
  answer with status 400 and the message \<open>Table has no primary key defined\<close>, and the
  look-up is the only statement sent: no row is touched. When the table has one and the
  \<open>UPDATE\<close> or \<open>DELETE\<close> runs and returns no row, because no row has the given key,
  they answer with status 404 and \<open>Record not found\<close>, not with the 500 of a database
  error.
\<close>

theorem update_delete_outcomes:
  "(table_name_ok tableName \<and> connect db = None
      \<and> run db primary_key_sql [Str tableName] = Inr pkResult \<longrightarrow>
     (rows pkResult = [] \<longrightarrow>
        update_record node_env db tableName record_id recordData
          = (no_primary_key, [Connect, Query primary_key_sql [Str tableName], End])
      \<and> delete_record node_env db tableName record_id
          = (no_primary_key, [Connect, Query primary_key_sql [Str tableName], End]))
     \<and> (\<forall>first others result.
          rows pkResult = first # others
          \<and> run db (update_sql tableName recordData (ToString (get first ''column_name'')))
                 (map snd recordData @ [Str record_id]) = Inr result
          \<and> rows result = [] \<longrightarrow>
          update_record node_env db tableName record_id recordData
            = (record_not_found,
               [Connect, Query primary_key_sql [Str tableName],
                Query (update_sql tableName recordData (ToString (get first ''column_name'')))
                      (map snd recordData @ [Str record_id]),
                End]))
     \<and> (\<forall>first others result.
          rows pkResult = first # others
          \<and> run db (delete_sql tableName (ToString (get first ''column_name'')))
                 [Str record_id] = Inr result
          \<and> rows result = [] \<longrightarrow>
          delete_record node_env db tableName record_id
            = (record_not_found,
               [Connect, Query primary_key_sql [Str tableName],
                Query (delete_sql tableName (ToString (get first ''column_name''))) [Str record_id],
                End])))
   \<and> status no_primary_key = 400
   \<and> field ''error'' no_primary_key = Some (Val (Str ''Table has no primary key defined''))
   \<and> status record_not_found = 404
   \<and> field ''error'' record_not_found = Some (Val (Str ''Record not found''))"
  by (auto simp add: update_record_def delete_record_def with_client_def and_then_def
      query_def return_def Let_def no_primary_key_def record_not_found_def json_def field_def)

lemma keyless_db_answer:
  "table_name_ok ''users'' \<and> connect keyless_db = None
   \<and> run keyless_db primary_key_sql [Str ''users''] = Inr (selected [])"
proof -
  have "table_name_ok ''users''" by code_simp
  then show ?thesis by (simp add: keyless_db_def answering_def)
qed

lemma no_match_db_answer:
  "table_name_ok ''users'' \<and> connect no_match_db = None
   \<and> run no_match_db primary_key_sql [Str ''users'']
       = Inr (selected [[(''column_name'', Str ''id'')]])"
proof -
  have "table_name_ok ''users''" by code_simp
  then show ?thesis by (simp add: no_match_db_def answering_def)
qed

lemma no_match_db_update:
  "run no_match_db (update_sql ''users'' new_name ''id'') (map snd new_name @ [Str ''42''])
     = Inr (selected [])"
  by code_simp

lemma no_match_db_delete:
  "run no_match_db (delete_sql ''users'' ''id'') [Str ''42''] = Inr (selected [])"
  by code_simp

theorem update_delete_outcomes_witness:
  "update_record None keyless_db ''users'' ''42'' new_name
     = (no_primary_key, [Connect, Query primary_key_sql [Str ''users''], End])
   \<and> delete_record None keyless_db ''users'' ''42''
     = (no_primary_key, [Connect, Query primary_key_sql [Str ''users''], End])
   \<and> update_record None no_match_db ''users'' ''42'' new_name
     = (record_not_found,
        [Connect, Query primary_key_sql [Str ''users''],
         Query (update_sql ''users'' new_name ''id'') [Str ''Ann'', Str ''42''], End])
   \<and> delete_record None no_match_db ''users'' ''42''
     = (record_not_found,
        [Connect, Query primary_key_sql [Str ''users''],
         Query (delete_sql ''users'' ''id'') [Str ''42''], End])"
proof -
  note keyless = update_delete_outcomes [of "''users''" keyless_db "selected []" None "''42''"
      new_name, THEN conjunct1, rule_format, OF keyless_db_answer, THEN conjunct1, rule_format]
  note no_match = update_delete_outcomes [of "''users''" no_match_db
      "selected [[(''column_name'', Str ''id'')]]" None "''42''" new_name,
      THEN conjunct1, rule_format, OF no_match_db_answer, THEN conjunct2]
  have r: "rows (selected []) = []" by (simp add: selected_def)
  have k: "rows (selected [[(''column_name'', Str ''id'')]]) = [(''column_name'', Str ''id'')] # []"
    by (simp add: selected_def)
  have c: "ToString (get [(''column_name'', Str ''id'')] ''column_name'') = ''id''"
    by (simp add: get_def)
  have u: "run no_match_db
      (update_sql ''users'' new_name (ToString (get [(''column_name'', Str ''id'')] ''column_name'')))
      (map snd new_name @ [Str ''42'']) = Inr (selected [])"
    unfolding c by (rule no_match_db_update)
  have d: "run no_match_db
      (delete_sql ''users'' (ToString (get [(''column_name'', Str ''id'')] ''column_name'')))
      [Str ''42''] = Inr (selected [])"
    unfolding c by (rule no_match_db_delete)
  from keyless [OF r] no_match [THEN conjunct1, rule_format, OF conjI [OF k conjI [OF u r]]]
    no_match [THEN conjunct2, rule_format, OF conjI [OF k conjI [OF d r]]]
  show ?thesis by (simp add: c new_name_def)
qed

section \<open>The query console\<close>

lemma startsWith_iff: "startsWith s p \<longleftrightarrow> (\<exists>b. s = p @ b)"
  by (induction s p rule: startsWith.induct) auto

lemma str_includes_iff: "str_includes s p \<longleftrightarrow> (\<exists>a b. s = a @ p @ b)"
proof (induction s)
  case Nil
  then show ?case by auto
next
  case (Cons c s)
  have "(\<exists>a b. c # s = a @ p @ b) \<longleftrightarrow> (\<exists>b. c # s = p @ b) \<or> (\<exists>a b. s = a @ p @ b)"
    by (auto simp add: Cons_eq_append_conv)
  then show ?case using Cons by (simp add: startsWith_iff)
qed

lemma run_query_result:
  "query_text \<noteq> [] \<Longrightarrow>
   run_query db (Some query_text) startTime endTime =
     (case connect db of
        Some e \<Rightarrow>
          (json 500
             [(''error'', Val (Str ''Query execution failed'')),
              (''details'', Val (Str (err_message e))),
              (''code'', Val (optional (err_code e))),
              (''executionTime'', Val (Number (Integer (endTime - startTime)))),
              (''warnings'', strings_payload (warnings_for query_text))],
           [Connect, End])
      | None \<Rightarrow>
          (case run db query_text [] of
             Inl e \<Rightarrow>
               json 500
                 [(''error'', Val (Str ''Query execution failed'')),
                  (''details'', Val (Str (err_message e))),
                  (''code'', Val (optional (err_code e))),
                  (''executionTime'', Val (Number (Integer (endTime - startTime)))),
                  (''warnings'', strings_payload (warnings_for query_text))]
           | Inr result \<Rightarrow>
               json 200
                 [(''message'', Val (Str ''Query executed successfully'')),
                  (''rowCount'', Val (count_value (rowCount result))),
                  (''rows'', rows_payload (rows result)),
                  (''command'', Val (Str (command result))),
                  (''warnings'', strings_payload (warnings_for query_text)),
                  (''executionTime'', Val (Number (Integer (endTime - startTime))))],
           [Connect, Query query_text [], End]))"
  by (simp add: run_query_def with_client_def and_then_def query_def return_def Let_def
      split: option.splits sum.splits)

lemma warnings_for_cases:
  "warnings_for query_text =
     (if (\<exists>a b. toLowerCase (trim query_text) = a @ ''drop table'' @ b)
         \<or> (\<exists>a b. toLowerCase (trim query_text) = a @ ''drop database'' @ b)
      then [destructive_warning] else [])
     @ (if (\<exists>a b. toLowerCase (trim query_text) = a @ ''delete from'' @ b)
           \<and> \<not> (\<exists>a b. toLowerCase (trim query_text) = a @ ''where'' @ b)
        then [delete_warning] else [])
     @ (if (\<exists>a b. toLowerCase (trim query_text) = a @ ''update'' @ b)
           \<and> \<not> (\<exists>a b. toLowerCase (trim query_text) = a @ ''where'' @ b)
        then [update_warning] else [])"
  unfolding warnings_for_def Let_def str_includes_iff ..

text \<open>
  C8. A submitted text that is not empty is scanned, trimmed and in lower case, for
  \<open>drop table\<close> or \<open>drop database\<close>, for \<open>delete from\<close> with no \<open>where\<close>, and for
  \<open>update\<close> with no \<open>where\<close>; each finding adds its warning, in this order, and there
  are no other warnings. The warnings are the \<open>warnings\<close> array of the response, whether
  the query succeeded (200) or failed (500, also when the database could not be
  reached). They never stop the query: once the client is connected, the text is sent
  to the database as it was submitted, with no parameters, whatever was found in it.
  A missing or empty text is answered 400 and nothing is sent.
\<close>

theorem run_query_advisory:
  "(query_text \<noteq> [] \<longrightarrow>
      run_query db (Some query_text) startTime endTime =
        (case connect db of
           Some e \<Rightarrow>
             (\<lparr> status = 500, headers = [],
                body = JsonBody (Fields
                  [(''error'', Val (Str ''Query execution failed'')),
                   (''details'', Val (Str (err_message e))),
                   (''code'', Val (case err_code e of None \<Rightarrow> Undefined | Some c \<Rightarrow> Str c)),
                   (''executionTime'', Val (Number (Integer (endTime - startTime)))),
                   (''warnings'', List (map (\<lambda>w. Val (Str w)) (warnings_for query_text)))]) \<rparr>,
              [Connect, End])
         | None \<Rightarrow>
             (case run db query_text [] of
                Inl e \<Rightarrow>
                  \<lparr> status = 500, headers = [],
                    body = JsonBody (Fields
                      [(''error'', Val (Str ''Query execution failed'')),
                       (''details'', Val (Str (err_message e))),
                       (''code'', Val (case err_code e of None \<Rightarrow> Undefined | Some c \<Rightarrow> Str c)),
                       (''executionTime'', Val (Number (Integer (endTime - startTime)))),
                       (''warnings'', List (map (\<lambda>w. Val (Str w)) (warnings_for query_text)))]) \<rparr>
              | Inr result \<Rightarrow>
                  \<lparr> status = 200, headers = [],
                    body = JsonBody (Fields
                      [(''message'', Val (Str ''Query executed successfully'')),
                       (''rowCount'', Val (case rowCount result of
                                            None \<Rightarrow> Null
                                          | Some k \<Rightarrow> Number (Integer (int k)))),
                       (''rows'', List (map (\<lambda>r. Fields (map (\<lambda>(k, v). (k, Val v)) r))
                                         (rows result))),
                       (''command'', Val (Str (command result))),
                       (''warnings'', List (map (\<lambda>w. Val (Str w)) (warnings_for query_text))),
                       (''executionTime'', Val (Number (Integer (endTime - startTime))))]) \<rparr>,
              [Connect, Query query_text [], End])))
   \<and> warnings_for query_text =
       (if (\<exists>a b. toLowerCase (trim query_text) = a @ ''drop table'' @ b)
           \<or> (\<exists>a b. toLowerCase (trim query_text) = a @ ''drop database'' @ b)
        then [[CHR 0xE2, CHR 0x9A, CHR 0xA0, CHR 0xEF, CHR 0xB8, CHR 0x8F]
              @ '' Destructive operation detected - proceed with caution'']
        else [])
       @ (if (\<exists>a b. toLowerCase (trim query_text) = a @ ''delete from'' @ b)
             \<and> \<not> (\<exists>a b. toLowerCase (trim query_text) = a @ ''where'' @ b)
          then [[CHR 0xE2, CHR 0x9A, CHR 0xA0, CHR 0xEF, CHR 0xB8, CHR 0x8F]
                @ '' DELETE without WHERE clause - this will delete all rows'']
          else [])
       @ (if (\<exists>a b. toLowerCase (trim query_text) = a @ ''update'' @ b)
             \<and> \<not> (\<exists>a b. toLowerCase (trim query_text) = a @ ''where'' @ b)
          then [[CHR 0xE2, CHR 0x9A, CHR 0xA0, CHR 0xEF, CHR 0xB8, CHR 0x8F]
                @ '' UPDATE without WHERE clause - this will update all rows'']
          else [])
   \<and> run_query db None startTime endTime =
       (\<lparr> status = 400, headers = [],
          body = JsonBody (Fields [(''error'', Val (Str ''Missing SQL query in request body''))]) \<rparr>,
        [])
   \<and> run_query db (Some []) startTime endTime =
       (\<lparr> status = 400, headers = [],
          body = JsonBody (Fields [(''error'', Val (Str ''Missing SQL query in request body''))]) \<rparr>,
        [])"
proof (intro conjI impI)
  assume q: "query_text \<noteq> []"
  show "run_query db (Some query_text) startTime endTime =
        (case connect db of
           Some e \<Rightarrow>
             (\<lparr> status = 500, headers = [],
                body = JsonBody (Fields
                  [(''error'', Val (Str ''Query execution failed'')),
                   (''details'', Val (Str (err_message e))),
                   (''code'', Val (case err_code e of None \<Rightarrow> Undefined | Some c \<Rightarrow> Str c)),
                   (''executionTime'', Val (Number (Integer (endTime - startTime)))),
                   (''warnings'', List (map (\<lambda>w. Val (Str w)) (warnings_for query_text)))]) \<rparr>,
              [Connect, End])
         | None \<Rightarrow>
             (case run db query_text [] of
                Inl e \<Rightarrow>
                  \<lparr> status = 500, headers = [],
                    body = JsonBody (Fields
                      [(''error'', Val (Str ''Query execution failed'')),
                       (''details'', Val (Str (err_message e))),
                       (''code'', Val (case err_code e of None \<Rightarrow> Undefined | Some c \<Rightarrow> Str c)),
                       (''executionTime'', Val (Number (Integer (endTime - startTime)))),
                       (''warnings'', List (map (\<lambda>w. Val (Str w)) (warnings_for query_text)))]) \<rparr>
              | Inr result \<Rightarrow>
                  \<lparr> status = 200, headers = [],
                    body = JsonBody (Fields
                      [(''message'', Val (Str ''Query executed successfully'')),
                       (''rowCount'', Val (case rowCount result of
                                            None \<Rightarrow> Null
                                          | Some k \<Rightarrow> Number (Integer (int k)))),
                       (''rows'', List (map (\<lambda>r. Fields (map (\<lambda>(k, v). (k, Val v)) r))
                                         (rows result))),
                       (''command'', Val (Str (command result))),
                       (''warnings'', List (map (\<lambda>w. Val (Str w)) (warnings_for query_text))),
                       (''executionTime'', Val (Number (Integer (endTime - startTime))))]) \<rparr>,
              [Connect, Query query_text [], End]))"
    unfolding run_query_result [OF q]
    by (simp add: json_def optional_def count_value_def rows_payload_def row_payload_def
        strings_payload_def split: option.splits sum.splits)
next
  show "warnings_for query_text =
       (if (\<exists>a b. toLowerCase (trim query_text) = a @ ''drop table'' @ b)
           \<or> (\<exists>a b. toLowerCase (trim query_text) = a @ ''drop database'' @ b)
        then [[CHR 0xE2, CHR 0x9A, CHR 0xA0, CHR 0xEF, CHR 0xB8, CHR 0x8F]
              @ '' Destructive operation detected - proceed with caution'']
        else [])
       @ (if (\<exists>a b. toLowerCase (trim query_text) = a @ ''delete from'' @ b)
             \<and> \<not> (\<exists>a b. toLowerCase (trim query_text) = a @ ''where'' @ b)
          then [[CHR 0xE2, CHR 0x9A, CHR 0xA0, CHR 0xEF, CHR 0xB8, CHR 0x8F]
                @ '' DELETE without WHERE clause - this will delete all rows'']
          else [])
       @ (if (\<exists>a b. toLowerCase (trim query_text) = a @ ''update'' @ b)
             \<and> \<not> (\<exists>a b. toLowerCase (trim query_text) = a @ ''where'' @ b)
          then [[CHR 0xE2, CHR 0x9A, CHR 0xA0, CHR 0xEF, CHR 0xB8, CHR 0x8F]
                @ '' UPDATE without WHERE clause - this will update all rows'']
          else [])"
    unfolding warnings_for_cases [of query_text]
      destructive_warning_def delete_warning_def update_warning_def warning_sign_def ..
next
  show "run_query db None startTime endTime =
       (\<lparr> status = 400, headers = [],
          body = JsonBody (Fields [(''error'', Val (Str ''Missing SQL query in request body''))]) \<rparr>,
        [])"
    by (simp add: run_query_def json_def)
  show "run_query db (Some []) startTime endTime =
       (\<lparr> status = 400, headers = [],
          body = JsonBody (Fields [(''error'', Val (Str ''Missing SQL query in request body''))]) \<rparr>,
        [])"
    by (simp add: run_query_def json_def)
qed

theorem run_query_advisory_witness:
  "run_query (answering []) (Some ''DROP TABLE users'') 0 5 =
     (\<lparr> status = 500, headers = [],
        body = JsonBody (Fields
          [(''error'', Val (Str ''Query execution failed'')),
           (''details'', Val (Str ''relation does not exist'')),
           (''code'', Val (Str ''42P01'')),
           (''executionTime'', Val (Number (Integer 5))),
           (''warnings'', List
              [Val (Str ([CHR 0xE2, CHR 0x9A, CHR 0xA0, CHR 0xEF, CHR 0xB8, CHR 0x8F]
                         @ '' Destructive operation detected - proceed with caution''))])]) \<rparr>,
      [Connect, Query ''DROP TABLE users'' [], End])
   \<and> run_query deleting_db (Some ''  Delete From users'') 0 5 =
     (\<lparr> status = 200, headers = [],
        body = JsonBody (Fields
          [(''message'', Val (Str ''Query executed successfully'')),
           (''rowCount'', Val (Number (Integer 3))),
           (''rows'', List []),
           (''command'', Val (Str ''DELETE'')),
           (''warnings'', List
              [Val (Str ([CHR 0xE2, CHR 0x9A, CHR 0xA0, CHR 0xEF, CHR 0xB8, CHR 0x8F]
                         @ '' DELETE without WHERE clause - this will delete all rows''))]),
           (''executionTime'', Val (Number (Integer 5)))]) \<rparr>,
      [Connect, Query ''  Delete From users'' [], End])
   \<and> run_query unreachable (Some ''update users set name = 1'') 0 5 =
     (\<lparr> status = 500, headers = [],
        body = JsonBody (Fields
          [(''error'', Val (Str ''Query execution failed'')),
           (''details'', Val (Str ''connect ECONNREFUSED'')),
           (''code'', Val (Str ''ECONNREFUSED'')),
           (''executionTime'', Val (Number (Integer 5))),
           (''warnings'', List
              [Val (Str ([CHR 0xE2, CHR 0x9A, CHR 0xA0, CHR 0xEF, CHR 0xB8, CHR 0x8F]
                         @ '' UPDATE without WHERE clause - this will update all rows''))])]) \<rparr>,
      [Connect, End])
   \<and> warnings_for ''select * from users where id = 1'' = []"
proof -
  note a = run_query_advisory [of "''DROP TABLE users''" "answering []" 0 5,
      THEN conjunct1, rule_format]
  note b = run_query_advisory [of "''  Delete From users''" deleting_db 0 5,
      THEN conjunct1, rule_format]
  note c = run_query_advisory [of "''update users set name = 1''" unreachable 0 5,
      THEN conjunct1, rule_format]
  have w1: "warnings_for ''DROP TABLE users''
      = [[CHR 0xE2, CHR 0x9A, CHR 0xA0, CHR 0xEF, CHR 0xB8, CHR 0x8F]
         @ '' Destructive operation detected - proceed with caution'']" by code_simp
  have w2: "warnings_for ''  Delete From users''
      = [[CHR 0xE2, CHR 0x9A, CHR 0xA0, CHR 0xEF, CHR 0xB8, CHR 0x8F]
         @ '' DELETE without WHERE clause - this will delete all rows'']" by code_simp
  have w3: "warnings_for ''update users set name = 1''
      = [[CHR 0xE2, CHR 0x9A, CHR 0xA0, CHR 0xEF, CHR 0xB8, CHR 0x8F]
         @ '' UPDATE without WHERE clause - this will update all rows'']" by code_simp
  have w4: "warnings_for ''select * from users where id = 1'' = []" by code_simp
  have c1: "run_query (answering []) (Some ''DROP TABLE users'') 0 5 =
     (\<lparr> status = 500, headers = [],
        body = JsonBody (Fields
          [(''error'', Val (Str ''Query execution failed'')),
           (''details'', Val (Str ''relation does not exist'')),
           (''code'', Val (Str ''42P01'')),
           (''executionTime'', Val (Number (Integer 5))),
           (''warnings'', List
              [Val (Str ([CHR 0xE2, CHR 0x9A, CHR 0xA0, CHR 0xEF, CHR 0xB8, CHR 0x8F]
                         @ '' Destructive operation detected - proceed with caution''))])]) \<rparr>,
      [Connect, Query ''DROP TABLE users'' [], End])"
    using a unfolding w1 by (simp add: answering_def no_such_table_def)
  have c2: "run_query deleting_db (Some ''  Delete From users'') 0 5 =
     (\<lparr> status = 200, headers = [],
        body = JsonBody (Fields
          [(''message'', Val (Str ''Query executed successfully'')),
           (''rowCount'', Val (Number (Integer 3))),
           (''rows'', List []),
           (''command'', Val (Str ''DELETE'')),
           (''warnings'', List
              [Val (Str ([CHR 0xE2, CHR 0x9A, CHR 0xA0, CHR 0xEF, CHR 0xB8, CHR 0x8F]
                         @ '' DELETE without WHERE clause - this will delete all rows''))]),
           (''executionTime'', Val (Number (Integer 5)))]) \<rparr>,
      [Connect, Query ''  Delete From users'' [], End])"
    using b unfolding w2 by (simp add: deleting_db_def delete_all_def answering_def)
  have c3: "run_query unreachable (Some ''update users set name = 1'') 0 5 =
     (\<lparr> status = 500, headers = [],
        body = JsonBody (Fields
          [(''error'', Val (Str ''Query execution failed'')),
           (''details'', Val (Str ''connect ECONNREFUSED'')),
           (''code'', Val (Str ''ECONNREFUSED'')),
           (''executionTime'', Val (Number (Integer 5))),
           (''warnings'', List
              [Val (Str ([CHR 0xE2, CHR 0x9A, CHR 0xA0, CHR 0xEF, CHR 0xB8, CHR 0x8F]
                         @ '' UPDATE without WHERE clause - this will update all rows''))])]) \<rparr>,
      [Connect, End])"
    using c unfolding w3 by (simp add: unreachable_def)
  from c1 c2 c3 w4 show ?thesis by simp
qed

section \<open>Arithmetic on doubles\<close>

lemma round_half_even_exact: "0 < b \<Longrightarrow> round_half_even (k * b) b = k"
  by (simp add: round_half_even_def)

lemma round_half_even_near:
  assumes "0 < b"
  shows "2 * \<bar>round_half_even a b * b - a\<bar> \<le> b"
proof -
  define q where "q = a div b"
  define r where "r = a mod b"
  have a: "a = q * b + r" by (simp add: q_def r_def)
  have r: "0 \<le> r" "r < b" using assms by (simp_all add: r_def)
  have m: "round_half_even a b = (if 2 * r < b then q else if b < 2 * r then q + 1
      else if even q then q else q + 1)"
    by (simp add: round_half_even_def q_def r_def Let_def)
  have up: "(q + 1) * b - a = b - r" unfolding a by (simp add: algebra_simps)
  have down: "q * b - a = - r" unfolding a by simp
  show ?thesis unfolding m using r by (simp add: up down)
qed

lemma bitlen_pos: "0 < a \<Longrightarrow> 1 \<le> bitlen a"
  using bitlen_eq_zero_iff [of a] bitlen_nonneg [of a] by linarith

lemma floor_log2_range:
  "floor_log2 a b = bitlen a - bitlen b \<or> floor_log2 a b = bitlen a - bitlen b - 1"
  by (simp add: floor_log2_def Let_def)

lemma floor_log2_lower:
  assumes "0 < a" and "0 < b"
  shows "if 0 \<le> floor_log2 a b then b * 2 ^ nat (floor_log2 a b) \<le> a
         else b \<le> a * 2 ^ nat (- floor_log2 a b)"
proof (cases "floor_log2 a b = bitlen a - bitlen b")
  case True
  then show ?thesis
    by (simp add: floor_log2_def Let_def split: if_splits)
next
  case False
  then have L: "floor_log2 a b = bitlen a - bitlen b - 1"
    using floor_log2_range [of a b] by simp
  define A where "A = nat (bitlen a - 1)"
  define B where "B = nat (bitlen b)"
  have la: "2 ^ A \<le> a" using bitlen_bounds [OF assms(1)] by (simp add: A_def)
  have lb: "b < 2 ^ B" using bitlen_bounds [OF assms(2)] by (simp add: B_def)
  have AB: "floor_log2 a b = int A - int B"
    using bitlen_pos [OF assms(1)] bitlen_pos [OF assms(2)] by (simp add: L A_def B_def)
  show ?thesis
  proof (cases "0 \<le> floor_log2 a b")
    case True
    then have le: "B \<le> A" using AB by simp
    have n: "nat (floor_log2 a b) = A - B" using AB le by simp
    have "b * 2 ^ (A - B) \<le> 2 ^ B * 2 ^ (A - B)"
      using lb by (intro mult_right_mono) simp_all
    also have "\<dots> = 2 ^ A" using le by (simp flip: power_add)
    finally show ?thesis using True la by (simp add: n)
  next
    case False
    then have le: "A \<le> B" using AB by simp
    have n: "nat (- floor_log2 a b) = B - A" using AB le by simp
    have "b \<le> 2 ^ B" using lb by simp
    also have "\<dots> = 2 ^ A * 2 ^ (B - A)" using le by (simp flip: power_add)
    also have "\<dots> \<le> a * 2 ^ (B - A)"
      using la by (intro mult_right_mono) simp_all
    finally show ?thesis using False by (simp add: n)
  qed
qed

text \<open>An integer below \<open>2^53\<close> in magnitude is a double.\<close>

lemma nearest_double_integer:
  assumes "0 < a" and "a < 2 ^ 53"
  shows "floor_of (nearest_double a 1) = a"
proof -
  have b: "1 \<le> bitlen a" "bitlen a \<le> 53"
    using bitlen_pos [OF assms(1)] assms(2) by (simp_all add: bitlen_le_iff_power)
  have "1 * 2 ^ nat (bitlen a - 1) \<le> a" using bitlen_bounds [OF assms(1)] by simp
  then have L: "floor_log2 a 1 = bitlen a - 1"
    using b by (simp add: floor_log2_def Let_def bitlen_alt_def)
  have e: "max (floor_log2 a 1 - 52) (- 1074) = bitlen a - 53" using b by (simp add: L)
  show ?thesis
  proof (cases "bitlen a = 53")
    case True
    then show ?thesis
      using round_half_even_exact [of 1 a]
      by (simp add: nearest_double_def Let_def e floor_of_def)
  next
    case False
    then have neg: "\<not> 0 \<le> bitlen a - 53" using b by simp
    show ?thesis
      using round_half_even_exact [of 1 "a * 2 ^ nat (53 - bitlen a)"] neg
      by (simp add: nearest_double_def Let_def e floor_of_def)
  qed
qed

lemma round_to_double_exact:
  assumes "\<bar>n\<bar> < 2 ^ 53"
  shows "round_to_double n = Integer n"
proof (cases "n = 0")
  case True
  then show ?thesis by (simp add: round_to_double_def)
next
  case False
  then have p: "0 < \<bar>n\<bar>" by simp
  have v: "floor_of (nearest_double \<bar>n\<bar> 1) = \<bar>n\<bar>"
    using nearest_double_integer [OF p assms] .
  have "bitlen \<bar>n\<bar> \<le> 53" using assms by (simp add: bitlen_le_iff_power)
  then have "\<not> 1024 < bitlen \<bar>n\<bar>" by simp
  then show ?thesis
    using False by (simp add: round_to_double_def Let_def v mult_sgn_abs)
qed

lemma minus_one_exact:
  assumes "\<bar>p - 1\<bar> < 2 ^ 53"
  shows "minus_one (Integer p) = Integer (p - 1)"
  using round_to_double_exact [OF assms] by (simp add: minus_one_def)

lemma times_exact:
  assumes "0 \<le> a" and "0 \<le> b" and "a * b < 2 ^ 53"
  shows "times (Integer a) (Integer b) = Integer (a * b)"
proof -
  have "0 \<le> a * b" using assms by simp
  then have "\<bar>a * b\<bar> < 2 ^ 53" using assms(3) by simp
  from round_to_double_exact [OF this] show ?thesis
    using assms(1,2) by (auto simp add: times_def)
qed

text \<open>
  The ceiling of the rounded quotient of two integers below \<open>2^53\<close> is the ceiling of
  their quotient: the quotient is further from the integer below it than half the
  spacing of the doubles around it.
\<close>

lemma ceiling_rounded:
  fixes t l :: int and k :: nat
  assumes "0 < t" and "0 < l" and "l < 2 ^ (k + 1)"
  shows "- ((- round_half_even (t * 2 ^ k) l) div 2 ^ k) = - ((- t) div l)"
proof -
  define m where "m = round_half_even (t * 2 ^ k) l"
  define c where "c = - ((- t) div l)"
  have c: "c = \<lceil>real_of_int t / real_of_int l\<rceil>"
    by (simp add: c_def ceiling_divide_eq_div)
  have rl: "0 < real_of_int l" using assms(2) by simp
  have "real_of_int t / real_of_int l \<le> real_of_int c" unfolding c by (rule le_of_int_ceiling)
  then have "real_of_int t \<le> real_of_int c * real_of_int l"
    using rl by (simp add: pos_divide_le_eq)
  then have up: "t \<le> c * l" by (metis of_int_le_iff of_int_mult)
  have "real_of_int c - 1 < real_of_int t / real_of_int l"
    unfolding c using ceiling_correct [of "real_of_int t / real_of_int l"] by simp
  then have "(real_of_int c - 1) * real_of_int l < real_of_int t"
    using rl by (simp add: pos_less_divide_eq)
  then have "real_of_int ((c - 1) * l) < real_of_int t" by simp
  then have "(c - 1) * l < t" by (simp only: of_int_less_iff)
  then have down: "(c - 1) * l + 1 \<le> t" by simp
  have near: "2 * \<bar>m * l - t * 2 ^ k\<bar> \<le> l"
    unfolding m_def by (rule round_half_even_near [OF assms(2)])
  have p: "(0::int) < 2 ^ k" by simp
  have hi: "m \<le> c * 2 ^ k"
  proof (rule ccontr)
    assume "\<not> m \<le> c * 2 ^ k"
    then have "c * 2 ^ k + 1 \<le> m" by simp
    then have "(c * 2 ^ k + 1) * l \<le> m * l" using assms(2) by (intro mult_right_mono) simp_all
    moreover have "t * 2 ^ k \<le> (c * l) * 2 ^ k" using up p by (intro mult_right_mono) simp_all
    moreover have "(c * 2 ^ k + 1) * l = (c * l) * 2 ^ k + l" by (simp add: algebra_simps)
    ultimately have "l \<le> m * l - t * 2 ^ k" by linarith
    with near assms(2) show False by simp
  qed
  have lo: "(c - 1) * 2 ^ k < m"
  proof (rule ccontr)
    assume "\<not> (c - 1) * 2 ^ k < m"
    then have "m \<le> (c - 1) * 2 ^ k" by simp
    then have a: "m * l \<le> ((c - 1) * 2 ^ k) * l" using assms(2) by (intro mult_right_mono) simp_all
    have b: "((c - 1) * l + 1) * 2 ^ k \<le> t * 2 ^ k" using down p by (intro mult_right_mono) simp_all
    have "((c - 1) * l + 1) * 2 ^ k = ((c - 1) * 2 ^ k) * l + 2 ^ k" by (simp add: algebra_simps)
    with a b have "2 ^ k \<le> t * 2 ^ k - m * l" by linarith
    then have "2 * 2 ^ k \<le> 2 * \<bar>m * l - t * 2 ^ k\<bar>" by simp
    with near assms(3) show False by simp
  qed
  have rp: "0 < (2::real) ^ k" by simp
  have "real_of_int m / 2 ^ k \<le> real_of_int c"
    using hi rp by (simp add: pos_divide_le_eq) (metis of_int_le_iff of_int_mult of_int_numeral of_int_power)
  moreover have "real_of_int c - 1 < real_of_int m / 2 ^ k"
  proof -
    have "real_of_int ((c - 1) * 2 ^ k) < real_of_int m" using lo by (simp only: of_int_less_iff)
    then show ?thesis using rp by (simp add: pos_less_divide_eq)
  qed
  ultimately have "\<lceil>real_of_int m / 2 ^ k\<rceil> = c" by (intro ceiling_unique) simp_all
  moreover have "\<lceil>real_of_int m / 2 ^ k\<rceil> = - ((- m) div 2 ^ k)"
    using ceiling_divide_eq_div [of m "2 ^ k"] by simp
  ultimately show ?thesis by (simp add: m_def c_def)
qed

lemma ceil_of_quotient_exact:
  assumes "0 \<le> t" and "t < 2 ^ 53" and "0 < l" and "l < 2 ^ 53"
  shows "ceil_of_quotient (Integer t) (Integer l) = Integer \<lceil>real_of_int t / real_of_int l\<rceil>"
proof (cases "t = 0")
  case True
  then show ?thesis using assms(3) by (simp add: ceil_of_quotient_def)
next
  case False
  then have t: "0 < t" using assms(1) by simp
  define L where "L = floor_log2 t l"
  have bt: "1 \<le> bitlen t" "bitlen t \<le> 53"
    using bitlen_pos [OF t] assms(2) by (simp_all add: bitlen_le_iff_power)
  have bl: "1 \<le> bitlen l" "bitlen l \<le> 53"
    using bitlen_pos [OF assms(3)] assms(4) by (simp_all add: bitlen_le_iff_power)
  have range: "- 53 \<le> L" "L \<le> 52"
    using floor_log2_range [of t l] bt bl by (auto simp add: L_def)
  define k where "k = nat (52 - L)"
  have k: "int k = 52 - L" using range by (simp add: k_def)
  have e: "max (L - 52) (- 1074) = - int k" using range k by simp
  have small: "l < 2 ^ (k + 1)"
  proof (cases "0 \<le> L")
    case True
    have s: "nat L + (k + 1) = 53" using True k by simp
    have "l * 2 ^ nat L \<le> t" using floor_log2_lower [OF t assms(3)] True by (simp add: L_def)
    also have "t < 2 ^ (nat L + (k + 1))" using assms(2) unfolding s .
    also have "(2::int) ^ (nat L + (k + 1)) = 2 ^ (k + 1) * 2 ^ nat L"
      by (simp add: power_add)
    finally show ?thesis by simp
  next
    case False
    have s: "53 + nat (- L) = k + 1" using False k by simp
    have "l \<le> t * 2 ^ nat (- L)" using floor_log2_lower [OF t assms(3)] False by (simp add: L_def)
    also have "\<dots> < 2 ^ 53 * 2 ^ nat (- L)" using assms(2) by (intro mult_strict_right_mono) simp_all
    also have "\<dots> = 2 ^ (53 + nat (- L))" by (simp only: power_add)
    also have "\<dots> = 2 ^ (k + 1)" unfolding s ..
    finally show ?thesis .
  qed
  have v: "ceiling_of (nearest_double t l) = - ((- round_half_even (t * 2 ^ k) l) div 2 ^ k)"
  proof (cases "k = 0")
    case True
    then show ?thesis
      using e by (simp add: nearest_double_def Let_def ceiling_of_def flip: L_def)
  next
    case False
    then have "\<not> 0 \<le> - int k" by simp
    then show ?thesis
      using e by (simp add: nearest_double_def Let_def ceiling_of_def flip: L_def)
  qed
  have "ceil_of_quotient (Integer t) (Integer l) = Integer (ceiling_of (nearest_double t l))"
    using t assms(3) by (simp add: ceil_of_quotient_def Let_def)
  also have "\<dots> = Integer (- ((- t) div l))"
    unfolding v ceiling_rounded [OF t assms(3) small] ..
  also have "\<dots> = Integer \<lceil>real_of_int t / real_of_int l\<rceil>"
    by (simp add: ceiling_divide_eq_div)
  finally show ?thesis .
qed

section \<open>Reading and writing integers\<close>

lemma code_of_digit_char: "d < 10 \<Longrightarrow> code_of (digit_char d) = 48 + d"
  by (simp add: code_of_def digit_char_def)

lemma digit_char_props:
  assumes "d < 10"
  shows "digit_value (digit_char d) = Some d" and "is_digit 10 (digit_char d)"
    and "digit_char d \<noteq> CHR ''-''" and "digit_char d \<noteq> CHR ''+''"
    and "digit_char d \<noteq> CHR ''x''" and "digit_char d \<noteq> CHR ''X''"
    and "find (\<lambda>w. w \<noteq> [] \<and> startsWith (digit_char d # cs) w) white_space = None"
proof -
  note c = code_of_digit_char [OF assms]
  show "digit_value (digit_char d) = Some d"
    using assms by (simp add: digit_value_def c)
  then show "is_digit 10 (digit_char d)" using assms by (simp add: is_digit_def)
  have "code_of (digit_char d) \<noteq> code_of c'" if "code_of c' < 48 \<or> code_of c' > 57" for c'
    using that assms c by auto
  then have n: "digit_char d \<noteq> c'" if "code_of c' < 48 \<or> code_of c' > 57" for c'
    using that by auto
  show "digit_char d \<noteq> CHR ''-''" by (rule n) (simp add: code_of_def)
  show "digit_char d \<noteq> CHR ''+''" by (rule n) (simp add: code_of_def)
  show "digit_char d \<noteq> CHR ''x''" by (rule n) (simp add: code_of_def)
  show "digit_char d \<noteq> CHR ''X''" by (rule n) (simp add: code_of_def)
  have lead: "digit_char d \<noteq> CHR 0x09" "digit_char d \<noteq> CHR 0x0A" "digit_char d \<noteq> CHR 0x0B"
    "digit_char d \<noteq> CHR 0x0C" "digit_char d \<noteq> CHR 0x0D" "digit_char d \<noteq> CHR 0x20"
    "digit_char d \<noteq> CHR 0xC2" "digit_char d \<noteq> CHR 0xE1" "digit_char d \<noteq> CHR 0xE2"
    "digit_char d \<noteq> CHR 0xE3" "digit_char d \<noteq> CHR 0xEF"
    by (rule n, simp add: code_of_def)+
  show "find (\<lambda>w. w \<noteq> [] \<and> startsWith (digit_char d # cs) w) white_space = None"
    by (simp add: white_space_def lead)
qed

lemma decimal_digits:
  "decimal n \<noteq> [] \<and> (\<forall>c \<in> set (decimal n). \<exists>d < 10. c = digit_char d)
   \<and> digits_value 10 (decimal n) = int n"
proof (induction n rule: decimal.induct)
  case (1 n)
  show ?case
  proof (cases "n < 10")
    case True
    then show ?thesis
      by (subst (1 2 3) decimal.simps) (auto simp add: digits_value_def digit_char_props)
  next
    case False
    have m: "n mod 10 < 10" by simp
    have e: "\<exists>d<10. digit_char (n mod 10) = digit_char d" using m by blast
    have i: "int (n div 10) * 10 + int (n mod 10) = int n"
      by (simp add: zdiv_int zmod_int)
    from 1 [OF False] False m e i show ?thesis
      by (subst (1 2 3) decimal.simps) (simp add: digits_value_def digit_char_props)
  qed
qed

lemma decimal_chars:
  assumes "c \<in> set (decimal n)"
  shows "\<exists>d < 10. c = digit_char d"
  using decimal_digits [of n] assms by blast

text \<open>A decimal numeral below \<open>2^53\<close> is parsed to the integer it writes.\<close>

lemma parseInt_decimal:
  assumes "int n < 2 ^ 53"
  shows "parseInt_string (decimal n) = Integer (int n)"
proof -
  define s where "s = decimal n"
  have ne: "s \<noteq> []" and v: "digits_value 10 s = int n"
    using decimal_digits [of n] by (simp_all add: s_def)
  have all: "\<exists>d < 10. c = digit_char d" if "c \<in> set s" for c
    using that decimal_chars unfolding s_def by blast
  obtain c cs where cs: "s = c # cs" using ne by (cases s) auto
  obtain d where d: "d < 10" "c = digit_char d" using all [of c] cs by auto
  have w: "strip white_space s = s"
    unfolding cs d(2) by (subst strip.simps) (simp add: digit_char_props(7) [OF d(1)])
  have sg: "hd s \<noteq> CHR ''-''" "hd s \<noteq> CHR ''+''"
    using digit_char_props [OF d(1)] by (simp_all add: cs d(2))
  have h: "take 2 s \<noteq> ''0x''" "take 2 s \<noteq> ''0X''"
  proof -
    have "cs \<noteq> [] \<Longrightarrow> hd cs \<noteq> CHR ''x'' \<and> hd cs \<noteq> CHR ''X''"
    proof -
      assume "cs \<noteq> []"
      then have "hd cs \<in> set s" by (simp add: cs)
      from all [OF this] obtain d' where "d' < 10" "hd cs = digit_char d'" by auto
      then show ?thesis using digit_char_props by simp
    qed
    then show "take 2 s \<noteq> ''0x''" "take 2 s \<noteq> ''0X''"
      unfolding cs by (cases cs; auto)+
  qed
  have "is_digit 10 c'" if "c' \<in> set s" for c'
    using all [OF that] digit_char_props(2) by auto
  then have t: "takeWhile (is_digit 10) s = s"
    by (simp add: takeWhile_eq_all_conv)
  have r: "int n \<noteq> 0 \<Longrightarrow> round_to_double (int n) = Integer (int n)"
    using assms by (intro round_to_double_exact) simp
  show ?thesis
    unfolding s_def [symmetric] parseInt_string_def Let_def w
    using r by (simp add: sg h t ne v)
qed

lemma parseInt_int_to_string:
  assumes "0 \<le> i" and "i < 2 ^ 53"
  shows "parseInt_string (int_to_string i) = Integer i"
  using parseInt_decimal [of "nat i"] assms by (simp add: int_to_string_def)

section \<open>Listing rows\<close>

lemma handle_status: "status (handleDatabaseError node_env e) = 500"
  by (simp add: handleDatabaseError_def json_def Let_def)

lemma search_step_params:
  "search_step db tableName given evs = (Inr (w, ps, n), evs') \<Longrightarrow> n = length ps"
  by (auto simp add: search_step_def return_def and_then_def query_def throw_def Let_def
      split: option.splits if_splits sum.splits)

lemma both_queries:
  "both (query db t1 p1) (query db t2 p2) evs =
     (case run db t1 p1 of
        Inl e \<Rightarrow> Inl e
      | Inr a \<Rightarrow> (case run db t2 p2 of Inl e \<Rightarrow> Inl e | Inr b \<Rightarrow> Inr (a, b)),
      evs @ [Query t1 p1, Query t2 p2])"
  by (simp add: both_def query_def)

lemma parseInt_defaults:
  "parseInt (or_default given (Number (Integer 1)))
     = (case given of None \<Rightarrow> Integer 1 | Some s \<Rightarrow> parseInt_string s)"
  "parseInt (or_default given (Number (Integer 100)))
     = (case given of None \<Rightarrow> Integer 100 | Some s \<Rightarrow> parseInt_string s)"
proof -
  have "parseInt_string (int_to_string 1) = Integer 1"
    "parseInt_string (int_to_string 100) = Integer 100"
    by (rule parseInt_int_to_string; simp)+
  then show "parseInt (or_default given (Number (Integer 1)))
     = (case given of None \<Rightarrow> Integer 1 | Some s \<Rightarrow> parseInt_string s)"
    "parseInt (or_default given (Number (Integer 100)))
     = (case given of None \<Rightarrow> Integer 100 | Some s \<Rightarrow> parseInt_string s)"
    by (simp_all add: parseInt_def or_default_def split: option.splits)
qed

text \<open>
  What the handler does once the search step has returned: the two statements it sends
  and the response, whatever the database answers.
\<close>

lemma list_data_after_search:
  assumes "table_name_ok tableName" and "connect db = None"
    and "search_step db tableName (search q) [Connect] = (Inr (w, ps, n), evs1)"
    and "p = (case page q of None \<Rightarrow> Integer 1 | Some s \<Rightarrow> parseInt_string s)"
    and "l = (case limit q of None \<Rightarrow> Integer 100 | Some s \<Rightarrow> parseInt_string s)"
  shows "list_data node_env db tableName q =
    (case run db (''SELECT * FROM '' @ [CHR 0x22] @ tableName @ [CHR 0x22] @ w
                  @ order_clause (sortBy q) (sortOrder q)
                  @ '' LIMIT $'' @ decimal (n + 1) @ '' OFFSET $'' @ decimal (n + 2))
               (ps @ [Number l, Number (times (minus_one p) l)]) of
       Inl e \<Rightarrow> handleDatabaseError node_env e
     | Inr dataResult \<Rightarrow>
        (case run db (''SELECT COUNT(*) FROM '' @ [CHR 0x22] @ tableName @ [CHR 0x22] @ w) ps of
           Inl e \<Rightarrow> handleDatabaseError node_env e
         | Inr countResult \<Rightarrow>
            (case rows countResult of
               [] \<Rightarrow> handleDatabaseError node_env (type_error ''Cannot read properties of undefined'')
             | first # _ \<Rightarrow>
                 \<lparr> status = 200, headers = [],
                   body = JsonBody (Fields
                     [(''tableName'', Val (Str tableName)),
                      (''data'', List (map (\<lambda>r. Fields (map (\<lambda>(k, v). (k, Val v)) r))
                                        (rows dataResult))),
                      (''pagination'', Fields
                        [(''currentPage'', Val (Number p)),
                         (''limit'', Val (Number l)),
                         (''totalRows'',
                            Val (Number (parseInt (case map_of first ''count'' of
                                                     None \<Rightarrow> Undefined | Some v \<Rightarrow> v)))),
                         (''totalPages'',
                            Val (Number (ceil_of_quotient
                                   (parseInt (case map_of first ''count'' of
                                                None \<Rightarrow> Undefined | Some v \<Rightarrow> v)) l)))])]) \<rparr>)),
     evs1 @ [Query (''SELECT * FROM '' @ [CHR 0x22] @ tableName @ [CHR 0x22] @ w
                    @ order_clause (sortBy q) (sortOrder q)
                    @ '' LIMIT $'' @ decimal (n + 1) @ '' OFFSET $'' @ decimal (n + 2))
                   (ps @ [Number l, Number (times (minus_one p) l)]),
             Query (''SELECT COUNT(*) FROM '' @ [CHR 0x22] @ tableName @ [CHR 0x22] @ w) ps,
             End])"
  using assms(1,2,3) unfolding assms(4,5)
  by (simp add: list_data_def with_client_def and_then_def both_queries return_def throw_def
      Let_def parseInt_defaults json_def rows_payload_def row_payload_def get_def quoted_def
      split: sum.splits list.splits)

lemma list_general:
  assumes "p = (case page q of None \<Rightarrow> Integer 1 | Some s \<Rightarrow> parseInt_string s)"
    and "l = (case limit q of None \<Rightarrow> Integer 100 | Some s \<Rightarrow> parseInt_string s)"
    and "table_name_ok tableName" and "connect db = None"
    and "search_step db tableName (search q) [Connect] = (Inr (w, ps, n), evs1)"
    and "run db (''SELECT * FROM '' @ [CHR 0x22] @ tableName @ [CHR 0x22] @ w
                 @ order_clause (sortBy q) (sortOrder q)
                 @ '' LIMIT $'' @ decimal (n + 1) @ '' OFFSET $'' @ decimal (n + 2))
              (ps @ [Number l, Number (times (minus_one p) l)]) = Inr dataResult"
    and "run db (''SELECT COUNT(*) FROM '' @ [CHR 0x22] @ tableName @ [CHR 0x22] @ w) ps
           = Inr countResult"
    and "rows countResult = first # others"
  shows "list_data node_env db tableName q =
     (\<lparr> status = 200, headers = [],
        body = JsonBody (Fields
          [(''tableName'', Val (Str tableName)),
           (''data'', List (map (\<lambda>r. Fields (map (\<lambda>(k, v). (k, Val v)) r)) (rows dataResult))),
           (''pagination'', Fields
             [(''currentPage'', Val (Number p)),
              (''limit'', Val (Number l)),
              (''totalRows'',
                 Val (Number (parseInt (case map_of first ''count'' of
                                          None \<Rightarrow> Undefined | Some v \<Rightarrow> v)))),
              (''totalPages'',
                 Val (Number (ceil_of_quotient
                        (parseInt (case map_of first ''count'' of
                                     None \<Rightarrow> Undefined | Some v \<Rightarrow> v)) l)))])]) \<rparr>,
      evs1 @ [Query (''SELECT * FROM '' @ [CHR 0x22] @ tableName @ [CHR 0x22] @ w
                     @ order_clause (sortBy q) (sortOrder q)
                     @ '' LIMIT $'' @ decimal (n + 1) @ '' OFFSET $'' @ decimal (n + 2))
                    (ps @ [Number l, Number (times (minus_one p) l)]),
              Query (''SELECT COUNT(*) FROM '' @ [CHR 0x22] @ tableName @ [CHR 0x22] @ w) ps,
              End])"
  unfolding list_data_after_search [OF assms(3,4,5,1,2), of node_env] assms(6,7)
  by (simp add: assms(8))

lemma list_ok:
  assumes "status (fst (list_data node_env db tableName q)) = 200"
    and "p = (case page q of None \<Rightarrow> Integer 1 | Some s \<Rightarrow> parseInt_string s)"
    and "l = (case limit q of None \<Rightarrow> Integer 100 | Some s \<Rightarrow> parseInt_string s)"
  shows "\<exists>w ps evs1 (dataResult :: query_result) first.
     list_data node_env db tableName q =
     (\<lparr> status = 200, headers = [],
        body = JsonBody (Fields
          [(''tableName'', Val (Str tableName)),
           (''data'', List (map (\<lambda>r. Fields (map (\<lambda>(k, v). (k, Val v)) r)) (rows dataResult))),
           (''pagination'', Fields
             [(''currentPage'', Val (Number p)),
              (''limit'', Val (Number l)),
              (''totalRows'',
                 Val (Number (parseInt (case map_of first ''count'' of
                                          None \<Rightarrow> Undefined | Some v \<Rightarrow> v)))),
              (''totalPages'',
                 Val (Number (ceil_of_quotient
                        (parseInt (case map_of first ''count'' of
                                     None \<Rightarrow> Undefined | Some v \<Rightarrow> v)) l)))])]) \<rparr>,
      evs1 @ [Query (''SELECT * FROM '' @ [CHR 0x22] @ tableName @ [CHR 0x22] @ w
                     @ order_clause (sortBy q) (sortOrder q)
                     @ '' LIMIT $'' @ decimal (length ps + 1)
                     @ '' OFFSET $'' @ decimal (length ps + 2))
                    (ps @ [Number l, Number (times (minus_one p) l)]),
              Query (''SELECT COUNT(*) FROM '' @ [CHR 0x22] @ tableName @ [CHR 0x22] @ w) ps,
              End])"
proof -
  have ok: "table_name_ok tableName"
    using assms(1) by (auto simp add: list_data_def invalid_table_name_def json_def split: if_splits)
  have con: "connect db = None"
    using assms(1) ok
    by (auto simp add: list_data_def with_client_def handle_status split: option.splits)
  obtain r1 evs1 where s: "search_step db tableName (search q) [Connect] = (r1, evs1)"
    by (cases "search_step db tableName (search q) [Connect]")
  show ?thesis
  proof (cases r1)
    case (Inl e)
    with assms(1) ok con s show ?thesis
      by (auto simp add: list_data_def with_client_def and_then_def handle_status)
  next
    case (Inr t)
    obtain w ps n where t: "t = (w, ps, n)" by (cases t)
    have n: "n = length ps" using s Inr t search_step_params by blast
    note r = list_data_after_search [OF ok con s [unfolded Inr t n] assms(2,3), of node_env]
    from assms(1) [unfolded r] show ?thesis
      unfolding r
      by (auto simp add: handle_status split: sum.splits list.splits)
  qed
qed

lemma no_search:
  "given = None \<or> given = Some [] \<Longrightarrow>
   search_step db tableName given evs = (Inr ([], [], 0), evs)"
  by (auto simp add: search_step_def return_def)

lemma decimal_small:
  "decimal (Suc 0) = ''1''" "decimal (Suc (Suc 0)) = ''2''" "decimal 1 = ''1''" "decimal 2 = ''2''"
  by code_simp+

lemma list_exact:
  assumes "page q = None \<and> P = 1 \<or> page q = Some (int_to_string P)"
    and "limit q = None \<and> L = 100 \<or> limit q = Some (int_to_string L)"
    and "1 \<le> P" and "P < 2 ^ 53" and "1 \<le> L" and "L < 2 ^ 53" and "(P - 1) * L < 2 ^ 53"
    and "0 \<le> T" and "T < 2 ^ 53"
    and "search q = None \<or> search q = Some []"
    and "table_name_ok tableName" and "connect db = None"
    and "run db (''SELECT * FROM '' @ [CHR 0x22] @ tableName @ [CHR 0x22]
                 @ order_clause (sortBy q) (sortOrder q) @ '' LIMIT $1 OFFSET $2'')
              [Number (Integer L), Number (Integer ((P - 1) * L))] = Inr dataResult"
    and "run db (''SELECT COUNT(*) FROM '' @ [CHR 0x22] @ tableName @ [CHR 0x22]) []
           = Inr countResult"
    and "rows countResult = first # others"
    and "map_of first ''count'' = Some (Str (int_to_string T))"
  shows "list_data node_env db tableName q =
     (\<lparr> status = 200, headers = [],
        body = JsonBody (Fields
          [(''tableName'', Val (Str tableName)),
           (''data'', List (map (\<lambda>r. Fields (map (\<lambda>(k, v). (k, Val v)) r)) (rows dataResult))),
           (''pagination'', Fields
             [(''currentPage'', Val (Number (Integer P))),
              (''limit'', Val (Number (Integer L))),
              (''totalRows'', Val (Number (Integer T))),
              (''totalPages'', Val (Number (Integer \<lceil>real_of_int T / real_of_int L\<rceil>)))])]) \<rparr>,
      [Connect,
       Query (''SELECT * FROM '' @ [CHR 0x22] @ tableName @ [CHR 0x22]
              @ order_clause (sortBy q) (sortOrder q) @ '' LIMIT $1 OFFSET $2'')
             [Number (Integer L), Number (Integer ((P - 1) * L))],
       Query (''SELECT COUNT(*) FROM '' @ [CHR 0x22] @ tableName @ [CHR 0x22]) [],
       End])"
proof -
  have one: "parseInt_string (int_to_string 1) = Integer 1"
    and hundred: "parseInt_string (int_to_string 100) = Integer 100"
    by (rule parseInt_int_to_string; simp)+
  have p: "(case page q of None \<Rightarrow> Integer 1 | Some s \<Rightarrow> parseInt_string s) = Integer P"
    using assms(1,3,4) by (auto simp add: parseInt_int_to_string)
  have l: "(case limit q of None \<Rightarrow> Integer 100 | Some s \<Rightarrow> parseInt_string s) = Integer L"
    using assms(2,5,6) by (auto simp add: parseInt_int_to_string)
  have t: "parseInt (case map_of first ''count'' of None \<Rightarrow> Undefined | Some v \<Rightarrow> v) = Integer T"
    using assms(8,9,16) by (simp add: parseInt_def parseInt_int_to_string)
  have m: "minus_one (Integer P) = Integer (P - 1)"
    using assms(3,4) by (intro minus_one_exact) simp
  have off: "times (minus_one (Integer P)) (Integer L) = Integer ((P - 1) * L)"
    unfolding m using assms(3,5,7) by (intro times_exact) simp_all
  have c: "ceil_of_quotient (Integer T) (Integer L) = Integer \<lceil>real_of_int T / real_of_int L\<rceil>"
    using assms(5,6,8,9) by (intro ceil_of_quotient_exact) simp_all
  have s: "search_step db tableName (search q) [Connect] = (Inr ([], [], 0), [Connect])"
    using assms(10) by (rule no_search)
  have d: "run db (''SELECT * FROM '' @ [CHR 0x22] @ tableName @ [CHR 0x22] @ []
                 @ order_clause (sortBy q) (sortOrder q)
                 @ '' LIMIT $'' @ decimal (0 + 1) @ '' OFFSET $'' @ decimal (0 + 2))
              ([] @ [Number (Integer L), Number (times (minus_one (Integer P)) (Integer L))])
            = Inr dataResult"
    using assms(13) by (simp add: off decimal_small)
  have n: "run db (''SELECT COUNT(*) FROM '' @ [CHR 0x22] @ tableName @ [CHR 0x22] @ []) []
           = Inr countResult"
    using assms(14) by simp
  from list_general [OF p [symmetric] l [symmetric] assms(11,12) s d n assms(15), of node_env]
  show ?thesis
    by (simp add: off t c decimal_small)
qed

text \<open>
  C6. The page and the limit of a list request are read with \<open>parseInt\<close>; one that is
  not given is 1 and 100. (1) Whatever the search step added, when both statements are
  answered the handler has sent the selection with the limit and
  \<open>(page - 1) * limit\<close> as its last two parameters, then the count, and the response
  reports the page, the limit, the count read with \<open>parseInt\<close> and
  \<open>Math.ceil(count / limit)\<close>, all in the arithmetic of doubles. (2) Every response
  with status 200 is of this form. (3) For a request with no search term whose page and
  limit are decimal numerals of at least 1, with a count of at least 0, and with page,
  limit, count and \<open>(page - 1) * limit\<close> below \<open>2^53\<close>, the offset is exactly
  \<open>(page - 1) * limit\<close> and \<open>totalPages\<close> is exactly the ceiling of
  \<open>count / limit\<close>. With \<open>limit=10\<close> and \<open>page=3\<close> the offset is 20.
\<close>

theorem list_pagination:
  "(\<forall>p l w ps n evs1 dataResult countResult first others.
       p = (case page q of None \<Rightarrow> Integer 1 | Some s \<Rightarrow> parseInt_string s)
     \<and> l = (case limit q of None \<Rightarrow> Integer 100 | Some s \<Rightarrow> parseInt_string s)
     \<and> table_name_ok tableName \<and> connect db = None
     \<and> search_step db tableName (search q) [Connect] = (Inr (w, ps, n), evs1)
     \<and> run db (''SELECT * FROM '' @ [CHR 0x22] @ tableName @ [CHR 0x22] @ w
                 @ order_clause (sortBy q) (sortOrder q)
                 @ '' LIMIT $'' @ decimal (n + 1) @ '' OFFSET $'' @ decimal (n + 2))
              (ps @ [Number l, Number (times (minus_one p) l)]) = Inr dataResult
     \<and> run db (''SELECT COUNT(*) FROM '' @ [CHR 0x22] @ tableName @ [CHR 0x22] @ w) ps
           = Inr countResult
     \<and> rows countResult = first # others
     \<longrightarrow>
     list_data node_env db tableName q =
       (\<lparr> status = 200, headers = [],
          body = JsonBody (Fields
            [(''tableName'', Val (Str tableName)),
             (''data'', List (map (\<lambda>r. Fields (map (\<lambda>(k, v). (k, Val v)) r)) (rows dataResult))),
             (''pagination'', Fields
               [(''currentPage'', Val (Number p)),
                (''limit'', Val (Number l)),
                (''totalRows'',
                   Val (Number (parseInt (case map_of first ''count'' of
                                            None \<Rightarrow> Undefined | Some v \<Rightarrow> v)))),
                (''totalPages'',
                   Val (Number (ceil_of_quotient
                          (parseInt (case map_of first ''count'' of
                                       None \<Rightarrow> Undefined | Some v \<Rightarrow> v)) l)))])]) \<rparr>,
        evs1 @ [Query (''SELECT * FROM '' @ [CHR 0x22] @ tableName @ [CHR 0x22] @ w
                       @ order_clause (sortBy q) (sortOrder q)
                       @ '' LIMIT $'' @ decimal (n + 1) @ '' OFFSET $'' @ decimal (n + 2))
                      (ps @ [Number l, Number (times (minus_one p) l)]),
                Query (''SELECT COUNT(*) FROM '' @ [CHR 0x22] @ tableName @ [CHR 0x22] @ w) ps,
                End]))
   \<and> (\<forall>p l.
       status (fst (list_data node_env db tableName q)) = 200
     \<and> p = (case page q of None \<Rightarrow> Integer 1 | Some s \<Rightarrow> parseInt_string s)
     \<and> l = (case limit q of None \<Rightarrow> Integer 100 | Some s \<Rightarrow> parseInt_string s)
     \<longrightarrow>
     (\<exists>w ps evs1 (dataResult :: query_result) first.
       list_data node_env db tableName q =
       (\<lparr> status = 200, headers = [],
          body = JsonBody (Fields
            [(''tableName'', Val (Str tableName)),
             (''data'', List (map (\<lambda>r. Fields (map (\<lambda>(k, v). (k, Val v)) r)) (rows dataResult))),
             (''pagination'', Fields
               [(''currentPage'', Val (Number p)),
                (''limit'', Val (Number l)),
                (''totalRows'',
                   Val (Number (parseInt (case map_of first ''count'' of
                                            None \<Rightarrow> Undefined | Some v \<Rightarrow> v)))),
                (''totalPages'',
                   Val (Number (ceil_of_quotient
                          (parseInt (case map_of first ''count'' of
                                       None \<Rightarrow> Undefined | Some v \<Rightarrow> v)) l)))])]) \<rparr>,
        evs1 @ [Query (''SELECT * FROM '' @ [CHR 0x22] @ tableName @ [CHR 0x22] @ w
                       @ order_clause (sortBy q) (sortOrder q)
                       @ '' LIMIT $'' @ decimal (length ps + 1)
                       @ '' OFFSET $'' @ decimal (length ps + 2))
                      (ps @ [Number l, Number (times (minus_one p) l)]),
                Query (''SELECT COUNT(*) FROM '' @ [CHR 0x22] @ tableName @ [CHR 0x22] @ w) ps,
                End])))
   \<and> (\<forall>P L T dataResult countResult first others.
       (page q = None \<and> P = 1 \<or> page q = Some (int_to_string P))
     \<and> (limit q = None \<and> L = 100 \<or> limit q = Some (int_to_string L))
     \<and> 1 \<le> P \<and> P < 2 ^ 53 \<and> 1 \<le> L \<and> L < 2 ^ 53 \<and> (P - 1) * L < 2 ^ 53
     \<and> 0 \<le> T \<and> T < 2 ^ 53
     \<and> (search q = None \<or> search q = Some [])
     \<and> table_name_ok tableName \<and> connect db = None
     \<and> run db (''SELECT * FROM '' @ [CHR 0x22] @ tableName @ [CHR 0x22]
                 @ order_clause (sortBy q) (sortOrder q) @ '' LIMIT $1 OFFSET $2'')
              [Number (Integer L), Number (Integer ((P - 1) * L))] = Inr dataResult
     \<and> run db (''SELECT COUNT(*) FROM '' @ [CHR 0x22] @ tableName @ [CHR 0x22]) []
           = Inr countResult
     \<and> rows countResult = first # others
     \<and> map_of first ''count'' = Some (Str (int_to_string T))
     \<longrightarrow>
     list_data node_env db tableName q =
       (\<lparr> status = 200, headers = [],
          body = JsonBody (Fields
            [(''tableName'', Val (Str tableName)),
             (''data'', List (map (\<lambda>r. Fields (map (\<lambda>(k, v). (k, Val v)) r)) (rows dataResult))),
             (''pagination'', Fields
               [(''currentPage'', Val (Number (Integer P))),
                (''limit'', Val (Number (Integer L))),
                (''totalRows'', Val (Number (Integer T))),
                (''totalPages'',
                   Val (Number (Integer \<lceil>real_of_int T / real_of_int L\<rceil>)))])]) \<rparr>,
        [Connect,
         Query (''SELECT * FROM '' @ [CHR 0x22] @ tableName @ [CHR 0x22]
                @ order_clause (sortBy q) (sortOrder q) @ '' LIMIT $1 OFFSET $2'')
               [Number (Integer L), Number (Integer ((P - 1) * L))],
         Query (''SELECT COUNT(*) FROM '' @ [CHR 0x22] @ tableName @ [CHR 0x22]) [],
         End]))"
proof (intro conjI allI impI, goal_cases)
  case (1 p l w ps n evs1 dataResult countResult first others)
  then show ?case by (elim conjE) (rule list_general)
next
  case (2 p l)
  then show ?case by (elim conjE) (rule list_ok)
next
  case (3 P L T dataResult countResult first others)
  then show ?case by (elim conjE) (rule list_exact)
qed

lemma paged_db_answers:
  "connect paged_db = None"
  "run paged_db (''SELECT * FROM '' @ [CHR 0x22] @ ''users'' @ [CHR 0x22] @ '' LIMIT $1 OFFSET $2'')
     params = Inr (selected [[(''id'', Number (Integer 21))]])"
  "run paged_db (''SELECT COUNT(*) FROM '' @ [CHR 0x22] @ ''users'' @ [CHR 0x22]) params
     = Inr (selected [[(''count'', Str ''25'')]])"
  by (simp_all add: paged_db_def answering_def third_page_sql_def count_sql_def quoted_def)

theorem list_pagination_witness:
  "list_data None paged_db ''users'' third_page =
     (\<lparr> status = 200, headers = [],
        body = JsonBody (Fields
          [(''tableName'', Val (Str ''users'')),
           (''data'', List [Fields [(''id'', Val (Number (Integer 21)))]]),
           (''pagination'', Fields
             [(''currentPage'', Val (Number (Integer 3))),
              (''limit'', Val (Number (Integer 10))),
              (''totalRows'', Val (Number (Integer 25))),
              (''totalPages'', Val (Number (Integer 3)))])]) \<rparr>,
      [Connect,
       Query (''SELECT * FROM '' @ [CHR 0x22] @ ''users'' @ [CHR 0x22] @ '' LIMIT $1 OFFSET $2'')
             [Number (Integer 10), Number (Integer 20)],
       Query (''SELECT COUNT(*) FROM '' @ [CHR 0x22] @ ''users'' @ [CHR 0x22]) [],
       End])
   \<and> list_data None paged_db ''users'' plain_query =
     (\<lparr> status = 200, headers = [],
        body = JsonBody (Fields
          [(''tableName'', Val (Str ''users'')),
           (''data'', List [Fields [(''id'', Val (Number (Integer 21)))]]),
           (''pagination'', Fields
             [(''currentPage'', Val (Number (Integer 1))),
              (''limit'', Val (Number (Integer 100))),
              (''totalRows'', Val (Number (Integer 25))),
              (''totalPages'', Val (Number (Integer 1)))])]) \<rparr>,
      [Connect,
       Query (''SELECT * FROM '' @ [CHR 0x22] @ ''users'' @ [CHR 0x22] @ '' LIMIT $1 OFFSET $2'')
             [Number (Integer 100), Number (Integer 0)],
       Query (''SELECT COUNT(*) FROM '' @ [CHR 0x22] @ ''users'' @ [CHR 0x22]) [],
       End])
   \<and> (\<exists>w ps evs1 (dataResult :: query_result).
        snd (list_data None paged_db ''users'' third_page) =
          evs1 @ [Query (''SELECT * FROM '' @ [CHR 0x22] @ ''users'' @ [CHR 0x22] @ w
                         @ '' LIMIT $'' @ decimal (length ps + 1)
                         @ '' OFFSET $'' @ decimal (length ps + 2))
                        (ps @ [Number (Integer 10), Number (Integer 20)]),
                  Query (''SELECT COUNT(*) FROM '' @ [CHR 0x22] @ ''users'' @ [CHR 0x22] @ w) ps,
                  End])"
proof -
  note exact = list_pagination [of third_page "''users''" paged_db None,
      THEN conjunct2, THEN conjunct2, rule_format,
      of 3 10 25 "selected [[(''id'', Number (Integer 21))]]"
         "selected [[(''count'', Str ''25'')]]" "[(''count'', Str ''25'')]" "[]"]
  note general = list_pagination [of plain_query "''users''" paged_db None,
      THEN conjunct1, rule_format,
      of "Integer 1" "Integer 100" "[]" "[]" 0 "[Connect]"
         "selected [[(''id'', Number (Integer 21))]]"
         "selected [[(''count'', Str ''25'')]]" "[(''count'', Str ''25'')]" "[]"]
  note ok = list_pagination [of third_page "''users''" paged_db None,
      THEN conjunct2, THEN conjunct1, rule_format, of "Integer 3" "Integer 10"]
  have name: "table_name_ok ''users''" by code_simp
  have three: "int_to_string 3 = ''3''" and ten: "int_to_string 10 = ''10''"
    and count: "int_to_string 25 = ''25''"
    by code_simp+
  have parsed: "parseInt_string ''3'' = Integer 3" "parseInt_string ''10'' = Integer 10"
    by code_simp+
  have c1: "list_data None paged_db ''users'' third_page =
     (\<lparr> status = 200, headers = [],
        body = JsonBody (Fields
          [(''tableName'', Val (Str ''users'')),
           (''data'', List [Fields [(''id'', Val (Number (Integer 21)))]]),
           (''pagination'', Fields
             [(''currentPage'', Val (Number (Integer 3))),
              (''limit'', Val (Number (Integer 10))),
              (''totalRows'', Val (Number (Integer 25))),
              (''totalPages'', Val (Number (Integer 3)))])]) \<rparr>,
      [Connect,
       Query (''SELECT * FROM '' @ [CHR 0x22] @ ''users'' @ [CHR 0x22] @ '' LIMIT $1 OFFSET $2'')
             [Number (Integer 10), Number (Integer 20)],
       Query (''SELECT COUNT(*) FROM '' @ [CHR 0x22] @ ''users'' @ [CHR 0x22]) [],
       End])"
  proof -
    have h: "(page third_page = None \<and> (3::int) = 1 \<or> page third_page = Some (int_to_string 3))
       \<and> (limit third_page = None \<and> (10::int) = 100 \<or> limit third_page = Some (int_to_string 10))
       \<and> (1::int) \<le> 3 \<and> (3::int) < 2 ^ 53 \<and> (1::int) \<le> 10 \<and> (10::int) < 2 ^ 53
       \<and> (3 - 1) * 10 < (2::int) ^ 53 \<and> (0::int) \<le> 25 \<and> (25::int) < 2 ^ 53
       \<and> (search third_page = None \<or> search third_page = Some [])
       \<and> table_name_ok ''users'' \<and> connect paged_db = None
       \<and> run paged_db (''SELECT * FROM '' @ [CHR 0x22] @ ''users'' @ [CHR 0x22]
                 @ order_clause (sortBy third_page) (sortOrder third_page)
                 @ '' LIMIT $1 OFFSET $2'')
              [Number (Integer 10), Number (Integer ((3 - 1) * 10))]
            = Inr (selected [[(''id'', Number (Integer 21))]])
       \<and> run paged_db (''SELECT COUNT(*) FROM '' @ [CHR 0x22] @ ''users'' @ [CHR 0x22]) []
            = Inr (selected [[(''count'', Str ''25'')]])
       \<and> rows (selected [[(''count'', Str ''25'')]]) = [(''count'', Str ''25'')] # []
       \<and> map_of [(''count'', Str ''25'')] ''count'' = Some (Str (int_to_string 25))"
      using paged_db_answers(2) [of "[Number (Integer 10), Number (Integer 20)]"]
        paged_db_answers(3) [of "[]"]
      by (simp add: three ten count name paged_db_answers(1) third_page_def order_clause_def
          selected_def)
    have r: "\<lceil>real_of_int 25 / real_of_int 10\<rceil> = 3" by simp
    from exact [OF h] show ?thesis
      unfolding r by (simp add: third_page_def order_clause_def selected_def)
  qed
  have c2: "list_data None paged_db ''users'' plain_query =
     (\<lparr> status = 200, headers = [],
        body = JsonBody (Fields
          [(''tableName'', Val (Str ''users'')),
           (''data'', List [Fields [(''id'', Val (Number (Integer 21)))]]),
           (''pagination'', Fields
             [(''currentPage'', Val (Number (Integer 1))),
              (''limit'', Val (Number (Integer 100))),
              (''totalRows'', Val (Number (Integer 25))),
              (''totalPages'', Val (Number (Integer 1)))])]) \<rparr>,
      [Connect,
       Query (''SELECT * FROM '' @ [CHR 0x22] @ ''users'' @ [CHR 0x22] @ '' LIMIT $1 OFFSET $2'')
             [Number (Integer 100), Number (Integer 0)],
       Query (''SELECT COUNT(*) FROM '' @ [CHR 0x22] @ ''users'' @ [CHR 0x22]) [],
       End])"
  proof -
    have off: "times (minus_one (Integer 1)) (Integer 100) = Integer 0" by code_simp
    have total: "parseInt (Str ''25'') = Integer 25" by code_simp
    have pages: "ceil_of_quotient (Integer 25) (Integer 100) = Integer 1" by code_simp
    have h: "Integer 1 = (case page plain_query of None \<Rightarrow> Integer 1 | Some s \<Rightarrow> parseInt_string s)
       \<and> Integer 100 = (case limit plain_query of None \<Rightarrow> Integer 100 | Some s \<Rightarrow> parseInt_string s)
       \<and> table_name_ok ''users'' \<and> connect paged_db = None
       \<and> search_step paged_db ''users'' (search plain_query) [Connect] = (Inr ([], [], 0), [Connect])
       \<and> run paged_db (''SELECT * FROM '' @ [CHR 0x22] @ ''users'' @ [CHR 0x22] @ []
                 @ order_clause (sortBy plain_query) (sortOrder plain_query)
                 @ '' LIMIT $'' @ decimal (0 + 1) @ '' OFFSET $'' @ decimal (0 + 2))
              ([] @ [Number (Integer 100), Number (times (minus_one (Integer 1)) (Integer 100))])
            = Inr (selected [[(''id'', Number (Integer 21))]])
       \<and> run paged_db (''SELECT COUNT(*) FROM '' @ [CHR 0x22] @ ''users'' @ [CHR 0x22] @ []) []
            = Inr (selected [[(''count'', Str ''25'')]])
       \<and> rows (selected [[(''count'', Str ''25'')]]) = [(''count'', Str ''25'')] # []"
      using paged_db_answers(2) [of "[Number (Integer 100), Number (Integer 0)]"]
        paged_db_answers(3) [of "[]"]
      by (simp add: name paged_db_answers(1) plain_query_def order_clause_def selected_def
          no_search off decimal_small)
    from general [OF h] show ?thesis
      by (simp add: plain_query_def order_clause_def selected_def off total pages decimal_small)
  qed
  have c3: "\<exists>w ps evs1 (dataResult :: query_result).
        snd (list_data None paged_db ''users'' third_page) =
          evs1 @ [Query (''SELECT * FROM '' @ [CHR 0x22] @ ''users'' @ [CHR 0x22] @ w
                         @ '' LIMIT $'' @ decimal (length ps + 1)
                         @ '' OFFSET $'' @ decimal (length ps + 2))
                        (ps @ [Number (Integer 10), Number (Integer 20)]),
                  Query (''SELECT COUNT(*) FROM '' @ [CHR 0x22] @ ''users'' @ [CHR 0x22] @ w) ps,
                  End]"
  proof -
    have off: "times (minus_one (Integer 3)) (Integer 10) = Integer 20" by code_simp
    have h: "status (fst (list_data None paged_db ''users'' third_page)) = 200
       \<and> Integer 3 = (case page third_page of None \<Rightarrow> Integer 1 | Some s \<Rightarrow> parseInt_string s)
       \<and> Integer 10 = (case limit third_page of None \<Rightarrow> Integer 100 | Some s \<Rightarrow> parseInt_string s)"
      unfolding c1 by (simp add: third_page_def parsed)
    from ok [OF h] obtain w ps evs1 and dataResult :: query_result and first where
      "list_data None paged_db ''users'' third_page =
       (\<lparr> status = 200, headers = [],
          body = JsonBody (Fields
            [(''tableName'', Val (Str ''users'')),
             (''data'', List (map (\<lambda>r. Fields (map (\<lambda>(k, v). (k, Val v)) r)) (rows dataResult))),
             (''pagination'', Fields
               [(''currentPage'', Val (Number (Integer 3))),
                (''limit'', Val (Number (Integer 10))),
                (''totalRows'',
                   Val (Number (parseInt (case map_of first ''count'' of
                                            None \<Rightarrow> Undefined | Some v \<Rightarrow> v)))),
                (''totalPages'',
                   Val (Number (ceil_of_quotient
                          (parseInt (case map_of first ''count'' of
                                       None \<Rightarrow> Undefined | Some v \<Rightarrow> v)) (Integer 10))))])]) \<rparr>,
        evs1 @ [Query (''SELECT * FROM '' @ [CHR 0x22] @ ''users'' @ [CHR 0x22] @ w
                       @ order_clause (sortBy third_page) (sortOrder third_page)
                       @ '' LIMIT $'' @ decimal (length ps + 1)
                       @ '' OFFSET $'' @ decimal (length ps + 2))
                      (ps @ [Number (Integer 10),
                             Number (times (minus_one (Integer 3)) (Integer 10))]),
                Query (''SELECT COUNT(*) FROM '' @ [CHR 0x22] @ ''users'' @ [CHR 0x22] @ w) ps,
                End])"
      by blast
    then have "snd (list_data None paged_db ''users'' third_page) =
        evs1 @ [Query (''SELECT * FROM '' @ [CHR 0x22] @ ''users'' @ [CHR 0x22] @ w
                       @ '' LIMIT $'' @ decimal (length ps + 1)
                       @ '' OFFSET $'' @ decimal (length ps + 2))
                      (ps @ [Number (Integer 10), Number (Integer 20)]),
                Query (''SELECT COUNT(*) FROM '' @ [CHR 0x22] @ ''users'' @ [CHR 0x22] @ w) ps,
                End]"
      by (simp add: off third_page_def order_clause_def)
    then show ?thesis by blast
  qed
  from c1 c2 c3 show ?thesis by (intro conjI)
qed

text \<open>
  Past \<open>2^53\<close> the numbers are rounded. The page 9007199254740993 is read as
  9007199254740992, and the offset sent for it with a limit of 10 is
  90071992547409904, where \<open>(page - 1) * limit\<close> is 90071992547409920.
\<close>

theorem list_offset_rounded:
  "page far_page = Some ''9007199254740993'' \<and> limit far_page = Some ''10''
   \<and> list_data None paged_db ''users'' far_page =
     (\<lparr> status = 200, headers = [],
        body = JsonBody (Fields
          [(''tableName'', Val (Str ''users'')),
           (''data'', List [Fields [(''id'', Val (Number (Integer 21)))]]),
           (''pagination'', Fields
             [(''currentPage'', Val (Number (Integer 9007199254740992))),
              (''limit'', Val (Number (Integer 10))),
              (''totalRows'', Val (Number (Integer 25))),
              (''totalPages'', Val (Number (Integer 3)))])]) \<rparr>,
      [Connect,
       Query (''SELECT * FROM '' @ [CHR 0x22] @ ''users'' @ [CHR 0x22] @ '' LIMIT $1 OFFSET $2'')
             [Number (Integer 10), Number (Integer 90071992547409904)],
       Query (''SELECT COUNT(*) FROM '' @ [CHR 0x22] @ ''users'' @ [CHR 0x22]) [],
       End])
   \<and> (9007199254740993 - 1) * 10 = (90071992547409920 :: int)"
proof -
  have a: "page far_page = Some ''9007199254740993''" "limit far_page = Some ''10''"
    by (simp_all add: far_page_def)
  have p: "parseInt_string ''9007199254740993'' = Integer 9007199254740992" by code_simp
  have l: "parseInt_string ''10'' = Integer 10" by code_simp
  have off: "times (minus_one (Integer 9007199254740992)) (Integer 10)
      = Integer 90071992547409904" by code_simp
  have total: "parseInt (Str ''25'') = Integer 25" by code_simp
  have pages: "ceil_of_quotient (Integer 25) (Integer 10) = Integer 3" by code_simp
  have name: "table_name_ok ''users''" by code_simp
  have s: "search_step paged_db ''users'' (search far_page) [Connect] = (Inr ([], [], 0), [Connect])"
    by (simp add: no_search far_page_def)
  have d: "run paged_db (''SELECT * FROM '' @ [CHR 0x22] @ ''users'' @ [CHR 0x22] @ []
                 @ order_clause (sortBy far_page) (sortOrder far_page)
                 @ '' LIMIT $'' @ decimal (0 + 1) @ '' OFFSET $'' @ decimal (0 + 2))
              ([] @ [Number (Integer 10),
                     Number (times (minus_one (Integer 9007199254740992)) (Integer 10))])
            = Inr (selected [[(''id'', Number (Integer 21))]])"
    using paged_db_answers(2) [of "[Number (Integer 10), Number (Integer 90071992547409904)]"]
    by (simp add: far_page_def order_clause_def off decimal_small)
  have n: "run paged_db (''SELECT COUNT(*) FROM '' @ [CHR 0x22] @ ''users'' @ [CHR 0x22] @ []) []
            = Inr (selected [[(''count'', Str ''25'')]])"
    using paged_db_answers(3) [of "[]"] by simp
  have r: "rows (selected [[(''count'', Str ''25'')]]) = [(''count'', Str ''25'')] # []"
    by (simp add: selected_def)
  have pp: "Integer 9007199254740992
      = (case page far_page of None \<Rightarrow> Integer 1 | Some s \<Rightarrow> parseInt_string s)"
    by (simp add: far_page_def p)
  have ll: "Integer 10
      = (case limit far_page of None \<Rightarrow> Integer 100 | Some s \<Rightarrow> parseInt_string s)"
    by (simp add: far_page_def l)
  from list_general [OF pp ll name paged_db_answers(1) s d n r, of None]
  have c: "list_data None paged_db ''users'' far_page =
     (\<lparr> status = 200, headers = [],
        body = JsonBody (Fields
          [(''tableName'', Val (Str ''users'')),
           (''data'', List [Fields [(''id'', Val (Number (Integer 21)))]]),
           (''pagination'', Fields
             [(''currentPage'', Val (Number (Integer 9007199254740992))),
              (''limit'', Val (Number (Integer 10))),
              (''totalRows'', Val (Number (Integer 25))),
              (''totalPages'', Val (Number (Integer 3)))])]) \<rparr>,
      [Connect,
       Query (''SELECT * FROM '' @ [CHR 0x22] @ ''users'' @ [CHR 0x22] @ '' LIMIT $1 OFFSET $2'')
             [Number (Integer 10), Number (Integer 90071992547409904)],
       Query (''SELECT COUNT(*) FROM '' @ [CHR 0x22] @ ''users'' @ [CHR 0x22]) [],
       End])"
    by (simp add: far_page_def order_clause_def selected_def off total pages decimal_small)
  have e: "(9007199254740993 - 1) * 10 = (90071992547409920 :: int)" by simp
  from a c e show ?thesis by (intro conjI)
qed

end
